theory Spec2Isabelle
  imports Complex_Main
begin

section \<open>Errors and results\<close>

text \<open>
  Every \<^verbatim>\<open>raise\<close> of \<^verbatim>\<open>diffusionlib/conditioning_method/jax.py\<close> and every
  exception of a library call it makes is a value of \<open>error\<close>. Both registry errors are
  Python's \<^verbatim>\<open>NameError\<close>; they differ by their message, which the constructor records
  together with the offending name. \<open>NotFinite\<close> stands for a floating-point result that
  is \<^verbatim>\<open>inf\<close> or \<^verbatim>\<open>nan\<close> (a division by zero): the arrays of this development hold
  real numbers, which have no such value.
\<close>

datatype error =
    NameError_already_registered string
  | NameError_not_defined string
  | TypeError
  | IndexError
  | UnboundLocalError string
  | LinearAlgebraError
  | ShapeError
  | NotFinite

definition and_then :: "error + 'a \<Rightarrow> ('a \<Rightarrow> error + 'b) \<Rightarrow> error + 'b" where
  "and_then m f = (case m of Inl e \<Rightarrow> Inl e | Inr v \<Rightarrow> f v)"

fun sequence :: "(error + 'a) list \<Rightarrow> error + 'a list" where
  "sequence [] = Inr []"
| "sequence (m # ms) =
     (case m of Inl e \<Rightarrow> Inl e
      | Inr v \<Rightarrow> (case sequence ms of Inl e \<Rightarrow> Inl e | Inr vs \<Rightarrow> Inr (v # vs)))"

section \<open>Arrays\<close>

text \<open>
  Arrays hold real numbers and are nested lists, outermost axis first: a vector of shape
  \<open>(n)\<close>, a matrix of shape \<open>(r, c)\<close> as the list of its rows, an array of rank three
  as a list of matrices. A signal batch \<open>x\<close> has shape \<open>(batch, d)\<close>. An array with an
  empty leading axis is read as having no columns.
\<close>

type_synonym vec = "real list"
type_synonym mat = "real list list"
type_synonym ten3 = "real list list list"

definition ncols :: "'a list list \<Rightarrow> nat" where
  "ncols m = (case m of [] \<Rightarrow> 0 | r # _ \<Rightarrow> length r)"

definition shape2 :: "'a list list \<Rightarrow> nat \<times> nat" where
  "shape2 m = (length m, ncols m)"

definition is_mat :: "nat \<Rightarrow> nat \<Rightarrow> 'a list list \<Rightarrow> bool" where
  "is_mat r c m = (length m = r \<and> list_all (\<lambda>row. length row = c) m)"

definition is_ten3 :: "nat \<Rightarrow> nat \<Rightarrow> nat \<Rightarrow> 'a list list list \<Rightarrow> bool" where
  "is_ten3 a r c T = (length T = a \<and> list_all (is_mat r c) T)"

definition rect :: "'a list list \<Rightarrow> bool" where
  "rect m = list_all (\<lambda>row. length row = ncols m) m"


definition eye :: "nat \<Rightarrow> mat" where
  "eye n = map (\<lambda>i. map (\<lambda>j. if i = j then 1 else 0) [0..<n]) [0..<n]"

definition unit_vec :: "nat \<Rightarrow> nat \<Rightarrow> vec" where
  "unit_vec n i = map (\<lambda>j. if j = i then 1 else 0) [0..<n]"

definition unit_mat :: "nat \<Rightarrow> nat \<Rightarrow> nat \<Rightarrow> nat \<Rightarrow> mat" where
  "unit_mat r c a b = map (\<lambda>i. map (\<lambda>j. if i = a \<and> j = b then 1 else 0) [0..<c]) [0..<r]"

definition ones_like :: "mat \<Rightarrow> mat" where
  "ones_like m = map (map (\<lambda>_. 1)) m"

definition dot :: "vec \<Rightarrow> vec \<Rightarrow> real" where
  "dot u v = sum_list (map2 (*) u v)"

text \<open>\<open>transpose_mat\<close> is \<^verbatim>\<open>M.T\<close> and the swap of the two leading axes of any nested array.\<close>

definition transpose_mat :: "'a list list \<Rightarrow> 'a list list" where
  "transpose_mat m = map (\<lambda>j. map (\<lambda>row. row ! j) m) [0..<ncols m]"

text \<open>
  \<open>vecmat n v M\<close> is the row vector \<open>v\<close> times the matrix \<open>M\<close> of \<open>n\<close> columns (the
  transposed Jacobian applied to a cotangent); \<open>mv M v\<close> is \<open>M\<close> times the column
  vector \<open>v\<close> (the Jacobian applied to a tangent).
\<close>

definition vecmat :: "nat \<Rightarrow> vec \<Rightarrow> mat \<Rightarrow> vec" where
  "vecmat n v M = map (\<lambda>k. sum_list (map2 (\<lambda>a row. a * row ! k) v M)) [0..<n]"

definition mv :: "mat \<Rightarrow> vec \<Rightarrow> vec" where
  "mv M v = map (\<lambda>row. dot row v) M"

text \<open>
  \<^verbatim>\<open>A @ b\<close> of the array library: a matrix times a vector, or times a matrix. The inner
  dimensions must agree.
\<close>

definition matvec :: "mat \<Rightarrow> vec \<Rightarrow> error + vec" where
  "matvec A b = (if rect A \<and> (A = [] \<or> ncols A = length b) then Inr (mv A b) else Inl ShapeError)"

definition matmul :: "mat \<Rightarrow> mat \<Rightarrow> error + mat" where
  "matmul A M =
     (if rect A \<and> rect M \<and> ncols A = length M
      then Inr (map (\<lambda>row. vecmat (ncols M) row M) A) else Inl ShapeError)"

text \<open>
  Elementwise operations follow the broadcasting rule of the array library along every
  axis: equal sizes, or one of them of size one.
\<close>

definition bcast :: "('a \<Rightarrow> 'b \<Rightarrow> error + 'c) \<Rightarrow> 'a list \<Rightarrow> 'b list \<Rightarrow> error + 'c list" where
  "bcast f xs ys =
     (if length xs = length ys then sequence (map2 f xs ys)
      else if length xs = 1 then sequence (map (f (hd xs)) ys)
      else if length ys = 1 then sequence (map (\<lambda>x. f x (hd ys)) xs)
      else Inl ShapeError)"

definition sub_vec :: "vec \<Rightarrow> vec \<Rightarrow> error + vec" where
  "sub_vec = bcast (\<lambda>a b. Inr (a - b))"

definition sub_mat :: "mat \<Rightarrow> mat \<Rightarrow> error + mat" where
  "sub_mat = bcast sub_vec"

definition add_vec :: "vec \<Rightarrow> vec \<Rightarrow> error + vec" where
  "add_vec = bcast (\<lambda>a b. Inr (a + b))"

definition add_mat :: "mat \<Rightarrow> mat \<Rightarrow> error + mat" where
  "add_mat = bcast add_vec"

definition mul_vec :: "vec \<Rightarrow> vec \<Rightarrow> error + vec" where
  "mul_vec = bcast (\<lambda>a b. Inr (a * b))"

definition mul_mat :: "mat \<Rightarrow> mat \<Rightarrow> error + mat" where
  "mul_mat = bcast mul_vec"

definition div_real :: "real \<Rightarrow> real \<Rightarrow> error + real" where
  "div_real a b = (if b = 0 then Inl NotFinite else Inr (a / b))"

definition div_vec :: "vec \<Rightarrow> vec \<Rightarrow> error + vec" where
  "div_vec = bcast div_real"

definition div_mat :: "mat \<Rightarrow> mat \<Rightarrow> error + mat" where
  "div_mat = bcast div_vec"

text \<open>A scalar (a Python float, or an array of shape \<open>(1)\<close>) against a whole array.\<close>

definition smul_mat :: "real \<Rightarrow> mat \<Rightarrow> mat" where
  "smul_mat c m = map (map (\<lambda>v. c * v)) m"

definition smul_ten3 :: "real \<Rightarrow> ten3 \<Rightarrow> ten3" where
  "smul_ten3 c T = map (smul_mat c) T"

definition sadd_mat :: "mat \<Rightarrow> real \<Rightarrow> mat" where
  "sadd_mat m c = map (map (\<lambda>v. v + c)) m"

definition div_mat_scalar :: "mat \<Rightarrow> real \<Rightarrow> error + mat" where
  "div_mat_scalar m c = sequence (map (\<lambda>row. sequence (map (\<lambda>v. div_real v c) row)) m)"

definition recip_mat :: "mat \<Rightarrow> error + mat" where
  "recip_mat m = sequence (map (\<lambda>row. sequence (map (\<lambda>v. div_real 1 v) row)) m)"

text \<open>An array of shape \<open>(batch, n, n)\<close> plus a matrix: the matrix is added to every sample.\<close>

definition add_ten3_mat :: "ten3 \<Rightarrow> mat \<Rightarrow> error + ten3" where
  "add_ten3_mat T M = sequence (map (\<lambda>A. add_mat A M) T)"

text \<open>
  \<^verbatim>\<open>reshape\<close> keeps the row-major order of the entries; \<open>reshape_infer r\<close> is
  \<^verbatim>\<open>reshape(r, -1)\<close>.
\<close>

definition reshape2 :: "nat \<Rightarrow> nat \<Rightarrow> 'a list \<Rightarrow> error + 'a list list" where
  "reshape2 r c xs =
     (if length xs = r * c then Inr (map (\<lambda>i. take c (drop (i * c) xs)) [0..<r])
      else Inl ShapeError)"

definition reshape_infer :: "nat \<Rightarrow> 'a list \<Rightarrow> error + 'a list list" where
  "reshape_infer r xs =
     (if r = 0 \<or> length xs mod r \<noteq> 0 then Inl ShapeError
      else reshape2 r (length xs div r) xs)"

definition reshape3 :: "nat \<Rightarrow> nat \<Rightarrow> nat \<Rightarrow> 'a list \<Rightarrow> error + 'a list list list" where
  "reshape3 a r c xs =
     (if length xs = a * r * c
      then sequence (map (\<lambda>i. reshape2 r c (take (r * c) (drop (i * (r * c)) xs))) [0..<a])
      else Inl ShapeError)"

definition tile :: "nat \<Rightarrow> mat \<Rightarrow> ten3" where
  "tile n m = replicate n m"

text \<open>\<^verbatim>\<open>jnp.transpose(T, axes)\<close> on an array of rank three: new axis \<open>k\<close> is old axis \<open>axes ! k\<close>.\<close>

definition jnp_transpose :: "nat list \<Rightarrow> 'a list list list \<Rightarrow> error + 'a list list list" where
  "jnp_transpose axes T =
     (if axes = [0, 1, 2] then Inr T
      else if axes = [1, 0, 2] then Inr (transpose_mat T)
      else if axes = [0, 2, 1] then Inr (map transpose_mat T)
      else if axes = [1, 2, 0] then Inr (map transpose_mat (transpose_mat T))
      else if axes = [2, 0, 1] then Inr (transpose_mat (map transpose_mat T))
      else if axes = [2, 1, 0] then Inr (transpose_mat (map transpose_mat (transpose_mat T)))
      else Inl ShapeError)"

definition diagonal :: "mat \<Rightarrow> vec" where
  "diagonal m = map (\<lambda>i. m ! i ! i) [0..<min (length m) (ncols m)]"

definition l2norm :: "mat \<Rightarrow> real" where
  "l2norm m = sqrt (sum_list (map (\<lambda>v. v * v) (concat m)))"

text \<open>
  The gradient of a broadcast operand sums over the axes that were broadcast: the
  cotangent \<open>c\<close> of the result is brought back to the shape of the operand.
\<close>

definition unbroadcast_vec :: "nat \<Rightarrow> vec \<Rightarrow> vec" where
  "unbroadcast_vec n c = (if length c = n then c else [sum_list c])"

definition unbroadcast_mat :: "nat \<times> nat \<Rightarrow> mat \<Rightarrow> mat" where
  "unbroadcast_mat shp c =
     (let c' = map (unbroadcast_vec (snd shp)) c
      in if length c' = fst shp then c'
         else [map (\<lambda>k. sum_list (map (\<lambda>row. row ! k) c')) [0..<snd shp]])"

text \<open>Arrays of any rank, as a shape and the entries in row-major order.\<close>

record ndarr =
  nd_shape :: "nat list"
  nd_data :: "real list"

definition nd_rows :: "ndarr \<Rightarrow> mat" where
  "nd_rows a = map (\<lambda>i. take (nd_shape a ! 1) (drop (i * (nd_shape a ! 1)) (nd_data a)))
     [0..<nd_shape a ! 0]"

definition nd_item :: "ndarr \<Rightarrow> real" where
  "nd_item a = hd (nd_data a)"


section \<open>Batched linear algebra helpers\<close>

text \<open>
  Modelled from the spec: the helpers \<^verbatim>\<open>batch_linalg_solve\<close>, \<^verbatim>\<open>batch_linalg_solve_A\<close>,
  \<^verbatim>\<open>batch_matmul\<close>, \<^verbatim>\<open>batch_matmul_A\<close>, \<^verbatim>\<open>batch_mul\<close> and \<^verbatim>\<open>batch_mul_A\<close> are imported
  from \<^verbatim>\<open>diffusionlib.util.misc\<close>, which is not among the sources. The spec has them as
  the batched solve, the batched matrix product and the batched elementwise scaling, one
  independent operation per sample along the leading axis; the \<^verbatim>\<open>_A\<close> forms hold their
  first argument fixed. The solve of a singular system fails with \<open>LinearAlgebraError\<close>.
  The solution of a regular system is unique, so it is given by Cramer's rule; the
  determinant is expanded along the first row.
\<close>

definition remove_nth :: "nat \<Rightarrow> 'a list \<Rightarrow> 'a list" where
  "remove_nth j xs = take j xs @ drop (Suc j) xs"

function det :: "mat \<Rightarrow> real" where
  "det [] = 1"
| "det (r # rs) =
     sum_list (map (\<lambda>j. (- 1) ^ j * r ! j * det (map (remove_nth j) rs)) [0..<length r])"
  by pat_completeness auto
termination
  by (relation "measure length") auto

definition replace_col :: "mat \<Rightarrow> nat \<Rightarrow> vec \<Rightarrow> mat" where
  "replace_col A j b = map2 (\<lambda>row v. row[j := v]) A b"

definition linalg_solve :: "mat \<Rightarrow> vec \<Rightarrow> error + vec" where
  "linalg_solve A b =
     (if \<not> is_mat (length b) (length b) A then Inl ShapeError
      else if det A = 0 then Inl LinearAlgebraError
      else Inr (map (\<lambda>j. det (replace_col A j b) / det A) [0..<length b]))"

definition batch_linalg_solve :: "ten3 \<Rightarrow> mat \<Rightarrow> error + mat" where
  "batch_linalg_solve A b =
     (if length A = length b then sequence (map2 linalg_solve A b) else Inl ShapeError)"

definition batch_linalg_solve_A :: "mat \<Rightarrow> mat \<Rightarrow> error + mat" where
  "batch_linalg_solve_A A b = sequence (map (linalg_solve A) b)"

definition batch_matmul :: "ten3 \<Rightarrow> mat \<Rightarrow> error + mat" where
  "batch_matmul A b =
     (if length A = length b then sequence (map2 matvec A b) else Inl ShapeError)"

definition batch_matmul_A :: "mat \<Rightarrow> mat \<Rightarrow> error + mat" where
  "batch_matmul_A A b = sequence (map (matvec A) b)"

text \<open>\<^verbatim>\<open>batch_matmul_A\<close> applied to an array of rank three: one matrix product per sample.\<close>

definition batch_matmul_A3 :: "mat \<Rightarrow> ten3 \<Rightarrow> error + ten3" where
  "batch_matmul_A3 A b = sequence (map (matmul A) b)"

definition batch_mul :: "mat \<Rightarrow> mat \<Rightarrow> error + mat" where
  "batch_mul a b =
     (if length a = length b then sequence (map2 mul_vec a b) else Inl ShapeError)"

definition batch_mul_A :: "mat \<Rightarrow> ten3 \<Rightarrow> error + ten3" where
  "batch_mul_A a b = sequence (map (mul_mat a) b)"

section \<open>The collaborators: time, SDE handle, observation map, differentiation\<close>

text \<open>
  The time argument \<open>t\<close> is an array of shape \<open>(batch, 1)\<close>, held as the list of its
  entries, or a scalar. \<^verbatim>\<open>t[0]\<close> needs an array with a first entry.
\<close>

datatype tarr = TCol vec | TScalar real

definition t_index0 :: "tarr \<Rightarrow> error + real" where
  "t_index0 t = (case t of TCol [] \<Rightarrow> Inl IndexError | TCol (v # _) \<Rightarrow> Inr v
                 | TScalar _ \<Rightarrow> Inl IndexError)"

text \<open>The time of every sample of a batch of \<open>n\<close>: a scalar is broadcast.\<close>

definition t_rows :: "tarr \<Rightarrow> nat \<Rightarrow> error + vec" where
  "t_rows t n = (case t of TCol ts \<Rightarrow> (if length ts = n then Inr ts else Inl ShapeError)
                 | TScalar v \<Rightarrow> Inr (replicate n v))"

text \<open>
  Modelled from the spec: the SDE handle is an argument of every constructor and its
  class is not among the sources. The spec has it as the posterior-mean estimate of the
  clean signal together with the unconditional score, computed per sample, and the two
  variance coefficients \<open>ratio(t)\<close> and \<open>r2(t, data_variance)\<close>. A differentiable function
  is held with its Jacobian, which is what the differentiation engine derives from it:
  \<open>mean_jac\<close> is the Jacobian of \<open>mean_est\<close> in the sample.
\<close>

record sde =
  mean_est :: "vec \<Rightarrow> real \<Rightarrow> vec"
  mean_jac :: "vec \<Rightarrow> real \<Rightarrow> mat"
  score :: "vec \<Rightarrow> real \<Rightarrow> vec"
  ratio :: "real \<Rightarrow> real"
  r2 :: "real \<Rightarrow> real \<Rightarrow> real"

text \<open>An observation map on one sample, with its Jacobian; \<^verbatim>\<open>lambda x: x\<close> is \<open>identity_obs\<close>.\<close>

record obs =
  obs_fun :: "vec \<Rightarrow> vec"
  obs_jac :: "vec \<Rightarrow> mat"

definition identity_obs :: obs where
  "identity_obs = \<lparr>obs_fun = (\<lambda>v. v), obs_jac = (\<lambda>v. eye (length v))\<rparr>"

text \<open>
  A differentiable function of the batch: its value with the auxiliary output (the
  score), the pullback of a cotangent and the pushforward of a tangent at a point.
\<close>

record dfun =
  fwd :: "mat \<Rightarrow> error + mat \<times> mat"
  pullback :: "mat \<Rightarrow> mat \<Rightarrow> error + mat"
  pushfwd :: "mat \<Rightarrow> mat \<Rightarrow> error + mat"

text \<open>The same for a function of one sample.\<close>

record dfunv =
  fwdv :: "vec \<Rightarrow> vec \<times> vec"
  pullbackv :: "vec \<Rightarrow> vec \<Rightarrow> vec"
  pushfwdv :: "vec \<Rightarrow> vec \<Rightarrow> vec"

text \<open>
  Modelled from the spec: \<^verbatim>\<open>sde.get_estimate_x_0(observation_map, shape)\<close> is the
  function \<open>(x, t) \<mapsto> (h(x0), (s, aux))\<close> on a batch: the posterior mean and the score of
  every sample at its time, the mean reshaped to \<open>shape = (r, -1)\<close> when a shape is given,
  and the observation map applied to every row. Its derivative in \<open>x\<close> composes the
  Jacobians of the three steps.
\<close>

definition est_reshape :: "nat option \<Rightarrow> mat \<Rightarrow> error + mat" where
  "est_reshape shp m = (case shp of None \<Rightarrow> Inr m | Some r \<Rightarrow> reshape_infer r (concat m))"

definition est_unreshape :: "nat option \<Rightarrow> mat \<Rightarrow> mat \<Rightarrow> error + mat" where
  "est_unreshape shp x_0 u =
     (case shp of None \<Rightarrow> Inr u | Some r \<Rightarrow> reshape2 (length x_0) (ncols x_0) (concat u))"

definition get_estimate_x_0 :: "sde \<Rightarrow> obs \<Rightarrow> nat option \<Rightarrow> tarr \<Rightarrow> dfun" where
  "get_estimate_x_0 sd h shp t =
     \<lparr>fwd = (\<lambda>x.
        and_then (t_rows t (length x)) (\<lambda>ts.
        and_then (est_reshape shp (map2 (mean_est sd) x ts)) (\<lambda>x_0.
        Inr (map (obs_fun h) x_0, map2 (score sd) x ts)))),
      pullback = (\<lambda>x c.
        and_then (t_rows t (length x)) (\<lambda>ts.
        and_then (est_reshape shp (map2 (mean_est sd) x ts)) (\<lambda>x_0.
        and_then (est_unreshape shp (map2 (mean_est sd) x ts)
                    (map2 (\<lambda>cb x0b. vecmat (length x0b) cb (obs_jac h x0b)) c x_0)) (\<lambda>u.
        Inr (map2 (\<lambda>ub (xb, tb). vecmat (length xb) ub (mean_jac sd xb tb)) u (zip x ts)))))),
      pushfwd = (\<lambda>x v.
        and_then (t_rows t (length x)) (\<lambda>ts.
        and_then (est_reshape shp (map2 (mean_est sd) x ts)) (\<lambda>x_0.
        and_then (est_reshape shp (map2 (\<lambda>vb (xb, tb). mv (mean_jac sd xb tb) vb) v (zip x ts))) (\<lambda>w.
        Inr (map2 (\<lambda>wb x0b. mv (obs_jac h x0b) wb) w x_0)))))\<rparr>"

text \<open>
  Modelled from the spec: \<^verbatim>\<open>sde.get_estimate_x_0_vmap(observation_map)\<close> is the same
  estimate on one sample and its time, fit for mapping over a batch axis.
\<close>

definition get_estimate_x_0_vmap :: "sde \<Rightarrow> obs \<Rightarrow> real \<Rightarrow> dfunv" where
  "get_estimate_x_0_vmap sd h tb =
     \<lparr>fwdv = (\<lambda>xb. (obs_fun h (mean_est sd xb tb), score sd xb tb)),
      pullbackv = (\<lambda>xb c.
        vecmat (length xb) (vecmat (length (mean_est sd xb tb)) c (obs_jac h (mean_est sd xb tb)))
          (mean_jac sd xb tb)),
      pushfwdv = (\<lambda>xb v. mv (obs_jac h (mean_est sd xb tb)) (mv (mean_jac sd xb tb) v))\<rparr>"

text \<open>
  The primitives of the differentiation engine. \<^verbatim>\<open>vjp(f, x, has_aux=True)\<close> returns the
  value, the pullback and the auxiliary output; the pullback refuses a cotangent whose
  shape is not the shape of the value. \<^verbatim>\<open>vmap(f)\<close> maps over the leading axis of its
  arguments, which must have the same size. \<^verbatim>\<open>jacrev\<close> builds the Jacobian row by row from
  pullbacks of unit cotangents, \<^verbatim>\<open>jacfwd\<close> column by column from pushforwards of unit
  tangents.
\<close>

definition jax_vjp :: "dfun \<Rightarrow> mat \<Rightarrow> error + mat \<times> (mat \<Rightarrow> error + mat) \<times> mat" where
  "jax_vjp F x =
     and_then (fwd F x) (\<lambda>(out, aux).
     Inr (out,
          (\<lambda>c. if shape2 c = shape2 out \<and> rect c then pullback F x c else Inl ShapeError),
          aux))"

definition jax_vmap :: "('a \<Rightarrow> error + 'b) \<Rightarrow> 'a list \<Rightarrow> error + 'b list" where
  "jax_vmap f xs = sequence (map f xs)"

definition jax_vmap2 :: "(vec \<Rightarrow> real \<Rightarrow> error + 'b) \<Rightarrow> mat \<Rightarrow> tarr \<Rightarrow> error + 'b list" where
  "jax_vmap2 f x t =
     (case t of TScalar _ \<Rightarrow> Inl ShapeError
      | TCol ts \<Rightarrow> (if length ts = length x then sequence (map2 f x ts) else Inl ShapeError))"

definition jax_jacrev :: "dfunv \<Rightarrow> vec \<Rightarrow> mat" where
  "jax_jacrev F xb =
     (let n = length (fst (fwdv F xb))
      in map (\<lambda>i. pullbackv F xb (unit_vec n i)) [0..<n])"

definition jax_jacfwd :: "dfunv \<Rightarrow> vec \<Rightarrow> mat" where
  "jax_jacfwd F xb =
     (let n = length (fst (fwdv F xb));
          cols = map (\<lambda>k. pushfwdv F xb (unit_vec (length xb) k)) [0..<length xb]
      in map (\<lambda>i. map (\<lambda>col. col ! i) cols) [0..<n])"

text \<open>
  \<^verbatim>\<open>jacrev(lambda _x: f(jnp.expand_dims(_x, axis=0))[0])\<close> for a batch function \<open>f\<close>: the
  sample becomes a batch of one, and the Jacobian has the shape of the value followed by
  the shape of the sample. \<open>jax_jacfwd_b\<close> is the same with \<^verbatim>\<open>jacfwd\<close>.
\<close>

definition squeeze0 :: "'a list \<Rightarrow> error + 'a" where
  "squeeze0 g = (case g of [v] \<Rightarrow> Inr v | _ \<Rightarrow> Inl ShapeError)"

definition jax_jacrev_b :: "dfun \<Rightarrow> vec \<Rightarrow> error + ten3" where
  "jax_jacrev_b F xb =
     and_then (fwd F [xb]) (\<lambda>(out, aux).
     sequence (map (\<lambda>r. sequence (map (\<lambda>i.
        and_then (pullback F [xb] (unit_mat (length out) (ncols out) r i)) squeeze0)
        [0..<ncols out])) [0..<length out]))"

definition jax_jacfwd_b :: "dfun \<Rightarrow> vec \<Rightarrow> error + ten3" where
  "jax_jacfwd_b F xb =
     and_then (fwd F [xb]) (\<lambda>(out, aux).
     and_then (sequence (map (\<lambda>k. pushfwd F [xb] [unit_vec (length xb) k]) [0..<length xb])) (\<lambda>cols.
     Inr (map (\<lambda>r. map (\<lambda>i. map (\<lambda>col. col ! r ! i) cols) [0..<ncols out]) [0..<length out])))"

text \<open>\<^verbatim>\<open>jnp.squeeze(T, axis=1)\<close>: the second axis must have size one.\<close>

definition squeeze1 :: "'a list list \<Rightarrow> error + 'a list" where
  "squeeze1 T = sequence (map squeeze0 T)"


text \<open>
  \<^verbatim>\<open>grad(f, has_aux=True)\<close> of a scalar function: the gradient in the first argument and
  the auxiliary output. A scalar function is held with its gradient.
\<close>

record sfun =
  sval :: "mat \<Rightarrow> error + real \<times> mat"
  sgrad :: "mat \<Rightarrow> error + mat"

definition jax_grad :: "sfun \<Rightarrow> mat \<Rightarrow> error + mat \<times> mat" where
  "jax_grad L x = and_then (sval L x) (\<lambda>(v, aux). and_then (sgrad L x) (\<lambda>g. Inr (g, aux)))"

section \<open>The guidance methods\<close>

text \<open>
  Each class of \<^verbatim>\<open>jax.py\<close> stores its constructor arguments;
  \<^verbatim>\<open>get_guidance_score_func\<close> returns the closure \<^verbatim>\<open>guidance_score(x, t)\<close>. The
  functions below follow the bodies line by line, with the names of the local variables.
  The shape descriptor \<^verbatim>\<open>self.shape\<close> is \<open>(batch, d)\<close>.
\<close>

subsection \<open>DPS\<close>

text \<open>
  \<^verbatim>\<open>l2_norm(x, t)\<close> returns \<^verbatim>\<open>jnp.linalg.norm(y - h_x_0)\<close>, one number for the whole
  batch, and the score. Its gradient runs the cotangent \<open>innovation / norm\<close> of the norm
  back through the subtraction and the estimate; at a zero innovation it is not finite.
\<close>

definition get_l2_norm :: "mat \<Rightarrow> (tarr \<Rightarrow> dfun) \<Rightarrow> tarr \<Rightarrow> sfun" where
  "get_l2_norm y estimate_h_x_0 t =
     \<lparr>sval = (\<lambda>x.
        and_then (fwd (estimate_h_x_0 t) x) (\<lambda>(h_x_0, s).
        and_then (sub_mat y h_x_0) (\<lambda>innovation.
        Inr (l2norm innovation, s)))),
      sgrad = (\<lambda>x.
        and_then (fwd (estimate_h_x_0 t) x) (\<lambda>(h_x_0, s).
        and_then (sub_mat y h_x_0) (\<lambda>innovation.
        if l2norm innovation = 0 then Inl NotFinite
        else pullback (estimate_h_x_0 t) x
               (unbroadcast_mat (shape2 h_x_0)
                  (map (map (\<lambda>r. - (r / l2norm innovation))) innovation)))))\<rparr>"

definition DPS_guidance_score :: "sde \<Rightarrow> obs \<Rightarrow> mat \<Rightarrow> real \<Rightarrow> mat \<Rightarrow> tarr \<Rightarrow> error + mat" where
  "DPS_guidance_score sd observation_map y scale x t =
     (let estimate_h_x_0 = get_estimate_x_0 sd observation_map None;
          l2_norm = get_l2_norm y estimate_h_x_0;
          likelihood_score = (\<lambda>x t. jax_grad (l2_norm t) x)
      in and_then (likelihood_score x t) (\<lambda>(ls, s).
         sub_mat s (smul_mat scale ls)))"

subsection \<open>DPSMod\<close>

definition DPSMod_guidance_score :: "sde \<Rightarrow> obs \<Rightarrow> mat \<Rightarrow> real \<Rightarrow> mat \<Rightarrow> tarr \<Rightarrow> error + mat" where
  "DPSMod_guidance_score sd observation_map y noise_std x t =
     (let estimate_h_x_0 = get_estimate_x_0 sd observation_map None
      in and_then (jax_vjp (estimate_h_x_0 t) x) (\<lambda>(h_x_0, vjp_estimate_h_x_0, s).
         and_then (sub_mat y h_x_0) (\<lambda>innovation.
         let C_yy = noise_std ^ 2
         in and_then (div_mat_scalar innovation C_yy) (\<lambda>ls.
            and_then (vjp_estimate_h_x_0 ls) (\<lambda>ls.
            add_mat s ls)))))"

subsection \<open>PIG\<close>

text \<open>
  The two branches test \<^verbatim>\<open>self.HHT.shape\<close>; when neither matches, \<^verbatim>\<open>f\<close> has no value at
  \<^verbatim>\<open>vjp_estimate_h_x_0(f)\<close>. \<open>PIG_C_yy\<close> is the matrix of the first branch.
\<close>

definition PIG_C_yy :: "sde \<Rightarrow> mat \<Rightarrow> real \<Rightarrow> ndarr \<Rightarrow> tarr \<Rightarrow> error + mat" where
  "PIG_C_yy sd y noise_std HHT t =
     and_then (t_index0 t) (\<lambda>t0.
     add_mat (smul_mat (r2 sd t0 1) (nd_rows HHT)) (smul_mat (noise_std ^ 2) (eye (ncols y))))"

definition PIG_guidance_score ::
  "sde \<Rightarrow> obs \<Rightarrow> mat \<Rightarrow> real \<Rightarrow> ndarr \<Rightarrow> mat \<Rightarrow> tarr \<Rightarrow> error + mat" where
  "PIG_guidance_score sd observation_map y noise_std HHT x t =
     (let estimate_h_x_0 = get_estimate_x_0 sd observation_map None
      in and_then (jax_vjp (estimate_h_x_0 t) x) (\<lambda>(h_x_0, vjp_estimate_h_x_0, s).
         and_then (sub_mat y h_x_0) (\<lambda>innovation.
         and_then
           (if nd_shape HHT = [ncols y, ncols y] then
              and_then (PIG_C_yy sd y noise_std HHT t) (\<lambda>C_yy.
              batch_linalg_solve_A C_yy innovation)
            else if nd_shape HHT = [1] then
              and_then (t_index0 t) (\<lambda>t0.
              let C_yy = r2 sd t0 1 * nd_item HHT + noise_std ^ 2
              in div_mat_scalar innovation C_yy)
            else Inl (UnboundLocalError ''f'')) (\<lambda>f.
         and_then (vjp_estimate_h_x_0 f) (\<lambda>ls.
         add_mat s ls)))))"

subsection \<open>VJPAlt and VJP\<close>

text \<open>
  \<open>covariance_full\<close> is the expression
  \<^verbatim>\<open>ratio(t[0]) * M + noise_std**2 * jnp.eye(y.shape[1])\<close> that all full-covariance
  variants share, evaluated left to right.
\<close>

definition covariance_full :: "sde \<Rightarrow> tarr \<Rightarrow> error + ten3 \<Rightarrow> real \<Rightarrow> mat \<Rightarrow> error + ten3" where
  "covariance_full sd t M noise_std y =
     and_then (t_index0 t) (\<lambda>t0.
     and_then M (\<lambda>M.
     add_ten3_mat (smul_ten3 (ratio sd t0) M) (smul_mat (noise_std ^ 2) (eye (ncols y)))))"

definition VJPAlt_batch_H :: "mat \<Rightarrow> nat \<times> nat \<Rightarrow> error + ten3" where
  "VJPAlt_batch_H H shape =
     (let shape' = (length H, snd shape);
          axes = [1, 0] @ drop 2 [0..<2 + 1]
      in and_then (reshape2 (fst shape') (snd shape') (concat H)) (\<lambda>Hr.
         jnp_transpose axes (tile (fst shape) Hr)))"

text \<open>
  The part of \<^verbatim>\<open>guidance_score\<close> up to the arguments of the batched solve: \<open>C_yy\<close>, the
  innovation, and what the rest of the body still uses.
\<close>

definition VJPAlt_C_yy_innovation ::
  "sde \<Rightarrow> mat \<Rightarrow> mat \<Rightarrow> real \<Rightarrow> nat \<times> nat \<Rightarrow> ten3 \<Rightarrow> mat \<Rightarrow> tarr
     \<Rightarrow> error + ten3 \<times> mat \<times> (mat \<Rightarrow> error + mat) \<times> mat" where
  "VJPAlt_C_yy_innovation sd H y noise_std shape batch_H x t =
     (let estimate_x_0 = get_estimate_x_0 sd identity_obs None
      in and_then (jax_vjp (estimate_x_0 t) x) (\<lambda>(x_0, vjp_x_0, s).
         let vec_vjp_x_0 = jax_vmap vjp_x_0
         in and_then (vec_vjp_x_0 batch_H) (\<lambda>H_grad_x_0.
            and_then (reshape3 (length H) (fst shape) (ncols H) (concat (concat H_grad_x_0)))
              (\<lambda>H_grad_x_0.
            and_then (covariance_full sd t
                        (and_then (jnp_transpose [1, 2, 0] H_grad_x_0) (batch_matmul_A3 H))
                        noise_std y) (\<lambda>C_yy.
            and_then (reshape_infer (fst shape) (concat x_0)) (\<lambda>x_0r.
            and_then (batch_matmul_A H x_0r) (\<lambda>Hx.
            and_then (sub_mat y Hx) (\<lambda>innovation.
            Inr (C_yy, innovation, vjp_x_0, s)))))))))"

definition VJPAlt_guidance_score ::
  "sde \<Rightarrow> mat \<Rightarrow> mat \<Rightarrow> real \<Rightarrow> nat \<times> nat \<Rightarrow> ten3 \<Rightarrow> mat \<Rightarrow> tarr \<Rightarrow> error + mat" where
  "VJPAlt_guidance_score sd H y noise_std shape batch_H x t =
     and_then (VJPAlt_C_yy_innovation sd H y noise_std shape batch_H x t)
       (\<lambda>(C_yy, innovation, vjp_x_0, s).
     and_then (batch_linalg_solve C_yy innovation) (\<lambda>f.
     and_then (batch_matmul_A (transpose_mat H) f) (\<lambda>Htf.
     and_then (reshape2 (fst shape) (snd shape) (concat Htf)) (\<lambda>c.
     and_then (vjp_x_0 c) (\<lambda>ls.
     add_mat s ls)))))"

definition VJP_batch_H :: "mat \<Rightarrow> nat \<times> nat \<Rightarrow> error + ten3" where
  "VJP_batch_H H shape = jnp_transpose [1, 0, 2] (tile (fst shape) H)"

definition VJP_C_yy_innovation ::
  "sde \<Rightarrow> mat \<Rightarrow> mat \<Rightarrow> real \<Rightarrow> nat \<times> nat \<Rightarrow> ten3 \<Rightarrow> mat \<Rightarrow> tarr
     \<Rightarrow> error + ten3 \<times> mat \<times> ten3 \<times> mat" where
  "VJP_C_yy_innovation sd H y noise_std shape batch_H x t =
     (let estimate_x_0 = get_estimate_x_0 sd identity_obs (Some (fst shape))
      in and_then (jax_vjp (estimate_x_0 t) x) (\<lambda>(x_0, vjp_x_0, s).
         let vec_vjp_x_0 = jax_vmap vjp_x_0
         in and_then (vec_vjp_x_0 batch_H) (\<lambda>H_grad_x_0.
            and_then (reshape3 (length H) (fst shape) (ncols H) (concat (concat H_grad_x_0)))
              (\<lambda>H_grad_x_0.
            and_then (covariance_full sd t
                        (and_then (jnp_transpose [1, 2, 0] H_grad_x_0) (batch_matmul_A3 H))
                        noise_std y) (\<lambda>C_yy.
            and_then (batch_matmul_A H x_0) (\<lambda>Hx.
            and_then (sub_mat y Hx) (\<lambda>innovation.
            Inr (C_yy, innovation, H_grad_x_0, s))))))))"

definition VJP_guidance_score ::
  "sde \<Rightarrow> mat \<Rightarrow> mat \<Rightarrow> real \<Rightarrow> nat \<times> nat \<Rightarrow> ten3 \<Rightarrow> mat \<Rightarrow> tarr \<Rightarrow> error + mat" where
  "VJP_guidance_score sd H y noise_std shape batch_H x t =
     and_then (VJP_C_yy_innovation sd H y noise_std shape batch_H x t)
       (\<lambda>(C_yy, innovation, H_grad_x_0, s).
     and_then (batch_linalg_solve C_yy innovation) (\<lambda>f.
     and_then (jnp_transpose [1, 2, 0] H_grad_x_0) (\<lambda>T.
     and_then (batch_matmul T f) (\<lambda>ls.
     and_then (reshape2 (length s) (ncols s) (concat ls)) (\<lambda>ls.
     add_mat s ls)))))"


subsection \<open>VJPMask\<close>

definition VJPMask_guidance_score ::
  "sde \<Rightarrow> obs \<Rightarrow> mat \<Rightarrow> real \<Rightarrow> nat \<times> nat \<Rightarrow> mat \<Rightarrow> tarr \<Rightarrow> error + mat" where
  "VJPMask_guidance_score sd observation_map y noise_std shape x t =
     (let estimate_h_x_0 = get_estimate_x_0 sd observation_map None;
          batch_observation_map = map (obs_fun observation_map)
      in and_then (jax_vjp (estimate_h_x_0 t) x) (\<lambda>(h_x_0, vjp_h_x_0, s).
         and_then (vjp_h_x_0 (batch_observation_map (ones_like x))) (\<lambda>g.
         let diag = batch_observation_map g
         in and_then (t_index0 t) (\<lambda>t0.
            let C_yy = sadd_mat (smul_mat (ratio sd t0) diag) (noise_std ^ 2)
            in and_then (sub_mat y h_x_0) (\<lambda>innovation.
               and_then (div_mat innovation C_yy) (\<lambda>ls.
               and_then (vjp_h_x_0 ls) (\<lambda>ls.
               add_mat s ls)))))))"

subsection \<open>JacRev and JacFwd\<close>

text \<open>
  The two bodies differ in the differentiation primitive only. The permutation
  \<^verbatim>\<open>axes\<close> is computed from the length of \<^verbatim>\<open>self.shape\<close>, which is two.
\<close>

definition JacRev_C_yy_innovation ::
  "sde \<Rightarrow> obs \<Rightarrow> mat \<Rightarrow> real \<Rightarrow> nat \<times> nat \<Rightarrow> mat \<Rightarrow> tarr
     \<Rightarrow> error + ten3 \<times> mat \<times> ten3 \<times> mat" where
  "JacRev_C_yy_innovation sd observation_map y noise_std shape x t =
     (let batch_batch_observation_map = map (map (obs_fun observation_map));
          estimate_h_x_0 = get_estimate_x_0 sd observation_map None;
          estimate_h_x_0_vmap = get_estimate_x_0_vmap sd observation_map;
          jacrev_vmap = jax_vmap2 (\<lambda>xb tb. Inr (jax_jacrev (estimate_h_x_0_vmap tb) xb))
      in and_then (fwd (estimate_h_x_0 t) x) (\<lambda>(h_x_0, s).
         and_then (jacrev_vmap x t) (\<lambda>grad_H_x_0.
         let H_grad_H_x_0 = batch_batch_observation_map grad_H_x_0
         in and_then (covariance_full sd t (Inr H_grad_H_x_0) noise_std y) (\<lambda>C_yy.
            and_then (sub_mat y h_x_0) (\<lambda>innovation.
            Inr (C_yy, innovation, grad_H_x_0, s))))))"

definition JacRev_guidance_score ::
  "sde \<Rightarrow> obs \<Rightarrow> mat \<Rightarrow> real \<Rightarrow> nat \<times> nat \<Rightarrow> mat \<Rightarrow> tarr \<Rightarrow> error + mat" where
  "JacRev_guidance_score sd observation_map y noise_std shape x t =
     (let axes = [0] @ drop 2 [0..<2 + 1] @ [1]
      in and_then (JacRev_C_yy_innovation sd observation_map y noise_std shape x t)
           (\<lambda>(C_yy, innovation, grad_H_x_0, s).
         and_then (batch_linalg_solve C_yy innovation) (\<lambda>f.
         and_then (jnp_transpose axes grad_H_x_0) (\<lambda>T.
         and_then (batch_matmul T f) (\<lambda>ls.
         and_then (reshape2 (length s) (ncols s) (concat ls)) (\<lambda>ls.
         add_mat s ls))))))"

definition JacFwd_C_yy_innovation ::
  "sde \<Rightarrow> obs \<Rightarrow> mat \<Rightarrow> real \<Rightarrow> nat \<times> nat \<Rightarrow> mat \<Rightarrow> tarr
     \<Rightarrow> error + ten3 \<times> mat \<times> ten3 \<times> mat" where
  "JacFwd_C_yy_innovation sd observation_map y noise_std shape x t =
     (let batch_batch_observation_map = map (map (obs_fun observation_map));
          estimate_h_x_0 = get_estimate_x_0 sd observation_map None;
          estimate_h_x_0_vmap = get_estimate_x_0_vmap sd observation_map;
          jacfwd_vmap = jax_vmap2 (\<lambda>xb tb. Inr (jax_jacfwd (estimate_h_x_0_vmap tb) xb))
      in and_then (fwd (estimate_h_x_0 t) x) (\<lambda>(h_x_0, s).
         and_then (jacfwd_vmap x t) (\<lambda>H_grad_x_0.
         let H_grad_H_x_0 = batch_batch_observation_map H_grad_x_0
         in and_then (covariance_full sd t (Inr H_grad_H_x_0) noise_std y) (\<lambda>C_yy.
            and_then (sub_mat y h_x_0) (\<lambda>innovation.
            Inr (C_yy, innovation, H_grad_x_0, s))))))"

definition JacFwd_guidance_score ::
  "sde \<Rightarrow> obs \<Rightarrow> mat \<Rightarrow> real \<Rightarrow> nat \<times> nat \<Rightarrow> mat \<Rightarrow> tarr \<Rightarrow> error + mat" where
  "JacFwd_guidance_score sd observation_map y noise_std shape x t =
     (let axes = [0] @ drop 2 [0..<2 + 1] @ [1]
      in and_then (JacFwd_C_yy_innovation sd observation_map y noise_std shape x t)
           (\<lambda>(C_yy, innovation, H_grad_x_0, s).
         and_then (batch_linalg_solve C_yy innovation) (\<lambda>f.
         and_then (jnp_transpose axes H_grad_x_0) (\<lambda>T.
         and_then (batch_matmul T f) (\<lambda>ls.
         and_then (reshape2 (length s) (ncols s) (concat ls)) (\<lambda>ls.
         add_mat s ls))))))"

subsection \<open>JacRevDiagonal, VJPDiagonal and JacFwdDiagonal\<close>

text \<open>
  \<^verbatim>\<open>vec_jacrev(x, t)\<close> differentiates the batch estimate on every sample as a batch of
  one, at the time \<^verbatim>\<open>t.reshape(1, 1)\<close>; the caller passes \<^verbatim>\<open>t[0]\<close>.
\<close>

definition vec_jacrev :: "(tarr \<Rightarrow> dfun) \<Rightarrow> mat \<Rightarrow> real \<Rightarrow> error + ten3 list" where
  "vec_jacrev estimate_h_x_0 x t0 =
     jax_vmap (\<lambda>xb. jax_jacrev_b (estimate_h_x_0 (TCol [t0])) xb) x"

definition JacRevDiagonal_guidance_score ::
  "sde \<Rightarrow> obs \<Rightarrow> mat \<Rightarrow> real \<Rightarrow> nat \<times> nat \<Rightarrow> mat \<Rightarrow> tarr \<Rightarrow> error + mat" where
  "JacRevDiagonal_guidance_score sd observation_map y noise_std shape x t =
     (let estimate_h_x_0 = get_estimate_x_0 sd observation_map None;
          batch_batch_observation_map = map (map (obs_fun observation_map));
          axes = [0] @ drop 2 [0..<2 + 1] @ [1]
      in and_then (fwd (estimate_h_x_0 t) x) (\<lambda>(h_x_0, s).
         and_then (t_index0 t) (\<lambda>t0.
         and_then (vec_jacrev estimate_h_x_0 x t0) (\<lambda>J.
         and_then (squeeze1 J) (\<lambda>grad_H_x_0.
         let H_grad_H_x_0 = batch_batch_observation_map grad_H_x_0
         in and_then (t_index0 t) (\<lambda>t0.
            let C_yy = sadd_mat (smul_mat (ratio sd t0) (map diagonal H_grad_H_x_0))
                         (noise_std ^ 2)
            in and_then (sub_mat y h_x_0) (\<lambda>innovation.
               and_then (recip_mat C_yy) (\<lambda>rC.
               and_then (batch_mul innovation rC) (\<lambda>f.
               and_then (jnp_transpose axes grad_H_x_0) (\<lambda>T.
               and_then (batch_matmul T f) (\<lambda>ls.
               and_then (reshape2 (length s) (ncols s) (concat ls)) (\<lambda>ls.
               add_mat s ls))))))))))))"

definition VJPDiagonal_guidance_score ::
  "sde \<Rightarrow> mat \<Rightarrow> mat \<Rightarrow> real \<Rightarrow> nat \<times> nat \<Rightarrow> ten3 \<Rightarrow> mat \<Rightarrow> tarr \<Rightarrow> error + mat" where
  "VJPDiagonal_guidance_score sd H y noise_std shape batch_H x t =
     (let estimate_x_0 = get_estimate_x_0 sd identity_obs (Some (fst shape))
      in and_then (jax_vjp (estimate_x_0 t) x) (\<lambda>(x_0, vjp_x_0, s).
         let vec_vjp_x_0 = jax_vmap vjp_x_0
         in and_then (vec_vjp_x_0 batch_H) (\<lambda>H_grad_x_0.
            and_then (reshape3 (length H) (fst shape) (ncols H) (concat (concat H_grad_x_0)))
              (\<lambda>H_grad_x_0.
            and_then (jnp_transpose [1, 0, 2] H_grad_x_0) (\<lambda>T.
            and_then (batch_mul_A H T) (\<lambda>P.
            let diag_H_grad_H_x_0 = map (map sum_list) P
            in and_then (t_index0 t) (\<lambda>t0.
               let C_yy = sadd_mat (smul_mat (ratio sd t0) diag_H_grad_H_x_0) (noise_std ^ 2)
               in and_then (batch_matmul_A H x_0) (\<lambda>Hx.
                  and_then (sub_mat y Hx) (\<lambda>innovation.
                  and_then (recip_mat C_yy) (\<lambda>rC.
                  and_then (batch_mul innovation rC) (\<lambda>f.
                  and_then (batch_matmul_A (transpose_mat H) f) (\<lambda>Htf.
                  and_then (vjp_x_0 Htf) (\<lambda>ls.
                  add_mat s ls)))))))))))))"

definition vec_jacfwd :: "(tarr \<Rightarrow> dfun) \<Rightarrow> mat \<Rightarrow> real \<Rightarrow> error + ten3 list" where
  "vec_jacfwd estimate_h_x_0 x t0 =
     jax_vmap (\<lambda>xb. jax_jacfwd_b (estimate_h_x_0 (TCol [t0])) xb) x"

definition JacFwdDiagonal_guidance_score ::
  "sde \<Rightarrow> obs \<Rightarrow> mat \<Rightarrow> real \<Rightarrow> nat \<times> nat \<Rightarrow> mat \<Rightarrow> tarr \<Rightarrow> error + mat" where
  "JacFwdDiagonal_guidance_score sd observation_map y noise_std shape x t =
     (let estimate_h_x_0 = get_estimate_x_0 sd observation_map None;
          batch_batch_observation_map = map (map (obs_fun observation_map));
          axes = [0] @ drop 2 [0..<2 + 1] @ [1]
      in and_then (fwd (estimate_h_x_0 t) x) (\<lambda>(h_x_0, s).
         and_then (t_index0 t) (\<lambda>t0.
         and_then (vec_jacfwd estimate_h_x_0 x t0) (\<lambda>J.
         and_then (squeeze1 J) (\<lambda>H_grad_x_0.
         let H_grad_H_x_0 = batch_batch_observation_map H_grad_x_0
         in and_then (t_index0 t) (\<lambda>t0.
            let C_yy = sadd_mat (smul_mat (ratio sd t0) (map diagonal H_grad_H_x_0))
                         (noise_std ^ 2)
            in and_then (sub_mat y h_x_0) (\<lambda>innovation.
               and_then (recip_mat C_yy) (\<lambda>rC.
               and_then (batch_mul innovation rC) (\<lambda>f.
               and_then (jnp_transpose axes H_grad_x_0) (\<lambda>T.
               and_then (batch_matmul T f) (\<lambda>ls.
               and_then (reshape2 (length s) (ncols s) (concat ls)) (\<lambda>ls.
               add_mat s ls))))))))))))"

subsection \<open>The classes and their instances\<close>

text \<open>
  An instance holds the attributes its \<^verbatim>\<open>__init__\<close> stored.
  \<^verbatim>\<open>get_guidance_score_func\<close> can fail before it returns the closure (the tiled \<open>H\<close> of
  the VJP classes is built there); the closure fails or returns the corrected score.
\<close>

datatype guidance_method =
    DPS sde obs mat real
  | DPSMod sde obs mat real
  | PIG sde obs mat real ndarr
  | VJPAlt sde mat mat real "nat \<times> nat"
  | VJP sde mat mat real "nat \<times> nat"
  | VJPMask sde obs mat real "nat \<times> nat"
  | JacRev sde obs mat real "nat \<times> nat"
  | JacFwd sde obs mat real "nat \<times> nat"
  | JacRevDiagonal sde obs mat real "nat \<times> nat"
  | VJPDiagonal sde mat mat real "nat \<times> nat"
  | JacFwdDiagonal sde obs mat real "nat \<times> nat"

fun get_guidance_score_func :: "guidance_method \<Rightarrow> error + (mat \<Rightarrow> tarr \<Rightarrow> error + mat)" where
  "get_guidance_score_func (DPS sd h y scale) = Inr (DPS_guidance_score sd h y scale)"
| "get_guidance_score_func (DPSMod sd h y noise_std) = Inr (DPSMod_guidance_score sd h y noise_std)"
| "get_guidance_score_func (PIG sd h y noise_std HHT) =
     Inr (PIG_guidance_score sd h y noise_std HHT)"
| "get_guidance_score_func (VJPAlt sd H y noise_std shape) =
     and_then (VJPAlt_batch_H H shape) (\<lambda>batch_H.
     Inr (VJPAlt_guidance_score sd H y noise_std shape batch_H))"
| "get_guidance_score_func (VJP sd H y noise_std shape) =
     and_then (VJP_batch_H H shape) (\<lambda>batch_H.
     Inr (VJP_guidance_score sd H y noise_std shape batch_H))"
| "get_guidance_score_func (VJPMask sd h y noise_std shape) =
     Inr (VJPMask_guidance_score sd h y noise_std shape)"
| "get_guidance_score_func (JacRev sd h y noise_std shape) =
     Inr (JacRev_guidance_score sd h y noise_std shape)"
| "get_guidance_score_func (JacFwd sd h y noise_std shape) =
     Inr (JacFwd_guidance_score sd h y noise_std shape)"
| "get_guidance_score_func (JacRevDiagonal sd h y noise_std shape) =
     Inr (JacRevDiagonal_guidance_score sd h y noise_std shape)"
| "get_guidance_score_func (VJPDiagonal sd H y noise_std shape) =
     and_then (VJP_batch_H H shape) (\<lambda>batch_H.
     Inr (VJPDiagonal_guidance_score sd H y noise_std shape batch_H))"
| "get_guidance_score_func (JacFwdDiagonal sd h y noise_std shape) =
     Inr (JacFwdDiagonal_guidance_score sd h y noise_std shape)"

text \<open>Building the closure and calling it once.\<close>

definition guidance_score :: "guidance_method \<Rightarrow> mat \<Rightarrow> tarr \<Rightarrow> error + mat" where
  "guidance_score m x t = and_then (get_guidance_score_func m) (\<lambda>g. g x t)"


section \<open>The registry\<close>

text \<open>
  \<^verbatim>\<open>ConditioningMethodName\<close> is a string enumeration: its members are strings and are
  looked up in the dictionary as such.
\<close>

definition DIFFUSION_POSTERIOR_SAMPLING :: string where
  "DIFFUSION_POSTERIOR_SAMPLING = ''diffusion_posterior_sampling''"

definition DIFFUSION_POSTERIOR_SAMPLING_MOD :: string where
  "DIFFUSION_POSTERIOR_SAMPLING_MOD = ''diffusion_psoterior_sampling_mod''"

definition PSEUDO_INVERSE_GUIDANCE :: string where
  "PSEUDO_INVERSE_GUIDANCE = ''pseduo_inverse_guidance''"

definition VJP_GUIDANCE :: string where
  "VJP_GUIDANCE = ''vjp_guidance''"

definition VJP_GUIDANCE_ALT :: string where
  "VJP_GUIDANCE_ALT = ''vjp_guidance_alt''"

definition VJP_GUIDANCE_MASK :: string where
  "VJP_GUIDANCE_MASK = ''vjp_guidance_mask''"

definition VJP_GUIDANCE_DIAG :: string where
  "VJP_GUIDANCE_DIAG = ''vjp_guidance_diag''"

definition JAC_REV_GUIDANCE :: string where
  "JAC_REV_GUIDANCE = ''jac_rev_guidance''"

definition JAC_REV_GUIDANCE_DIAG :: string where
  "JAC_REV_GUIDANCE_DIAG = ''jac_rev_guidance_diag''"

definition JAC_FWD_GUIDANCE :: string where
  "JAC_FWD_GUIDANCE = ''jac_fwd_guidance''"

definition JAC_FWD_GUIDANCE_DIAG :: string where
  "JAC_FWD_GUIDANCE_DIAG = ''jac_fwd_guidance_diag''"

definition ConditioningMethodName :: "string list" where
  "ConditioningMethodName =
     [DIFFUSION_POSTERIOR_SAMPLING, DIFFUSION_POSTERIOR_SAMPLING_MOD, PSEUDO_INVERSE_GUIDANCE,
      VJP_GUIDANCE, VJP_GUIDANCE_ALT, VJP_GUIDANCE_MASK, VJP_GUIDANCE_DIAG, JAC_REV_GUIDANCE,
      JAC_REV_GUIDANCE_DIAG, JAC_FWD_GUIDANCE, JAC_FWD_GUIDANCE_DIAG]"

text \<open>
  The dictionary \<^verbatim>\<open>__CONDITIONING_METHOD__\<close> is passed and returned. The decorator tests
  \<^verbatim>\<open>__CONDITIONING_METHOD__.get(name, None)\<close> for truth: what it stored is a class, which
  is true, so the test is whether the name is bound. On the error nothing is stored.
\<close>

definition register_conditioning_method ::
  "string \<Rightarrow> 'c \<Rightarrow> (string \<rightharpoonup> 'c) \<Rightarrow> error + (string \<rightharpoonup> 'c)" where
  "register_conditioning_method name cls reg =
     (if reg name \<noteq> None then Inl (NameError_already_registered name)
      else Inr (reg(name \<mapsto> cls)))"

text \<open>A class is called with the arguments; what its constructor raises is raised.\<close>

definition get_conditioning_method ::
  "(string \<rightharpoonup> ('a \<Rightarrow> error + 'i)) \<Rightarrow> string \<Rightarrow> 'a \<Rightarrow> error + 'i" where
  "get_conditioning_method reg name args =
     (case reg name of None \<Rightarrow> Inl (NameError_not_defined name)
      | Some cls \<Rightarrow> cls args)"

text \<open>
  The two functions are the only code of the module that touches the dictionary. A call
  of either, with the dictionary it leaves behind:
\<close>

datatype ('a, 'i) registry_call = Register string "'a \<Rightarrow> error + 'i" | Get string 'a

fun run_call ::
  "(string \<rightharpoonup> ('a \<Rightarrow> error + 'i)) \<Rightarrow> ('a, 'i) registry_call
     \<Rightarrow> (string \<rightharpoonup> ('a \<Rightarrow> error + 'i)) \<times> (error + 'i option)" where
  "run_call reg (Register name cls) =
     (case register_conditioning_method name cls reg of
        Inl e \<Rightarrow> (reg, Inl e)
      | Inr reg' \<Rightarrow> (reg', Inr None))"
| "run_call reg (Get name args) =
     (case get_conditioning_method reg name args of
        Inl e \<Rightarrow> (reg, Inl e)
      | Inr v \<Rightarrow> (reg, Inr (Some v)))"

text \<open>
  The constructors take their arguments by position; a value of the wrong kind or a wrong
  number of arguments is a \<open>TypeError\<close> here. The defaults are \<^verbatim>\<open>scale=0.4\<close> and
  \<^verbatim>\<open>HHT=jnp.array([1.0])\<close>.
\<close>

datatype pyval = PSde sde | PObs obs | PMat mat | PReal real | PNd ndarr | PShape "nat \<times> nat"

definition DPS_new :: "pyval \<Rightarrow> pyval \<Rightarrow> pyval \<Rightarrow> pyval \<Rightarrow> error + guidance_method" where
  "DPS_new a b c d =
     (case (a, b, c, d) of (PSde sd, PObs h, PMat y, PReal scale) \<Rightarrow> Inr (DPS sd h y scale)
      | _ \<Rightarrow> Inl TypeError)"

definition DPS_init :: "pyval list \<Rightarrow> error + guidance_method" where
  "DPS_init args =
     (case args of [a, b, c] \<Rightarrow> DPS_new a b c (PReal 0.4)
      | [a, b, c, d] \<Rightarrow> DPS_new a b c d
      | _ \<Rightarrow> Inl TypeError)"

definition DPSMod_init :: "pyval list \<Rightarrow> error + guidance_method" where
  "DPSMod_init args =
     (case args of [PSde sd, PObs h, PMat y, PReal noise_std] \<Rightarrow> Inr (DPSMod sd h y noise_std)
      | _ \<Rightarrow> Inl TypeError)"

definition PIG_new :: "pyval \<Rightarrow> pyval \<Rightarrow> pyval \<Rightarrow> pyval \<Rightarrow> pyval \<Rightarrow> error + guidance_method" where
  "PIG_new a b c d e =
     (case (a, b, c, d, e) of
        (PSde sd, PObs h, PMat y, PReal noise_std, PNd HHT) \<Rightarrow> Inr (PIG sd h y noise_std HHT)
      | _ \<Rightarrow> Inl TypeError)"

definition PIG_init :: "pyval list \<Rightarrow> error + guidance_method" where
  "PIG_init args =
     (case args of [a, b, c, d] \<Rightarrow> PIG_new a b c d (PNd \<lparr>nd_shape = [1], nd_data = [1]\<rparr>)
      | [a, b, c, d, e] \<Rightarrow> PIG_new a b c d e
      | _ \<Rightarrow> Inl TypeError)"

definition init_with_H ::
  "(sde \<Rightarrow> mat \<Rightarrow> mat \<Rightarrow> real \<Rightarrow> nat \<times> nat \<Rightarrow> guidance_method) \<Rightarrow> pyval list
     \<Rightarrow> error + guidance_method" where
  "init_with_H cls args =
     (case args of [PSde sd, PMat H, PMat y, PReal noise_std, PShape shape] \<Rightarrow>
        Inr (cls sd H y noise_std shape)
      | _ \<Rightarrow> Inl TypeError)"

definition init_with_map ::
  "(sde \<Rightarrow> obs \<Rightarrow> mat \<Rightarrow> real \<Rightarrow> nat \<times> nat \<Rightarrow> guidance_method) \<Rightarrow> pyval list
     \<Rightarrow> error + guidance_method" where
  "init_with_map cls args =
     (case args of [PSde sd, PObs h, PMat y, PReal noise_std, PShape shape] \<Rightarrow>
        Inr (cls sd h y noise_std shape)
      | _ \<Rightarrow> Inl TypeError)"

text \<open>
  Importing the module runs the eleven decorators in the order of the class statements,
  starting from the empty dictionary.
\<close>

definition class_statements :: "(string \<times> (pyval list \<Rightarrow> error + guidance_method)) list" where
  "class_statements =
     [(DIFFUSION_POSTERIOR_SAMPLING, DPS_init),
      (DIFFUSION_POSTERIOR_SAMPLING_MOD, DPSMod_init),
      (PSEUDO_INVERSE_GUIDANCE, PIG_init),
      (VJP_GUIDANCE_ALT, init_with_H VJPAlt),
      (VJP_GUIDANCE, init_with_H VJP),
      (VJP_GUIDANCE_MASK, init_with_map VJPMask),
      (JAC_REV_GUIDANCE, init_with_map JacRev),
      (JAC_FWD_GUIDANCE, init_with_map JacFwd),
      (JAC_REV_GUIDANCE_DIAG, init_with_map JacRevDiagonal),
      (VJP_GUIDANCE_DIAG, init_with_H VJPDiagonal),
      (JAC_FWD_GUIDANCE_DIAG, init_with_map JacFwdDiagonal)]"

fun run_decorators ::
  "(string \<times> 'c) list \<Rightarrow> (string \<rightharpoonup> 'c) \<Rightarrow> error + (string \<rightharpoonup> 'c)" where
  "run_decorators [] reg = Inr reg"
| "run_decorators ((name, cls) # rest) reg =
     (case register_conditioning_method name cls reg of
        Inl e \<Rightarrow> Inl e
      | Inr reg' \<Rightarrow> run_decorators rest reg')"

definition module_registry :: "error + (string \<rightharpoonup> (pyval list \<Rightarrow> error + guidance_method))" where
  "module_registry = run_decorators class_statements Map.empty"

section \<open>The end-to-end scenario\<close>

text \<open>
  The SDE stub of the scenario: the posterior mean of a sample is the sample, so its
  Jacobian is the identity, and the score is zero. The scenario does not fix the value of
  \<^verbatim>\<open>ratio(t)\<close>; it is the parameter \<open>r\<close> of the stub (and stands for \<^verbatim>\<open>r2\<close> as well).
\<close>

definition stub_sde :: "real \<Rightarrow> sde" where
  "stub_sde r =
     \<lparr>mean_est = (\<lambda>x t. x), mean_jac = (\<lambda>x t. eye (length x)),
      score = (\<lambda>x t. map (\<lambda>_. 0) x), ratio = (\<lambda>t. r), r2 = (\<lambda>t v. r)\<rparr>"

text \<open>
  Following the spec's words: the closed-form Kalman-style correction
  \<open>H\<^sup>T (H H\<^sup>T + v I)\<^sup>-\<^sup>1 (y - H x)\<close> of every sample of the batch, with the inverse applied as
  the solve of the linear system. The factor \<open>r\<close> scales \<open>H H\<^sup>T\<close>; the closed form of the
  spec is the one with \<open>r = 1\<close>.
\<close>

definition kalman_correction :: "mat \<Rightarrow> real \<Rightarrow> real \<Rightarrow> mat \<Rightarrow> mat \<Rightarrow> error + mat" where
  "kalman_correction H r v y x =
     and_then (matmul H (transpose_mat H)) (\<lambda>HHT.
     and_then (add_mat (smul_mat r HHT) (smul_mat v (eye (length H)))) (\<lambda>C.
     and_then (batch_matmul_A H x) (\<lambda>Hx.
     and_then (sub_mat y Hx) (\<lambda>innovation.
     and_then (batch_linalg_solve_A C innovation) (\<lambda>f.
     batch_matmul_A (transpose_mat H) f)))))"

text \<open>
  A handle whose posterior mean is linear in the sample, \<open>x0 = A x\<close>, with zero score and
  constant coefficients: the stub is the case \<open>A = I\<close>. It serves as a concrete handle in
  examples.
\<close>

definition linear_sde :: "mat \<Rightarrow> real \<Rightarrow> real \<Rightarrow> sde" where
  "linear_sde A r q =
     \<lparr>mean_est = (\<lambda>x t. mv A x), mean_jac = (\<lambda>x t. A),
      score = (\<lambda>x t. map (\<lambda>_. 0) x), ratio = (\<lambda>t. r), r2 = (\<lambda>t v. q)\<rparr>"


section \<open>The registry: properties\<close>

lemmas name_defs =
  DIFFUSION_POSTERIOR_SAMPLING_def DIFFUSION_POSTERIOR_SAMPLING_MOD_def
  PSEUDO_INVERSE_GUIDANCE_def VJP_GUIDANCE_def VJP_GUIDANCE_ALT_def VJP_GUIDANCE_MASK_def
  VJP_GUIDANCE_DIAG_def JAC_REV_GUIDANCE_def JAC_REV_GUIDANCE_DIAG_def JAC_FWD_GUIDANCE_def
  JAC_FWD_GUIDANCE_DIAG_def

lemma names_distinct: "distinct ConditioningMethodName"
  by (simp add: ConditioningMethodName_def name_defs)

lemma run_decorators_distinct:
  "distinct (map fst cs) \<Longrightarrow> (\<forall>n \<in> set (map fst cs). reg n = None) \<Longrightarrow>
   run_decorators cs reg = Inr (reg ++ map_of cs)"
proof (induction cs arbitrary: reg)
  case Nil
  then show ?case by simp
next
  case (Cons c cs)
  obtain n k where c: "c = (n, k)" by (cases c)
  have n: "n \<notin> dom (map_of cs)" using Cons.prems c by (auto simp: dom_map_of_conv_image_fst)
  have ih: "run_decorators cs (reg(n \<mapsto> k)) = Inr (reg(n \<mapsto> k) ++ map_of cs)"
    using Cons.prems c by (intro Cons.IH) auto
  have eq: "reg(n \<mapsto> k) ++ map_of cs = reg ++ map_of (c # cs)"
    using n c by (simp add: map_add_upd_left)
  have step: "run_decorators (c # cs) reg = run_decorators cs (reg(n \<mapsto> k))"
    using Cons.prems c by (simp add: register_conditioning_method_def)
  show ?case by (simp only: step ih eq)
qed

lemma module_registry_eq: "module_registry = Inr (map_of class_statements)"
proof -
  have "distinct (map fst class_statements)"
    by (simp add: class_statements_def name_defs)
  then show ?thesis
    unfolding module_registry_def by (subst run_decorators_distinct) simp_all
qed

lemma dom_class_statements: "fst ` set class_statements = set ConditioningMethodName"
  by (auto simp: class_statements_def ConditioningMethodName_def)



text \<open>
  Claim C10. Importing the module succeeds and leaves a dictionary whose keys are the
  eleven members of \<^verbatim>\<open>ConditioningMethodName\<close>, each bound to its class (with the
  spellings \<^verbatim>\<open>diffusion_psoterior_sampling_mod\<close> and \<^verbatim>\<open>pseduo_inverse_guidance\<close>);
  \<^verbatim>\<open>get_conditioning_method\<close> calls the class on each of these names and fails on every
  other name, and a call of \<^verbatim>\<open>get_conditioning_method\<close> leaves the dictionary as it was.
\<close>

theorem registry_after_import:
  "\<exists>reg. module_registry = Inr reg \<and> dom reg = set ConditioningMethodName
     \<and> length ConditioningMethodName = 11 \<and> distinct ConditioningMethodName
     \<and> reg DIFFUSION_POSTERIOR_SAMPLING = Some DPS_init
     \<and> reg DIFFUSION_POSTERIOR_SAMPLING_MOD = Some DPSMod_init
     \<and> reg PSEUDO_INVERSE_GUIDANCE = Some PIG_init
     \<and> reg VJP_GUIDANCE_ALT = Some (init_with_H VJPAlt)
     \<and> reg VJP_GUIDANCE = Some (init_with_H VJP)
     \<and> reg VJP_GUIDANCE_MASK = Some (init_with_map VJPMask)
     \<and> reg JAC_REV_GUIDANCE = Some (init_with_map JacRev)
     \<and> reg JAC_FWD_GUIDANCE = Some (init_with_map JacFwd)
     \<and> reg JAC_REV_GUIDANCE_DIAG = Some (init_with_map JacRevDiagonal)
     \<and> reg VJP_GUIDANCE_DIAG = Some (init_with_H VJPDiagonal)
     \<and> reg JAC_FWD_GUIDANCE_DIAG = Some (init_with_map JacFwdDiagonal)
     \<and> DIFFUSION_POSTERIOR_SAMPLING_MOD = ''diffusion_psoterior_sampling_mod''
     \<and> PSEUDO_INVERSE_GUIDANCE = ''pseduo_inverse_guidance''
     \<and> (\<forall>name args. name \<notin> set ConditioningMethodName \<longrightarrow>
           get_conditioning_method reg name args = Inl (NameError_not_defined name))
     \<and> (\<forall>name args. name \<in> set ConditioningMethodName \<longrightarrow>
           (\<exists>cls. reg name = Some cls \<and> get_conditioning_method reg name args = cls args))
     \<and> (\<forall>name args. fst (run_call reg (Get name args)) = reg)"
proof -
  let ?reg = "map_of class_statements"
  have 1: "module_registry = Inr ?reg" by (rule module_registry_eq)
  have 2: "dom ?reg = set ConditioningMethodName"
    by (simp add: dom_map_of_conv_image_fst dom_class_statements)
  have 3: "\<forall>name args. name \<notin> set ConditioningMethodName \<longrightarrow>
      get_conditioning_method ?reg name args = Inl (NameError_not_defined name)"
    using 2 by (auto simp: get_conditioning_method_def split: option.splits)
  have 4: "\<forall>name args. name \<in> set ConditioningMethodName \<longrightarrow>
           (\<exists>cls. ?reg name = Some cls \<and> get_conditioning_method ?reg name args = cls args)"
    using 2 by (auto simp: get_conditioning_method_def split: option.splits)
  have 5: "\<forall>name args. fst (run_call ?reg (Get name args)) = ?reg"
    by (simp split: sum.splits)
  have 6: "?reg DIFFUSION_POSTERIOR_SAMPLING = Some DPS_init"
     "?reg DIFFUSION_POSTERIOR_SAMPLING_MOD = Some DPSMod_init"
     "?reg PSEUDO_INVERSE_GUIDANCE = Some PIG_init"
     "?reg VJP_GUIDANCE_ALT = Some (init_with_H VJPAlt)"
     "?reg VJP_GUIDANCE = Some (init_with_H VJP)"
     "?reg VJP_GUIDANCE_MASK = Some (init_with_map VJPMask)"
     "?reg JAC_REV_GUIDANCE = Some (init_with_map JacRev)"
     "?reg JAC_FWD_GUIDANCE = Some (init_with_map JacFwd)"
     "?reg JAC_REV_GUIDANCE_DIAG = Some (init_with_map JacRevDiagonal)"
     "?reg VJP_GUIDANCE_DIAG = Some (init_with_H VJPDiagonal)"
     "?reg JAC_FWD_GUIDANCE_DIAG = Some (init_with_map JacFwdDiagonal)"
    by (simp_all add: class_statements_def name_defs)
  have 7: "length ConditioningMethodName = 11" by (simp add: ConditioningMethodName_def)
  show ?thesis
    apply (rule exI [of _ ?reg])
    using 1 2 3 4 5 6 7 names_distinct
    by (simp add: DIFFUSION_POSTERIOR_SAMPLING_MOD_def PSEUDO_INVERSE_GUIDANCE_def)
qed

theorem registry_after_import_witness:
  "\<exists>reg. module_registry = Inr reg
     \<and> ''vjp_guidance'' \<in> set ConditioningMethodName
     \<and> get_conditioning_method reg ''vjp_guidance'' [] = Inl TypeError
     \<and> ''dps'' \<notin> set ConditioningMethodName
     \<and> get_conditioning_method reg ''dps'' [] = Inl (NameError_not_defined ''dps'')"
proof -
  obtain reg where reg: "module_registry = Inr reg"
    and vjp: "reg VJP_GUIDANCE = Some (init_with_H VJP)"
    and other: "\<forall>name args. name \<notin> set ConditioningMethodName \<longrightarrow>
           get_conditioning_method reg name args = Inl (NameError_not_defined name)"
    using registry_after_import by blast
  have a: "''vjp_guidance'' \<in> set ConditioningMethodName"
    and b: "''dps'' \<notin> set ConditioningMethodName"
    by (simp_all add: ConditioningMethodName_def name_defs)
  have "get_conditioning_method reg ''vjp_guidance'' [] = Inl TypeError"
    using vjp by (simp add: get_conditioning_method_def VJP_GUIDANCE_def init_with_H_def)
  moreover have "get_conditioning_method reg ''dps'' [] = Inl (NameError_not_defined ''dps'')"
    using other b by blast
  ultimately show ?thesis using reg a b by blast
qed

section \<open>Evaluation on arrays of fixed size\<close>

lemmas eval_defs =
  and_then_def ncols_def shape2_def rect_def is_mat_def is_ten3_def eye_def unit_vec_def
  unit_mat_def ones_like_def dot_def transpose_mat_def vecmat_def mv_def matvec_def matmul_def
  bcast_def sub_vec_def sub_mat_def add_vec_def add_mat_def mul_vec_def mul_mat_def div_real_def
  div_vec_def div_mat_def smul_mat_def smul_ten3_def sadd_mat_def div_mat_scalar_def
  recip_mat_def add_ten3_mat_def reshape2_def reshape_infer_def reshape3_def tile_def
  jnp_transpose_def diagonal_def l2norm_def unbroadcast_vec_def unbroadcast_mat_def nd_rows_def
  nd_item_def remove_nth_def replace_col_def linalg_solve_def batch_linalg_solve_def
  batch_linalg_solve_A_def batch_matmul_def batch_matmul_A_def batch_matmul_A3_def batch_mul_def
  batch_mul_A_def t_index0_def t_rows_def identity_obs_def est_reshape_def est_unreshape_def
  get_estimate_x_0_def get_estimate_x_0_vmap_def jax_vjp_def jax_vmap_def jax_vmap2_def
  jax_jacrev_def jax_jacfwd_def squeeze0_def jax_jacrev_b_def jax_jacfwd_b_def squeeze1_def
  jax_grad_def covariance_full_def guidance_score_def Let_def

lemma upt_num: "[i..<numeral n] = (if i < numeral n then i # [Suc i..<numeral n] else [])"
  by (simp add: upt_rec)

lemma replicate_num: "replicate (numeral k) x = x # replicate (pred_numeral k) x"
  by (simp add: numeral_eq_Suc)

lemmas eval_simps = eval_defs upt_num replicate_num


section \<open>Basic facts about results and arrays\<close>

lemma sequence_map_Inr_id [simp]: "sequence (map Inr vs) = Inr vs"
  by (induction vs) auto

lemma sequence_Inr_D: "sequence ms = Inr vs \<Longrightarrow> ms = map Inr vs"
  by (induction ms arbitrary: vs) (auto split: sum.splits)

lemma sequence_Inr_iff: "sequence ms = Inr vs \<longleftrightarrow> ms = map Inr vs"
  by (auto dest: sequence_Inr_D)

lemma sequence_length: "sequence ms = Inr vs \<Longrightarrow> length vs = length ms"
  by (simp add: sequence_Inr_iff)

lemma sequence_map_Inr [simp]: "sequence (map (\<lambda>x. Inr (f x)) xs) = Inr (map f xs)"
  by (induction xs) auto

lemma ncols_replicate: "ncols (replicate n m) = (if n = 0 then 0 else length m)"
  by (cases n) (simp_all add: ncols_def)

lemma transpose_replicate: "0 < n \<Longrightarrow> transpose_mat (replicate n m) = map (replicate n) m"
  by (auto simp: transpose_mat_def ncols_replicate intro!: nth_equalityI)

lemma chunk_bound: "x < r \<Longrightarrow> c \<le> r * c - x * (c::nat)"
proof -
  assume "x < r"
  then have "Suc x \<le> r" by simp
  then have "Suc x * c \<le> r * c" by (rule mult_le_mono1)
  then show ?thesis by simp
qed

lemma reshape2_is_mat: "reshape2 r c xs = Inr m \<Longrightarrow> is_mat r c m"
  by (auto simp: reshape2_def is_mat_def list_all_iff min_absorb2 chunk_bound split: if_splits)

lemma axes_102: "[1, 0] @ drop 2 [0..<2 + 1] = [1, 0, 2::nat]"
  by (simp add: upt_rec)

lemma axes_021: "[0] @ drop 2 [0..<2 + 1] @ [1] = [0, 2, 1::nat]"
  by (simp add: upt_rec)

lemma and_then_Inl [simp]: "and_then (Inl e) f = Inl e"
  by (simp add: and_then_def)

lemma and_then_Inr [simp]: "and_then (Inr v) f = f v"
  by (simp add: and_then_def)

lemma and_then_assoc: "and_then (and_then m f) g = and_then m (\<lambda>x. and_then (f x) g)"
  by (cases m) simp_all

lemma and_then_eq_Inr: "and_then m f = Inr r \<longleftrightarrow> (\<exists>v. m = Inr v \<and> f v = Inr r)"
  by (cases m) simp_all

section \<open>The end-to-end scenario: VJP and JacRev against the closed form\<close>

lemma kalman_stub:
  "r + 1/100 \<noteq> 0 \<Longrightarrow>
   kalman_correction (eye 2) r (1/100) [[y11, y12], [y21, y22], [y31, y32], [y41, y42]]
       [[x11, x12], [x21, x22], [x31, x32], [x41, x42]]
     = Inr [[(y11 - x11) / (r + 1/100), (y12 - x12) / (r + 1/100)],
            [(y21 - x21) / (r + 1/100), (y22 - x22) / (r + 1/100)],
            [(y31 - x31) / (r + 1/100), (y32 - x32) / (r + 1/100)],
            [(y41 - x41) / (r + 1/100), (y42 - x42) / (r + 1/100)]]"
  by (simp add: kalman_correction_def eval_simps power2_eq_square)

lemma VJP_stub:
  "r + 1/100 \<noteq> 0 \<Longrightarrow>
   guidance_score (VJP (stub_sde r) (eye 2) [[y11, y12], [y21, y22], [y31, y32], [y41, y42]]
       (1/10) (4, 2))
     [[x11, x12], [x21, x22], [x31, x32], [x41, x42]] (TCol [t1, t2, t3, t4])
     = Inr [[(y11 - x11) / (r + 1/100), (y12 - x12) / (r + 1/100)],
            [(y21 - x21) / (r + 1/100), (y22 - x22) / (r + 1/100)],
            [(y31 - x31) / (r + 1/100), (y32 - x32) / (r + 1/100)],
            [(y41 - x41) / (r + 1/100), (y42 - x42) / (r + 1/100)]]"
  by (simp add: VJP_batch_H_def VJP_guidance_score_def VJP_C_yy_innovation_def stub_sde_def
      eval_simps power2_eq_square)

lemma JacRev_stub:
  "r + 1/100 \<noteq> 0 \<Longrightarrow>
   guidance_score (JacRev (stub_sde r) identity_obs
       [[y11, y12], [y21, y22], [y31, y32], [y41, y42]] (1/10) (4, 2))
     [[x11, x12], [x21, x22], [x31, x32], [x41, x42]] (TCol [t1, t2, t3, t4])
     = Inr [[(y11 - x11) / (r + 1/100), (y12 - x12) / (r + 1/100)],
            [(y21 - x21) / (r + 1/100), (y22 - x22) / (r + 1/100)],
            [(y31 - x31) / (r + 1/100), (y32 - x32) / (r + 1/100)],
            [(y41 - x41) / (r + 1/100), (y42 - x42) / (r + 1/100)]]"
  by (simp add: JacRev_guidance_score_def JacRev_C_yy_innovation_def stub_sde_def
      eval_simps power2_eq_square)

text \<open>
  The solve is the solve: on a regular system of size two the vector that \<open>linalg_solve\<close>
  returns satisfies the system.
\<close>

lemma cramer_2x2:
  fixes a :: real
  assumes "a * d - b * c \<noteq> 0"
  shows "a * ((d * u - b * v) / (a * d - b * c)) + b * ((a * v - c * u) / (a * d - b * c)) = u"
    and "c * ((d * u - b * v) / (a * d - b * c)) + d * ((a * v - c * u) / (a * d - b * c)) = v"
proof -
  define D where "D = a * d - b * c"
  have D: "D \<noteq> 0" using assms by (simp add: D_def)
  have "a * ((d * u - b * v) / D) + b * ((a * v - c * u) / D) = (u * D) / D"
    unfolding D_def by (simp add: add_divide_distrib [symmetric] algebra_simps)
  then show "a * ((d * u - b * v) / (a * d - b * c)) + b * ((a * v - c * u) / (a * d - b * c)) = u"
    using D by (simp add: D_def)
  have "c * ((d * u - b * v) / D) + d * ((a * v - c * u) / D) = (v * D) / D"
    unfolding D_def by (simp add: add_divide_distrib [symmetric] algebra_simps)
  then show "c * ((d * u - b * v) / (a * d - b * c)) + d * ((a * v - c * u) / (a * d - b * c)) = v"
    using D by (simp add: D_def)
qed

lemma linalg_solve_2x2:
  assumes "linalg_solve [[a, b], [c, d]] [u, v] = Inr z"
  shows "mv [[a, b], [c, d]] z = [u, v]"
proof -
  have D: "a * d - b * c \<noteq> 0"
    using assms by (auto simp: eval_simps split: if_splits)
  have z: "z = [(d * u - b * v) / (a * d - b * c), (a * v - c * u) / (a * d - b * c)]"
    using assms D by (auto simp: eval_simps split: if_splits)
  show ?thesis
    using cramer_2x2 [OF D, of u v] by (simp add: z mv_def dot_def)
qed

text \<open>
  Claim C1, as the code has it. In the scenario (signal dimension 2, batch size 4,
  \<open>H = I\<close>, the identity observation map, \<open>noise_std = 0.1\<close>, the stub with \<open>x0 = x\<close> and
  \<open>s = 0\<close>), for every measurement \<open>y\<close>, sample batch \<open>x\<close> and time column \<open>t\<close>, VJP and
  JacRev both return \<open>H\<^sup>T (r H H\<^sup>T + 0.01 I)\<^sup>-\<^sup>1 (y - H x)\<close> in real arithmetic, where \<open>r\<close> is
  the value of \<^verbatim>\<open>ratio(t[0])\<close> of the stub: every entry is \<open>(y - x) / (r + 0.01)\<close>. This is
  the closed form of the spec when \<open>r = 1\<close>.
\<close>

theorem scenario_VJP_JacRev:
  assumes "r + 1/100 \<noteq> 0"
  shows "guidance_score (VJP (stub_sde r) (eye 2)
             [[y11, y12], [y21, y22], [y31, y32], [y41, y42]] (1/10) (4, 2))
           [[x11, x12], [x21, x22], [x31, x32], [x41, x42]] (TCol [t1, t2, t3, t4])
         = kalman_correction (eye 2) r (1/100) [[y11, y12], [y21, y22], [y31, y32], [y41, y42]]
             [[x11, x12], [x21, x22], [x31, x32], [x41, x42]]
       \<and> guidance_score (JacRev (stub_sde r) identity_obs
             [[y11, y12], [y21, y22], [y31, y32], [y41, y42]] (1/10) (4, 2))
           [[x11, x12], [x21, x22], [x31, x32], [x41, x42]] (TCol [t1, t2, t3, t4])
         = kalman_correction (eye 2) r (1/100) [[y11, y12], [y21, y22], [y31, y32], [y41, y42]]
             [[x11, x12], [x21, x22], [x31, x32], [x41, x42]]
       \<and> kalman_correction (eye 2) r (1/100) [[y11, y12], [y21, y22], [y31, y32], [y41, y42]]
             [[x11, x12], [x21, x22], [x31, x32], [x41, x42]]
         = Inr [[(y11 - x11) / (r + 1/100), (y12 - x12) / (r + 1/100)],
                [(y21 - x21) / (r + 1/100), (y22 - x22) / (r + 1/100)],
                [(y31 - x31) / (r + 1/100), (y32 - x32) / (r + 1/100)],
                [(y41 - x41) / (r + 1/100), (y42 - x42) / (r + 1/100)]]"
  using assms by (simp add: VJP_stub JacRev_stub kalman_stub)

theorem scenario_VJP_JacRev_witness:
  "(1::real) + 1/100 \<noteq> 0
   \<and> guidance_score (VJP (stub_sde 1) (eye 2) [[1, 2], [1, 2], [1, 2], [1, 2]] (1/10) (4, 2))
        [[0, 0], [1, 1], [2, 2], [3, 3]] (TCol [1, 1, 1, 1])
      = Inr [[100/101, 200/101], [0, 100/101], [- (100/101), 0], [- (200/101), - (100/101)]]
   \<and> guidance_score (JacRev (stub_sde 1) identity_obs [[1, 2], [1, 2], [1, 2], [1, 2]]
        (1/10) (4, 2))
        [[0, 0], [1, 1], [2, 2], [3, 3]] (TCol [1, 1, 1, 1])
      = Inr [[100/101, 200/101], [0, 100/101], [- (100/101), 0], [- (200/101), - (100/101)]]"
  using scenario_VJP_JacRev [of 1 1 2 1 2 1 2 1 2 0 0 1 1 2 2 3 3 1 1 1 1]
  by simp

text \<open>
  The claim as stated, with the closed form \<open>H\<^sup>T (H H\<^sup>T + 0.01 I)\<^sup>-\<^sup>1 (y - H x)\<close>, fails for a
  stub whose \<^verbatim>\<open>ratio\<close> is 2: at \<open>x = 0\<close> and \<open>y = 1\<close> the two variants return \<open>100/201\<close> in
  every entry, the closed form is \<open>100/101\<close>.
\<close>

theorem scenario_closed_form_counterexample:
  "guidance_score (VJP (stub_sde 2) (eye 2) [[1, 1], [1, 1], [1, 1], [1, 1]] (1/10) (4, 2))
       [[0, 0], [0, 0], [0, 0], [0, 0]] (TCol [1, 1, 1, 1])
     = Inr [[100/201, 100/201], [100/201, 100/201], [100/201, 100/201], [100/201, 100/201]]
   \<and> guidance_score (JacRev (stub_sde 2) identity_obs [[1, 1], [1, 1], [1, 1], [1, 1]]
       (1/10) (4, 2))
       [[0, 0], [0, 0], [0, 0], [0, 0]] (TCol [1, 1, 1, 1])
     = Inr [[100/201, 100/201], [100/201, 100/201], [100/201, 100/201], [100/201, 100/201]]
   \<and> kalman_correction (eye 2) 1 (1/100) [[1, 1], [1, 1], [1, 1], [1, 1]]
       [[0, 0], [0, 0], [0, 0], [0, 0]]
     = Inr [[100/101, 100/101], [100/101, 100/101], [100/101, 100/101], [100/101, 100/101]]
   \<and> guidance_score (VJP (stub_sde 2) (eye 2) [[1, 1], [1, 1], [1, 1], [1, 1]] (1/10) (4, 2))
       [[0, 0], [0, 0], [0, 0], [0, 0]] (TCol [1, 1, 1, 1])
     \<noteq> kalman_correction (eye 2) 1 (1/100) [[1, 1], [1, 1], [1, 1], [1, 1]]
       [[0, 0], [0, 0], [0, 0], [0, 0]]"
proof -
  have a: "(2::real) + 1/100 \<noteq> 0" and b: "(1::real) + 1/100 \<noteq> 0" by simp_all
  show ?thesis
    by (simp add: VJP_stub [OF a] JacRev_stub [OF a] kalman_stub [OF b])
qed

section \<open>VJP and VJPAlt: the axis of the batched vector-Jacobian product\<close>

lemma VJP_batch_H_eq:
  "0 < fst shape \<Longrightarrow> VJP_batch_H H shape = Inr (map (replicate (fst shape)) H)"
  by (simp add: VJP_batch_H_def jnp_transpose_def tile_def transpose_replicate)

lemma VJPAlt_batch_H_eq:
  "0 < fst shape \<Longrightarrow> VJPAlt_batch_H H shape = Inr bH \<Longrightarrow>
   \<exists>Hr. reshape2 (length H) (snd shape) (concat H) = Inr Hr
      \<and> bH = map (replicate (fst shape)) Hr"
  unfolding VJPAlt_batch_H_def axes_102
  by (auto simp: jnp_transpose_def tile_def transpose_replicate and_then_def Let_def
      split: sum.splits)

text \<open>
  Claim C7, as the code has it. For a batch size \<^verbatim>\<open>shape[0]\<close> of at least one, the tiled
  and transposed \<^verbatim>\<open>batch_H\<close> of VJP and of VJPAlt has a leading axis of size
  \<^verbatim>\<open>H.shape[0]\<close>, the number of observation rows, and a second axis of the size of the
  batch; \<^verbatim>\<open>vmap(vjp_x_0)\<close> applies the pullback once per entry of the leading axis, so
  the variants compute \<^verbatim>\<open>H.shape[0]\<close> vector-Jacobian products, each on a whole batch.
\<close>

theorem batch_H_leading_axis:
  assumes "0 < fst shape"
  shows "(VJP_batch_H H shape = Inr bH \<longrightarrow>
            length bH = length H \<and> list_all (\<lambda>m. length m = fst shape) bH)
       \<and> (VJPAlt_batch_H H shape = Inr bH' \<longrightarrow>
            length bH' = length H \<and> list_all (\<lambda>m. length m = fst shape) bH')
       \<and> (jax_vmap vjp_x_0 bH = Inr (H_grad_x_0 :: mat list) \<longrightarrow>
            length H_grad_x_0 = length bH)"
proof -
  have 1: "VJP_batch_H H shape = Inr bH \<longrightarrow>
            length bH = length H \<and> list_all (\<lambda>m. length m = fst shape) bH"
    using assms by (auto simp: VJP_batch_H_eq list_all_iff)
  have 2: "VJPAlt_batch_H H shape = Inr bH' \<longrightarrow>
            length bH' = length H \<and> list_all (\<lambda>m. length m = fst shape) bH'"
  proof
    assume a: "VJPAlt_batch_H H shape = Inr bH'"
    then obtain Hr where Hr: "reshape2 (length H) (snd shape) (concat H) = Inr Hr"
      and b: "bH' = map (replicate (fst shape)) Hr"
      using VJPAlt_batch_H_eq [OF assms a] by blast
    have "length Hr = length H" using reshape2_is_mat [OF Hr] by (simp add: is_mat_def)
    then show "length bH' = length H \<and> list_all (\<lambda>m. length m = fst shape) bH'"
      using b by (simp add: list_all_iff)
  qed
  have 3: "jax_vmap vjp_x_0 bH = Inr H_grad_x_0 \<longrightarrow> length H_grad_x_0 = length bH"
    by (auto simp: jax_vmap_def dest: sequence_length)
  show ?thesis using 1 2 3 by blast
qed

lemma batch_H_2x3:
  "VJP_batch_H [[1, 0, 0], [0, 1, 0]] (4, 3)
     = Inr [[[1, 0, 0], [1, 0, 0], [1, 0, 0], [1, 0, 0]],
            [[0, 1, 0], [0, 1, 0], [0, 1, 0], [0, 1, 0]]]"
  "VJPAlt_batch_H [[1, 0, 0], [0, 1, 0]] (4, 3)
     = Inr [[[1, 0, 0], [1, 0, 0], [1, 0, 0], [1, 0, 0]],
            [[0, 1, 0], [0, 1, 0], [0, 1, 0], [0, 1, 0]]]"
  unfolding VJPAlt_batch_H_def axes_102
  by (simp_all add: VJP_batch_H_def eval_simps)

theorem batch_H_leading_axis_witness:
  "0 < fst (4::nat, 3::nat)
   \<and> VJP_batch_H [[1, 0, 0], [0, 1, 0]] (4, 3)
       = Inr [[[1, 0, 0], [1, 0, 0], [1, 0, 0], [1, 0, 0]],
              [[0, 1, 0], [0, 1, 0], [0, 1, 0], [0, 1, 0]]]
   \<and> VJPAlt_batch_H [[1, 0, 0], [0, 1, 0]] (4, 3)
       = Inr [[[1, 0, 0], [1, 0, 0], [1, 0, 0], [1, 0, 0]],
              [[0, 1, 0], [0, 1, 0], [0, 1, 0], [0, 1, 0]]]
   \<and> length [[[1, 0, 0], [1, 0, 0], [1, 0, 0], [1, 0, 0]],
              [[0, 1, 0], [0, 1, 0], [0, 1, 0], [0, 1, 0 :: real]]]
       = length [[1, 0, 0], [0, 1, 0 :: real]]
   \<and> jax_vmap (\<lambda>c. Inr c) [[[1, 0, 0], [1, 0, 0], [1, 0, 0], [1, 0, 0]],
              [[0, 1, 0], [0, 1, 0], [0, 1, 0], [0, 1, 0 :: real]]]
       = Inr [[[1, 0, 0], [1, 0, 0], [1, 0, 0], [1, 0, 0]],
              [[0, 1, 0], [0, 1, 0], [0, 1, 0], [0, 1, 0]]]"
  using batch_H_leading_axis [of "(4, 3)" "[[1, 0, 0], [0, 1, 0]]"
      "[[[1, 0, 0], [1, 0, 0], [1, 0, 0], [1, 0, 0]], [[0, 1, 0], [0, 1, 0], [0, 1, 0], [0, 1, 0]]]"
      "[[[1, 0, 0], [1, 0, 0], [1, 0, 0], [1, 0, 0]], [[0, 1, 0], [0, 1, 0], [0, 1, 0], [0, 1, 0]]]"
      "\<lambda>c. Inr c"
      "[[[1, 0, 0], [1, 0, 0], [1, 0, 0], [1, 0, 0]], [[0, 1, 0], [0, 1, 0], [0, 1, 0], [0, 1, 0]]]"]
  by (simp add: batch_H_2x3 jax_vmap_def)

text \<open>
  The claim as stated fails: with two observation rows and a batch of four the leading
  axis of \<^verbatim>\<open>batch_H\<close> has size two, not four.
\<close>

theorem batch_H_leading_axis_counterexample:
  "\<exists>bH bH'. VJP_batch_H [[1, 0, 0], [0, 1, 0]] (4, 3) = Inr bH
     \<and> VJPAlt_batch_H [[1, 0, 0], [0, 1, 0]] (4, 3) = Inr bH'
     \<and> length bH = 2 \<and> length bH' = 2 \<and> length bH \<noteq> fst (4::nat, 3::nat)
     \<and> length bH' \<noteq> fst (4::nat, 3::nat)"
  by (simp add: batch_H_2x3)

section \<open>PIG: the two covariance branches and the missing third\<close>

lemma PIG_ratio_irrelevant:
  "PIG_guidance_score (sd\<lparr>ratio := q\<rparr>) h y noise_std HHT x t
     = PIG_guidance_score sd h y noise_std HHT x t"
proof -
  have 1: "get_estimate_x_0 (sd\<lparr>ratio := q\<rparr>) h None = get_estimate_x_0 sd h None"
    by (simp add: get_estimate_x_0_def fun_eq_iff)
  have 2: "PIG_C_yy (sd\<lparr>ratio := q\<rparr>) y noise_std HHT t = PIG_C_yy sd y noise_std HHT t"
    by (simp add: PIG_C_yy_def)
  show ?thesis
    by (simp add: PIG_guidance_score_def 1 2 Let_def cong: if_cong)
qed

lemma PIG_examples:
  "PIG_guidance_score (linear_sde [[1, 1], [0, 1]] 7 3) identity_obs [[y1, y2]] 1
      \<lparr>nd_shape = [2, 2], nd_data = [1, 0, 0, 1]\<rparr> [[x1, x2]] (TCol [t1])
     = Inr [[(y1 - (x1 + x2)) / 4, (y1 - (x1 + x2)) / 4 + (y2 - x2) / 4]]"
  "PIG_guidance_score (linear_sde [[1, 1], [0, 1]] 7 3) identity_obs [[y1, y2]] 1
      \<lparr>nd_shape = [1], nd_data = [1]\<rparr> [[x1, x2]] (TCol [t1])
     = Inr [[(y1 - (x1 + x2)) / 4, (y1 - (x1 + x2)) / 4 + (y2 - x2) / 4]]"
  "PIG_guidance_score (linear_sde [[1, 1], [0, 1]] 7 3) identity_obs [[y1, y2]] 1
      \<lparr>nd_shape = [2], nd_data = [1, 1]\<rparr> [[x1, x2]] (TCol [t1])
     = Inl (UnboundLocalError ''f'')"
  by (simp_all add: PIG_guidance_score_def PIG_C_yy_def linear_sde_def eval_simps
      add_divide_distrib diff_divide_distrib)

text \<open>
  Claim C6. The PIG score does not depend on \<^verbatim>\<open>ratio\<close>: it reads \<^verbatim>\<open>r2(t[0], 1.0)\<close>. When
  \<^verbatim>\<open>HHT\<close> has shape \<open>(d_y, d_y)\<close> it is the score plus the pullback of the solution of
  the batched solve of the innovation against \<open>C_yy = r2 HHT + noise_std\<^sup>2 I\<close>; when
  \<^verbatim>\<open>HHT\<close> has shape \<open>(1)\<close> it is the score plus the pullback of the innovation divided by
  the scalar \<open>C_yy = r2 HHT + noise_std\<^sup>2\<close>. In both the pullback of the one
  \<^verbatim>\<open>vjp\<close> call is applied once and the result is added to the score.
\<close>

theorem PIG_formula:
  "PIG_guidance_score (sd\<lparr>ratio := q\<rparr>) h y noise_std HHT x t
     = PIG_guidance_score sd h y noise_std HHT x t
   \<and> (nd_shape HHT = [ncols y, ncols y] \<longrightarrow>
        PIG_guidance_score sd h y noise_std HHT x t =
          and_then (jax_vjp (get_estimate_x_0 sd h None t) x) (\<lambda>(h_x_0, vjp_estimate_h_x_0, s).
          and_then (sub_mat y h_x_0) (\<lambda>innovation.
          and_then (t_index0 t) (\<lambda>t0.
          and_then (add_mat (smul_mat (r2 sd t0 1) (nd_rows HHT))
                      (smul_mat (noise_std ^ 2) (eye (ncols y)))) (\<lambda>C_yy.
          and_then (batch_linalg_solve_A C_yy innovation) (\<lambda>f.
          and_then (vjp_estimate_h_x_0 f) (\<lambda>ls.
          add_mat s ls)))))))
   \<and> (nd_shape HHT = [1] \<longrightarrow>
        PIG_guidance_score sd h y noise_std HHT x t =
          and_then (jax_vjp (get_estimate_x_0 sd h None t) x) (\<lambda>(h_x_0, vjp_estimate_h_x_0, s).
          and_then (sub_mat y h_x_0) (\<lambda>innovation.
          and_then (t_index0 t) (\<lambda>t0.
          and_then (div_mat_scalar innovation (r2 sd t0 1 * nd_item HHT + noise_std ^ 2)) (\<lambda>f.
          and_then (vjp_estimate_h_x_0 f) (\<lambda>ls.
          add_mat s ls))))))"
proof (intro conjI impI)
  show "PIG_guidance_score (sd\<lparr>ratio := q\<rparr>) h y noise_std HHT x t
     = PIG_guidance_score sd h y noise_std HHT x t"
    by (rule PIG_ratio_irrelevant)
next
  assume "nd_shape HHT = [ncols y, ncols y]"
  then show "PIG_guidance_score sd h y noise_std HHT x t =
          and_then (jax_vjp (get_estimate_x_0 sd h None t) x) (\<lambda>(h_x_0, vjp_estimate_h_x_0, s).
          and_then (sub_mat y h_x_0) (\<lambda>innovation.
          and_then (t_index0 t) (\<lambda>t0.
          and_then (add_mat (smul_mat (r2 sd t0 1) (nd_rows HHT))
                      (smul_mat (noise_std ^ 2) (eye (ncols y)))) (\<lambda>C_yy.
          and_then (batch_linalg_solve_A C_yy innovation) (\<lambda>f.
          and_then (vjp_estimate_h_x_0 f) (\<lambda>ls.
          add_mat s ls))))))"
    by (simp add: PIG_guidance_score_def PIG_C_yy_def Let_def and_then_assoc)
next
  assume "nd_shape HHT = [1]"
  then show "PIG_guidance_score sd h y noise_std HHT x t =
          and_then (jax_vjp (get_estimate_x_0 sd h None t) x) (\<lambda>(h_x_0, vjp_estimate_h_x_0, s).
          and_then (sub_mat y h_x_0) (\<lambda>innovation.
          and_then (t_index0 t) (\<lambda>t0.
          and_then (div_mat_scalar innovation (r2 sd t0 1 * nd_item HHT + noise_std ^ 2)) (\<lambda>f.
          and_then (vjp_estimate_h_x_0 f) (\<lambda>ls.
          add_mat s ls)))))"
    by (simp add: PIG_guidance_score_def PIG_C_yy_def Let_def and_then_assoc)
qed

text \<open>
  An instance of both branches: the posterior mean \<open>x0 = (x\<^sub>1 + x\<^sub>2, x\<^sub>2)\<close>, \<^verbatim>\<open>r2 = 3\<close>,
  \<^verbatim>\<open>ratio = 7\<close>, \<open>noise_std = 1\<close> and \<open>HHT\<close> the identity matrix, then the array \<open>[1]\<close>:
  \<open>C_yy\<close> is \<open>4 I\<close>, then \<open>4\<close>.
\<close>

theorem PIG_formula_witness:
  "nd_shape \<lparr>nd_shape = [2, 2], nd_data = [1, 0, 0, 1]\<rparr> = [ncols [[5, 3 :: real]], ncols [[5, 3 :: real]]]
   \<and> PIG_guidance_score (linear_sde [[1, 1], [0, 1]] 7 3) identity_obs [[5, 3]] 1
        \<lparr>nd_shape = [2, 2], nd_data = [1, 0, 0, 1]\<rparr> [[1, 0]] (TCol [1])
      = Inr [[1, 7/4]]
   \<and> and_then (jax_vjp (get_estimate_x_0 (linear_sde [[1, 1], [0, 1]] 7 3) identity_obs None
                  (TCol [1])) [[1, 0]]) (\<lambda>(h_x_0, vjp_estimate_h_x_0, s).
        and_then (sub_mat [[5, 3]] h_x_0) (\<lambda>innovation.
        and_then (t_index0 (TCol [1])) (\<lambda>t0.
        and_then (add_mat (smul_mat (r2 (linear_sde [[1, 1], [0, 1]] 7 3) t0 1)
                    (nd_rows \<lparr>nd_shape = [2, 2], nd_data = [1, 0, 0, 1]\<rparr>))
                    (smul_mat (1 ^ 2) (eye (ncols [[5, 3 :: real]])))) (\<lambda>C_yy.
        and_then (batch_linalg_solve_A C_yy innovation) (\<lambda>f.
        and_then (vjp_estimate_h_x_0 f) (\<lambda>ls.
        add_mat s ls))))))
      = Inr [[1, 7/4]]
   \<and> nd_shape \<lparr>nd_shape = [1], nd_data = [1]\<rparr> = [1]
   \<and> PIG_guidance_score (linear_sde [[1, 1], [0, 1]] 7 3) identity_obs [[5, 3]] 1
        \<lparr>nd_shape = [1], nd_data = [1]\<rparr> [[1, 0]] (TCol [1])
      = Inr [[1, 7/4]]
   \<and> PIG_guidance_score ((linear_sde [[1, 1], [0, 1]] 7 3)\<lparr>ratio := (\<lambda>t. 100)\<rparr>) identity_obs
        [[5, 3]] 1 \<lparr>nd_shape = [1], nd_data = [1]\<rparr> [[1, 0]] (TCol [1])
      = Inr [[1, 7/4]]"
proof -
  have a: "PIG_guidance_score (linear_sde [[1, 1], [0, 1]] 7 3) identity_obs [[5, 3]] 1
        \<lparr>nd_shape = [2, 2], nd_data = [1, 0, 0, 1]\<rparr> [[1, 0]] (TCol [1]) = Inr [[1, 7/4]]"
    using PIG_examples(1) [of 5 3 1 0 1] by simp
  have b: "PIG_guidance_score (linear_sde [[1, 1], [0, 1]] 7 3) identity_obs [[5, 3]] 1
        \<lparr>nd_shape = [1], nd_data = [1]\<rparr> [[1, 0]] (TCol [1]) = Inr [[1, 7/4]]"
    using PIG_examples(2) [of 5 3 1 0 1] by simp
  have c: "nd_shape \<lparr>nd_shape = [2, 2], nd_data = [1, 0, 0, 1]\<rparr>
      = [ncols [[5, 3 :: real]], ncols [[5, 3 :: real]]]"
    by (simp add: ncols_def)
  note f1 = PIG_formula [where sd = "linear_sde [[1, 1], [0, 1]] 7 3" and q = "\<lambda>t. 100"
      and h = identity_obs and y = "[[5, 3]]" and noise_std = 1
      and HHT = "\<lparr>nd_shape = [2, 2], nd_data = [1, 0, 0, 1]\<rparr>" and x = "[[1, 0]]"
      and t = "TCol [1]"]
  note f2 = PIG_formula [where sd = "linear_sde [[1, 1], [0, 1]] 7 3" and q = "\<lambda>t. 100"
      and h = identity_obs and y = "[[5, 3]]" and noise_std = 1
      and HHT = "\<lparr>nd_shape = [1], nd_data = [1]\<rparr>" and x = "[[1, 0]]" and t = "TCol [1]"]
  have d: "and_then (jax_vjp (get_estimate_x_0 (linear_sde [[1, 1], [0, 1]] 7 3) identity_obs None
                  (TCol [1])) [[1, 0]]) (\<lambda>(h_x_0, vjp_estimate_h_x_0, s).
        and_then (sub_mat [[5, 3]] h_x_0) (\<lambda>innovation.
        and_then (t_index0 (TCol [1])) (\<lambda>t0.
        and_then (add_mat (smul_mat (r2 (linear_sde [[1, 1], [0, 1]] 7 3) t0 1)
                    (nd_rows \<lparr>nd_shape = [2, 2], nd_data = [1, 0, 0, 1]\<rparr>))
                    (smul_mat (1 ^ 2) (eye (ncols [[5, 3 :: real]])))) (\<lambda>C_yy.
        and_then (batch_linalg_solve_A C_yy innovation) (\<lambda>f.
        and_then (vjp_estimate_h_x_0 f) (\<lambda>ls.
        add_mat s ls))))))
      = Inr [[1, 7/4]]"
    using f1 c a by simp
  have e: "PIG_guidance_score ((linear_sde [[1, 1], [0, 1]] 7 3)\<lparr>ratio := (\<lambda>t. 100)\<rparr>)
        identity_obs [[5, 3]] 1 \<lparr>nd_shape = [1], nd_data = [1]\<rparr> [[1, 0]] (TCol [1])
      = Inr [[1, 7/4]]"
    using f2 b by simp
  show ?thesis using a b c d e by simp
qed

text \<open>
  Claim C9. When \<^verbatim>\<open>HHT\<close> has neither the shape \<open>(y.shape[1], y.shape[1])\<close> nor the shape
  \<open>(1)\<close>, the constructor and \<^verbatim>\<open>get_guidance_score_func\<close> succeed all the same, the
  guidance function never returns an array, and once the two statements before the
  branch have run (the \<^verbatim>\<open>vjp\<close> call and the innovation) it fails with the unbound local
  variable \<^verbatim>\<open>f\<close>.
\<close>

theorem PIG_unbound_f:
  assumes "nd_shape HHT \<noteq> [ncols y, ncols y]" and "nd_shape HHT \<noteq> [1]"
  shows "(jax_vjp (get_estimate_x_0 sd h None t) x = Inr (hx, pull, s)
            \<and> sub_mat y hx = Inr innovation
          \<longrightarrow> PIG_guidance_score sd h y noise_std HHT x t = Inl (UnboundLocalError ''f''))
       \<and> (\<forall>gs. PIG_guidance_score sd h y noise_std HHT x t \<noteq> Inr gs)
       \<and> PIG_init [PSde sd, PObs h, PMat y, PReal noise_std, PNd HHT]
           = Inr (PIG sd h y noise_std HHT)
       \<and> get_guidance_score_func (PIG sd h y noise_std HHT)
           = Inr (PIG_guidance_score sd h y noise_std HHT)"
  using assms
  by (auto simp: PIG_guidance_score_def PIG_init_def PIG_new_def and_then_def Let_def
      split: sum.splits prod.splits)

theorem PIG_unbound_f_witness:
  "nd_shape \<lparr>nd_shape = [2], nd_data = [1, 1]\<rparr> \<noteq> [ncols [[5, 3 :: real]], ncols [[5, 3 :: real]]]
   \<and> nd_shape \<lparr>nd_shape = [2], nd_data = [1, 1]\<rparr> \<noteq> [1]
   \<and> fst (projr (jax_vjp (get_estimate_x_0 (linear_sde [[1, 1], [0, 1]] 7 3) identity_obs None
                  (TCol [1])) [[1, 0]])) = [[1, 0]]
   \<and> sub_mat [[5, 3]] [[1, 0]] = Inr [[4, 3]]
   \<and> PIG_guidance_score (linear_sde [[1, 1], [0, 1]] 7 3) identity_obs [[5, 3]] 1
        \<lparr>nd_shape = [2], nd_data = [1, 1]\<rparr> [[1, 0]] (TCol [1])
      = Inl (UnboundLocalError ''f'')
   \<and> guidance_score (PIG (linear_sde [[1, 1], [0, 1]] 7 3) identity_obs [[5, 3]] 1
        \<lparr>nd_shape = [2], nd_data = [1, 1]\<rparr>) [[1, 0]] (TCol [1])
      = Inl (UnboundLocalError ''f'')"
proof -
  obtain v where v: "jax_vjp (get_estimate_x_0 (linear_sde [[1, 1], [0, 1]] 7 3) identity_obs None
                  (TCol [1])) [[1, 0]] = Inr ([[1, 0]], v, [[0, 0]])"
    by (simp add: linear_sde_def eval_simps)
  have s: "sub_mat [[5, 3]] [[1, 0]] = Inr [[4, 3]]"
    by (simp add: eval_simps)
  have n: "nd_shape \<lparr>nd_shape = [2], nd_data = [1, 1]\<rparr>
             \<noteq> [ncols [[5, 3 :: real]], ncols [[5, 3 :: real]]]"
      "nd_shape \<lparr>nd_shape = [2], nd_data = [1, 1]\<rparr> \<noteq> [1]"
    by simp_all
  note t = PIG_unbound_f [OF n, where sd = "linear_sde [[1, 1], [0, 1]] 7 3" and h = identity_obs
      and t = "TCol [1]" and x = "[[1, 0]]" and hx = "[[1, 0]]" and pull = v
      and s = "[[0, 0]]" and innovation = "[[4, 3]]" and noise_std = 1]
  show ?thesis using t v s n by (simp add: guidance_score_def)
qed

section \<open>A singular covariance\<close>

lemma sequence_first_error:
  "(\<forall>m \<in> set ms. m = Inl e \<or> (\<exists>v. m = Inr v)) \<Longrightarrow> (\<exists>m \<in> set ms. m = Inl e) \<Longrightarrow>
   sequence ms = Inl e"
proof (induction ms)
  case Nil
  then show ?case by simp
next
  case (Cons m ms)
  show ?case
  proof (cases m)
    case (Inl e')
    then show ?thesis using Cons.prems by auto
  next
    case (Inr v)
    then have "\<exists>m \<in> set ms. m = Inl e" using Cons.prems by auto
    then have "sequence ms = Inl e" using Cons by auto
    then show ?thesis using Inr by simp
  qed
qed

lemma linalg_solve_cases:
  "is_mat (length b) (length b) A \<Longrightarrow>
   linalg_solve A b = Inl LinearAlgebraError \<or> (\<exists>z. linalg_solve A b = Inr z)"
  by (simp add: linalg_solve_def)

lemma linalg_solve_singular:
  "is_mat (length b) (length b) A \<Longrightarrow> det A = 0 \<Longrightarrow> linalg_solve A b = Inl LinearAlgebraError"
  by (simp add: linalg_solve_def)

lemma batch_linalg_solve_singular:
  assumes C: "is_ten3 n k k C" and b: "is_mat n k inn" and s: "list_ex (\<lambda>A. det A = 0) C"
  shows "batch_linalg_solve C inn = Inl LinearAlgebraError"
proof -
  have len: "length C = length inn" using C b by (simp add: is_ten3_def is_mat_def)
  have ok: "\<forall>i < n. is_mat (length (inn ! i)) (length (inn ! i)) (C ! i)"
    using C b by (auto simp: is_ten3_def is_mat_def list_all_length)
  have 1: "\<forall>m \<in> set (map2 linalg_solve C inn). m = Inl LinearAlgebraError \<or> (\<exists>v. m = Inr v)"
  proof
    fix m assume "m \<in> set (map2 linalg_solve C inn)"
    then obtain i where i: "i < length (map2 linalg_solve C inn)" and m: "m = map2 linalg_solve C inn ! i"
      by (metis in_set_conv_nth)
    then have "i < n" using C b by (simp add: is_ten3_def is_mat_def)
    then show "m = Inl LinearAlgebraError \<or> (\<exists>v. m = Inr v)"
      using ok m i linalg_solve_cases [of "inn ! i" "C ! i"] by simp
  qed
  obtain i where i: "i < length C" and d: "det (C ! i) = 0"
    using s by (auto simp: list_ex_length)
  have "i < n" using i C by (simp add: is_ten3_def)
  then have "map2 linalg_solve C inn ! i = Inl LinearAlgebraError"
    using ok d i len linalg_solve_singular [of "inn ! i" "C ! i"] by simp
  then have 2: "\<exists>m \<in> set (map2 linalg_solve C inn). m = Inl LinearAlgebraError"
    using i len by (metis length_map length_zip min.idem nth_mem)
  show ?thesis
    using sequence_first_error [OF 1 2] len by (simp add: batch_linalg_solve_def)
qed

lemma batch_linalg_solve_A_singular:
  assumes A: "is_mat k k A" and b: "is_mat n k inn" and n: "0 < n" and s: "det A = 0"
  shows "batch_linalg_solve_A A inn = Inl LinearAlgebraError"
proof -
  have "\<forall>b \<in> set inn. linalg_solve A b = Inl LinearAlgebraError"
    using A b s by (auto simp: is_mat_def list_all_iff intro!: linalg_solve_singular)
  moreover have "inn \<noteq> []" using b n by (auto simp: is_mat_def)
  ultimately have "sequence (map (linalg_solve A) inn) = Inl LinearAlgebraError"
    by (intro sequence_first_error) (auto simp: image_iff neq_Nil_conv)
  then show ?thesis by (simp add: batch_linalg_solve_A_def)
qed


text \<open>
  Claim C2. In VJP, VJPAlt, JacRev, JacFwd and the full-matrix branch of PIG, when the
  arguments of the batched solve are well shaped (\<open>C_yy\<close> a batch of square matrices,
  the innovation a batch of vectors of their size) and a matrix of \<open>C_yy\<close> is singular,
  the guidance function fails with \<open>LinearAlgebraError\<close>: the body does not catch the
  error of the solve and does not change \<open>C_yy\<close> before it.
\<close>

theorem singular_covariance_raises:
  assumes "is_ten3 n k k C_yy" and "is_mat n k innovation"
    and "list_ex (\<lambda>A. det A = 0) C_yy"
  shows "(VJP_C_yy_innovation sd H y noise_std shape bH x t = Inr (C_yy, innovation, G, s)
            \<longrightarrow> VJP_guidance_score sd H y noise_std shape bH x t = Inl LinearAlgebraError)
       \<and> (VJPAlt_C_yy_innovation sd H y noise_std shape bH x t = Inr (C_yy, innovation, pull, s)
            \<longrightarrow> VJPAlt_guidance_score sd H y noise_std shape bH x t = Inl LinearAlgebraError)
       \<and> (JacRev_C_yy_innovation sd h y noise_std shape x t = Inr (C_yy, innovation, G, s)
            \<longrightarrow> JacRev_guidance_score sd h y noise_std shape x t = Inl LinearAlgebraError)
       \<and> (JacFwd_C_yy_innovation sd h y noise_std shape x t = Inr (C_yy, innovation, G, s)
            \<longrightarrow> JacFwd_guidance_score sd h y noise_std shape x t = Inl LinearAlgebraError)
       \<and> (nd_shape HHT = [ncols y, ncols y]
            \<and> jax_vjp (get_estimate_x_0 sd h None t) x = Inr (hx, pull, s)
            \<and> sub_mat y hx = Inr innovation
            \<and> PIG_C_yy sd y noise_std HHT t = Inr A \<and> is_mat k k A \<and> det A = 0 \<and> 0 < n
            \<longrightarrow> PIG_guidance_score sd h y noise_std HHT x t = Inl LinearAlgebraError)"
proof -
  have b: "batch_linalg_solve C_yy innovation = Inl LinearAlgebraError"
    using assms by (rule batch_linalg_solve_singular)
  have 1: "VJP_C_yy_innovation sd H y noise_std shape bH x t = Inr (C_yy, innovation, G, s)
            \<longrightarrow> VJP_guidance_score sd H y noise_std shape bH x t = Inl LinearAlgebraError"
    using b by (simp add: VJP_guidance_score_def)
  have 2: "VJPAlt_C_yy_innovation sd H y noise_std shape bH x t = Inr (C_yy, innovation, pull, s)
            \<longrightarrow> VJPAlt_guidance_score sd H y noise_std shape bH x t = Inl LinearAlgebraError"
    using b by (simp add: VJPAlt_guidance_score_def)
  have 3: "JacRev_C_yy_innovation sd h y noise_std shape x t = Inr (C_yy, innovation, G, s)
            \<longrightarrow> JacRev_guidance_score sd h y noise_std shape x t = Inl LinearAlgebraError"
    using b by (simp add: JacRev_guidance_score_def)
  have 4: "JacFwd_C_yy_innovation sd h y noise_std shape x t = Inr (C_yy, innovation, G, s)
            \<longrightarrow> JacFwd_guidance_score sd h y noise_std shape x t = Inl LinearAlgebraError"
    using b by (simp add: JacFwd_guidance_score_def)
  have 5: "nd_shape HHT = [ncols y, ncols y]
            \<and> jax_vjp (get_estimate_x_0 sd h None t) x = Inr (hx, pull, s)
            \<and> sub_mat y hx = Inr innovation
            \<and> PIG_C_yy sd y noise_std HHT t = Inr A \<and> is_mat k k A \<and> det A = 0 \<and> 0 < n
            \<longrightarrow> PIG_guidance_score sd h y noise_std HHT x t = Inl LinearAlgebraError"
  proof
    assume a: "nd_shape HHT = [ncols y, ncols y]
            \<and> jax_vjp (get_estimate_x_0 sd h None t) x = Inr (hx, pull, s)
            \<and> sub_mat y hx = Inr innovation
            \<and> PIG_C_yy sd y noise_std HHT t = Inr A \<and> is_mat k k A \<and> det A = 0 \<and> 0 < n"
    then have "batch_linalg_solve_A A innovation = Inl LinearAlgebraError"
      using assms(2) by (intro batch_linalg_solve_A_singular [where n = n and k = k]) auto
    then show "PIG_guidance_score sd h y noise_std HHT x t = Inl LinearAlgebraError"
      using a by (simp add: PIG_guidance_score_def)
  qed
  show ?thesis using 1 2 3 4 5 by blast
qed

text \<open>
  An instance: the stub at a time where \<^verbatim>\<open>ratio\<close> (and \<^verbatim>\<open>r2\<close>) is zero, with a noise-free
  measurement, \<open>noise_std = 0\<close>: \<open>C_yy\<close> is the zero matrix.
\<close>

lemma singular_prefixes:
  "VJP_batch_H (eye 2) (1, 2) = Inr [[[1, 0]], [[0, 1]]]"
  "VJPAlt_batch_H (eye 2) (1, 2) = Inr [[[1, 0]], [[0, 1]]]"
  "VJP_C_yy_innovation (stub_sde 0) (eye 2) [[1, 2]] 0 (1, 2) [[[1, 0]], [[0, 1]]] [[0, 0]]
     (TCol [1]) = Inr ([[[0, 0], [0, 0]]], [[1, 2]], [[[1, 0]], [[0, 1]]], [[0, 0]])"
  "\<exists>pull. VJPAlt_C_yy_innovation (stub_sde 0) (eye 2) [[1, 2]] 0 (1, 2) [[[1, 0]], [[0, 1]]]
     [[0, 0]] (TCol [1]) = Inr ([[[0, 0], [0, 0]]], [[1, 2]], pull, [[0, 0]])"
  "JacRev_C_yy_innovation (stub_sde 0) identity_obs [[1, 2]] 0 (1, 2) [[0, 0]] (TCol [1])
     = Inr ([[[0, 0], [0, 0]]], [[1, 2]], [[[1, 0], [0, 1]]], [[0, 0]])"
  "JacFwd_C_yy_innovation (stub_sde 0) identity_obs [[1, 2]] 0 (1, 2) [[0, 0]] (TCol [1])
     = Inr ([[[0, 0], [0, 0]]], [[1, 2]], [[[1, 0], [0, 1]]], [[0, 0]])"
  "PIG_C_yy (stub_sde 0) [[1, 2]] 0 \<lparr>nd_shape = [2, 2], nd_data = [1, 0, 0, 1]\<rparr> (TCol [1])
     = Inr [[0, 0], [0, 0]]"
  "\<exists>pull. jax_vjp (get_estimate_x_0 (stub_sde 0) identity_obs None (TCol [1])) [[0, 0]]
     = Inr ([[0, 0]], pull, [[0, 0]])"
  "sub_mat [[1, 2]] [[0, 0]] = Inr [[1, 2]]"
  unfolding VJPAlt_batch_H_def axes_102
  by (simp_all add: VJP_batch_H_def VJP_C_yy_innovation_def VJPAlt_C_yy_innovation_def
      JacRev_C_yy_innovation_def JacFwd_C_yy_innovation_def PIG_C_yy_def stub_sde_def eval_simps)

theorem singular_covariance_raises_witness:
  "is_ten3 1 2 2 [[[0, 0], [0, 0 :: real]]] \<and> is_mat 1 2 [[1, 2 :: real]]
   \<and> list_ex (\<lambda>A. det A = 0) [[[0, 0], [0, 0]]]
   \<and> guidance_score (VJP (stub_sde 0) (eye 2) [[1, 2]] 0 (1, 2)) [[0, 0]] (TCol [1])
       = Inl LinearAlgebraError
   \<and> guidance_score (VJPAlt (stub_sde 0) (eye 2) [[1, 2]] 0 (1, 2)) [[0, 0]] (TCol [1])
       = Inl LinearAlgebraError
   \<and> guidance_score (JacRev (stub_sde 0) identity_obs [[1, 2]] 0 (1, 2)) [[0, 0]] (TCol [1])
       = Inl LinearAlgebraError
   \<and> guidance_score (JacFwd (stub_sde 0) identity_obs [[1, 2]] 0 (1, 2)) [[0, 0]] (TCol [1])
       = Inl LinearAlgebraError
   \<and> guidance_score (PIG (stub_sde 0) identity_obs [[1, 2]] 0
         \<lparr>nd_shape = [2, 2], nd_data = [1, 0, 0, 1]\<rparr>) [[0, 0]] (TCol [1])
       = Inl LinearAlgebraError"
proof -
  have h1: "is_ten3 1 2 2 [[[0, 0], [0, 0 :: real]]]" by (simp add: is_ten3_def is_mat_def)
  have h2: "is_mat 1 2 [[1, 2 :: real]]" by (simp add: is_mat_def)
  have h3: "list_ex (\<lambda>A. det A = 0) [[[0, 0], [0, 0]]]" by (simp add: upt_num)
  have h4: "is_mat 2 2 [[0, 0], [0, 0 :: real]]" "det [[0, 0], [0, 0]] = 0"
    "nd_shape \<lparr>nd_shape = [2, 2], nd_data = [1, 0, 0, 1]\<rparr> = [ncols [[1, 2 :: real]], ncols [[1, 2 :: real]]]"
    by (simp_all add: is_mat_def upt_num ncols_def)
  obtain p1 where p1: "VJPAlt_C_yy_innovation (stub_sde 0) (eye 2) [[1, 2]] 0 (1, 2)
     [[[1, 0]], [[0, 1]]] [[0, 0]] (TCol [1]) = Inr ([[[0, 0], [0, 0]]], [[1, 2]], p1, [[0, 0]])"
    using singular_prefixes(4) by blast
  obtain p2 where p2: "jax_vjp (get_estimate_x_0 (stub_sde 0) identity_obs None (TCol [1]))
     [[0, 0]] = Inr ([[0, 0]], p2, [[0, 0]])"
    using singular_prefixes(8) by blast
  note T1 = singular_covariance_raises [OF h1 h2 h3, where sd = "stub_sde 0" and H = "eye 2"
      and y = "[[1, 2]]" and noise_std = 0 and shape = "(1, 2)" and bH = "[[[1, 0]], [[0, 1]]]"
      and x = "[[0, 0]]" and t = "TCol [1]" and G = "[[[1, 0]], [[0, 1]]]" and s = "[[0, 0]]"
      and pull = p1]
  note T2 = singular_covariance_raises [OF h1 h2 h3, where sd = "stub_sde 0" and h = identity_obs
      and y = "[[1, 2]]" and noise_std = 0 and shape = "(1, 2)"
      and x = "[[0, 0]]" and t = "TCol [1]" and G = "[[[1, 0], [0, 1]]]" and s = "[[0, 0]]"
      and pull = p2 and hx = "[[0, 0]]" and A = "[[0, 0], [0, 0]]"
      and HHT = "\<lparr>nd_shape = [2, 2], nd_data = [1, 0, 0, 1]\<rparr>"]
  have a: "VJP_guidance_score (stub_sde 0) (eye 2) [[1, 2]] 0 (1, 2) [[[1, 0]], [[0, 1]]]
      [[0, 0]] (TCol [1]) = Inl LinearAlgebraError"
    using T1 singular_prefixes(3) by blast
  have b: "VJPAlt_guidance_score (stub_sde 0) (eye 2) [[1, 2]] 0 (1, 2) [[[1, 0]], [[0, 1]]]
      [[0, 0]] (TCol [1]) = Inl LinearAlgebraError"
    using T1 p1 by blast
  have c: "JacRev_guidance_score (stub_sde 0) identity_obs [[1, 2]] 0 (1, 2) [[0, 0]] (TCol [1])
      = Inl LinearAlgebraError"
    using T2 singular_prefixes(5) by blast
  have d: "JacFwd_guidance_score (stub_sde 0) identity_obs [[1, 2]] 0 (1, 2) [[0, 0]] (TCol [1])
      = Inl LinearAlgebraError"
    using T2 singular_prefixes(6) by blast
  have e: "PIG_guidance_score (stub_sde 0) identity_obs [[1, 2]] 0
      \<lparr>nd_shape = [2, 2], nd_data = [1, 0, 0, 1]\<rparr> [[0, 0]] (TCol [1]) = Inl LinearAlgebraError"
    using T2 h4 p2 singular_prefixes(7) singular_prefixes(9) by simp
  have a': "guidance_score (VJP (stub_sde 0) (eye 2) [[1, 2]] 0 (1, 2)) [[0, 0]] (TCol [1])
       = Inl LinearAlgebraError"
    by (simp only: guidance_score_def get_guidance_score_func.simps singular_prefixes(1)
        and_then_Inr a)
  have b': "guidance_score (VJPAlt (stub_sde 0) (eye 2) [[1, 2]] 0 (1, 2)) [[0, 0]] (TCol [1])
       = Inl LinearAlgebraError"
    by (simp only: guidance_score_def get_guidance_score_func.simps singular_prefixes(2)
        and_then_Inr b)
  have c': "guidance_score (JacRev (stub_sde 0) identity_obs [[1, 2]] 0 (1, 2)) [[0, 0]]
       (TCol [1]) = Inl LinearAlgebraError"
    by (simp only: guidance_score_def get_guidance_score_func.simps and_then_Inr c)
  have d': "guidance_score (JacFwd (stub_sde 0) identity_obs [[1, 2]] 0 (1, 2)) [[0, 0]]
       (TCol [1]) = Inl LinearAlgebraError"
    by (simp only: guidance_score_def get_guidance_score_func.simps and_then_Inr d)
  have e': "guidance_score (PIG (stub_sde 0) identity_obs [[1, 2]] 0
         \<lparr>nd_shape = [2, 2], nd_data = [1, 0, 0, 1]\<rparr>) [[0, 0]] (TCol [1])
       = Inl LinearAlgebraError"
    by (simp only: guidance_score_def get_guidance_score_func.simps and_then_Inr e)
  show ?thesis
    using h1 h2 h3 a' b' c' d' e' by blast
qed

section \<open>DPS: the score minus the scaled gradient of the norm\<close>

text \<open>
  The gradient that \<open>get_l2_norm\<close> carries is the derivative of its value. On the linear
  handle \<open>x0 = A x\<close> with one sample of dimension two this is checked against the
  derivative of real analysis, in each coordinate of the sample.
\<close>

lemma l2_norm_linear_value:
  "sval (get_l2_norm [[y1, y2]]
           (get_estimate_x_0 (linear_sde [[a, b], [c, d]] r q) identity_obs None) (TCol [t1]))
      [[x1, x2]]
   = Inr (sqrt ((y1 - (a * x1 + b * x2)) * (y1 - (a * x1 + b * x2)) +
               (y2 - (c * x1 + d * x2)) * (y2 - (c * x1 + d * x2))), [[0, 0]])"
  by (simp add: get_l2_norm_def linear_sde_def eval_simps)

lemma l2_norm_linear_gradient:
  assumes "(y1 - (a * x1 + b * x2)) * (y1 - (a * x1 + b * x2)) +
           (y2 - (c * x1 + d * x2)) * (y2 - (c * x1 + d * x2)) \<noteq> 0"
  shows "sgrad (get_l2_norm [[y1, y2]]
           (get_estimate_x_0 (linear_sde [[a, b], [c, d]] r q) identity_obs None) (TCol [t1]))
      [[x1, x2]]
   = Inr [[- (((y1 - (a * x1 + b * x2)) * a + (y2 - (c * x1 + d * x2)) * c)
             / sqrt ((y1 - (a * x1 + b * x2)) * (y1 - (a * x1 + b * x2)) +
                     (y2 - (c * x1 + d * x2)) * (y2 - (c * x1 + d * x2)))),
           - (((y1 - (a * x1 + b * x2)) * b + (y2 - (c * x1 + d * x2)) * d)
             / sqrt ((y1 - (a * x1 + b * x2)) * (y1 - (a * x1 + b * x2)) +
                     (y2 - (c * x1 + d * x2)) * (y2 - (c * x1 + d * x2))))]]"
  using assms
  by (simp add: get_l2_norm_def linear_sde_def eval_simps add_divide_distrib)

lemma sum_squares_pos:
  fixes p :: real
  assumes "p * p + q * q \<noteq> 0"
  shows "0 < p * p + q * q"
proof -
  have "0 \<le> p * p" "0 \<le> q * q" by simp_all
  then have "0 \<le> p * p + q * q" by simp
  moreover note assms
  ultimately show ?thesis by (simp only: less_le) auto
qed

lemma l2_norm_gradient_is_derivative:
  assumes "(y1 - (a * x1 + b * x2)) * (y1 - (a * x1 + b * x2)) +
           (y2 - (c * x1 + d * x2)) * (y2 - (c * x1 + d * x2)) \<noteq> 0"
  shows "((\<lambda>u. fst (projr (sval (get_l2_norm [[y1, y2]]
             (get_estimate_x_0 (linear_sde [[a, b], [c, d]] r q) identity_obs None) (TCol [t1]))
             [[u, x2]])))
          has_real_derivative
          projr (sgrad (get_l2_norm [[y1, y2]]
             (get_estimate_x_0 (linear_sde [[a, b], [c, d]] r q) identity_obs None) (TCol [t1]))
             [[x1, x2]]) ! 0 ! 0) (at x1)"
    and "((\<lambda>u. fst (projr (sval (get_l2_norm [[y1, y2]]
             (get_estimate_x_0 (linear_sde [[a, b], [c, d]] r q) identity_obs None) (TCol [t1]))
             [[x1, u]])))
          has_real_derivative
          projr (sgrad (get_l2_norm [[y1, y2]]
             (get_estimate_x_0 (linear_sde [[a, b], [c, d]] r q) identity_obs None) (TCol [t1]))
             [[x1, x2]]) ! 0 ! 1) (at x2)"
proof -
  have pos: "0 < (y1 - (a * x1 + b * x2)) * (y1 - (a * x1 + b * x2)) +
           (y2 - (c * x1 + d * x2)) * (y2 - (c * x1 + d * x2))"
    using assms by (rule sum_squares_pos)
  show "((\<lambda>u. fst (projr (sval (get_l2_norm [[y1, y2]]
             (get_estimate_x_0 (linear_sde [[a, b], [c, d]] r q) identity_obs None) (TCol [t1]))
             [[u, x2]])))
          has_real_derivative
          projr (sgrad (get_l2_norm [[y1, y2]]
             (get_estimate_x_0 (linear_sde [[a, b], [c, d]] r q) identity_obs None) (TCol [t1]))
             [[x1, x2]]) ! 0 ! 0) (at x1)"
    unfolding l2_norm_linear_value l2_norm_linear_gradient [OF assms]
    using pos by (auto intro!: derivative_eq_intros simp: field_simps)
  show "((\<lambda>u. fst (projr (sval (get_l2_norm [[y1, y2]]
             (get_estimate_x_0 (linear_sde [[a, b], [c, d]] r q) identity_obs None) (TCol [t1]))
             [[x1, u]])))
          has_real_derivative
          projr (sgrad (get_l2_norm [[y1, y2]]
             (get_estimate_x_0 (linear_sde [[a, b], [c, d]] r q) identity_obs None) (TCol [t1]))
             [[x1, x2]]) ! 0 ! 1) (at x2)"
    unfolding l2_norm_linear_value l2_norm_linear_gradient [OF assms]
    using pos by (auto intro!: derivative_eq_intros simp: field_simps)
qed



section \<open>All variants on one input\<close>

text \<open>
  The eleven variants on a batch of two samples of dimension two, with the handle
  \<open>x0 = (x\<^sub>1 + x\<^sub>2, x\<^sub>2)\<close>, \<^verbatim>\<open>ratio = r2 = 1\<close>, \<open>noise_std = 1\<close>, \<open>H = I\<close> and the
  identity observation map, \<open>y = ((1, 0), (0, 1))\<close> and \<open>x = ((0, 0), (1, 1))\<close>: first with a
  time column, then with a scalar time.
\<close>

lemmas variant_defs =
  DPS_guidance_score_def get_l2_norm_def DPSMod_guidance_score_def PIG_guidance_score_def
  PIG_C_yy_def VJPAlt_guidance_score_def VJPAlt_C_yy_innovation_def VJP_guidance_score_def
  VJP_C_yy_innovation_def VJPMask_guidance_score_def JacRev_guidance_score_def
  JacRev_C_yy_innovation_def JacFwd_guidance_score_def JacFwd_C_yy_innovation_def
  JacRevDiagonal_guidance_score_def vec_jacrev_def VJPDiagonal_guidance_score_def
  JacFwdDiagonal_guidance_score_def vec_jacfwd_def VJP_batch_H_def VJPAlt_batch_H_def
  linear_sde_def stub_sde_def





lemma run_VJP:
  "guidance_score (VJP (linear_sde [[1, 1], [0, 1]] 1 1) (eye 2) [[1, 0], [0, 1]] 1 (2, 2))
     [[0, 0], [1, 1]] (TCol [1, 1])
   = Inr [[1 / 2, 1 / 4], [- 1, - (1 / 2)]]"
  by (simp add: variant_defs eval_simps)


lemma run_JacRev:
  "guidance_score (JacRev (linear_sde [[1, 1], [0, 1]] 1 1) identity_obs [[1, 0], [0, 1]] 1 (2, 2))
     [[0, 0], [1, 1]] (TCol [1, 1])
   = Inr [[1 / 2, 1 / 2], [- 1, - 1]]"
  by (simp add: variant_defs eval_simps)







lemma run_scalar_PIG:
  "guidance_score (PIG (linear_sde [[1, 1], [0, 1]] 1 1) identity_obs [[1, 0], [0, 1]] 1 \<lparr>nd_shape = [1], nd_data = [1]\<rparr>)
     [[0, 0], [1, 1]] (TScalar 1)
   = Inl IndexError"
  by (simp add: variant_defs eval_simps)

lemma run_scalar_VJPAlt:
  "guidance_score (VJPAlt (linear_sde [[1, 1], [0, 1]] 1 1) (eye 2) [[1, 0], [0, 1]] 1 (2, 2))
     [[0, 0], [1, 1]] (TScalar 1)
   = Inl IndexError"
  by (simp add: variant_defs eval_simps)


lemma run_scalar_VJPMask:
  "guidance_score (VJPMask (linear_sde [[1, 1], [0, 1]] 1 1) identity_obs [[1, 0], [0, 1]] 1 (2, 2))
     [[0, 0], [1, 1]] (TScalar 1)
   = Inl IndexError"
  by (simp add: variant_defs eval_simps)


lemma run_scalar_JacFwd:
  "guidance_score (JacFwd (linear_sde [[1, 1], [0, 1]] 1 1) identity_obs [[1, 0], [0, 1]] 1 (2, 2))
     [[0, 0], [1, 1]] (TScalar 1)
   = Inl ShapeError"
  by (simp add: variant_defs eval_simps)

lemma run_scalar_JacRevDiagonal:
  "guidance_score (JacRevDiagonal (linear_sde [[1, 1], [0, 1]] 1 1) identity_obs [[1, 0], [0, 1]] 1 (2, 2))
     [[0, 0], [1, 1]] (TScalar 1)
   = Inl IndexError"
  by (simp add: variant_defs eval_simps)

lemma run_scalar_VJPDiagonal:
  "guidance_score (VJPDiagonal (linear_sde [[1, 1], [0, 1]] 1 1) (eye 2) [[1, 0], [0, 1]] 1 (2, 2))
     [[0, 0], [1, 1]] (TScalar 1)
   = Inl IndexError"
  by (simp add: variant_defs eval_simps)

lemma run_scalar_JacFwdDiagonal:
  "guidance_score (JacFwdDiagonal (linear_sde [[1, 1], [0, 1]] 1 1) identity_obs [[1, 0], [0, 1]] 1 (2, 2))
     [[0, 0], [1, 1]] (TScalar 1)
   = Inl IndexError"
  by (simp add: variant_defs eval_simps)


section \<open>The shape of the corrected score\<close>


lemma is_mat_rect: "is_mat B d x \<Longrightarrow> rect x"
  by (cases x) (auto simp: is_mat_def rect_def ncols_def list_all_iff)







lemma smul_mat_is_mat: "is_mat B d m \<Longrightarrow> is_mat B d (smul_mat c m)"
  by (auto simp: is_mat_def smul_mat_def list_all_iff)



lemma est_fwd_length:
  assumes "fwd (get_estimate_x_0 sd h shp t) x = Inr (out, s)"
  shows "\<exists>ts x0. t_rows t (length x) = Inr ts \<and> est_reshape shp (map2 (mean_est sd) x ts) = Inr x0
     \<and> out = map (obs_fun h) x0"
  using assms by (auto simp: get_estimate_x_0_def and_then_eq_Inr)

lemma vecmat_length [simp]: "length (vecmat n v M) = n"
  by (simp add: vecmat_def)




















text \<open>With a scalar time, \<^verbatim>\<open>t[0]\<close> and the map over \<open>t\<close> fail: nine variants never return.\<close>

lemma t_index0_scalar [simp]: "t_index0 (TScalar v) = Inl IndexError"
  by (simp add: t_index0_def)

lemma jax_vmap2_scalar [simp]: "jax_vmap2 f x (TScalar v) = Inl ShapeError"
  by (simp add: jax_vmap2_def)





section \<open>Arrays of a known shape\<close>

text \<open>
  On arrays of a known shape the operations of the array library have closed forms:
  reshaping the entries of an array of the target shape gives the array back, the
  identity matrix is neutral, and the transposed matrix applied to a vector is the vector
  applied from the left.
\<close>

lemma is_mat_nth: "is_mat r c m \<Longrightarrow> i < r \<Longrightarrow> length (m ! i) = c"
  by (simp add: is_mat_def list_all_length)

lemma is_mat_length: "is_mat r c m \<Longrightarrow> length m = r"
  by (simp add: is_mat_def)

lemma is_mat_ncols: "is_mat r c m \<Longrightarrow> 0 < r \<Longrightarrow> ncols m = c"
  by (cases m) (auto simp: is_mat_def ncols_def)

lemma is_matI: "length m = r \<Longrightarrow> (\<And>i. i < r \<Longrightarrow> length (m ! i) = c) \<Longrightarrow> is_mat r c m"
  by (simp add: is_mat_def list_all_length)

lemma length_concat_is_mat: "is_mat r c m \<Longrightarrow> length (concat m) = r * c"
proof (induction m arbitrary: r)
  case Nil
  then show ?case by (simp add: is_mat_def)
next
  case (Cons a m)
  then obtain r' where r: "r = Suc r'" and m: "is_mat r' c m" and a: "length a = c"
    by (cases r) (auto simp: is_mat_def)
  show ?case using Cons.IH [OF m] a r by simp
qed

lemma concat_chunk: "is_mat r c m \<Longrightarrow> i < r \<Longrightarrow> take c (drop (i * c) (concat m)) = m ! i"
proof (induction m arbitrary: r i)
  case Nil
  then show ?case by (simp add: is_mat_def)
next
  case (Cons a m)
  then obtain r' where r: "r = Suc r'" and m: "is_mat r' c m" and a: "length a = c"
    by (cases r) (auto simp: is_mat_def)
  show ?case
  proof (cases i)
    case 0
    then show ?thesis using a by simp
  next
    case (Suc j)
    then have j: "j < r'" using Cons.prems r by simp
    have "drop (i * c) (a @ concat m) = drop (j * c) (concat m)"
      using Suc a by simp
    then show ?thesis using Cons.IH [OF m j] Suc by simp
  qed
qed

lemma reshape2_concat: "is_mat r c m \<Longrightarrow> reshape2 r c (concat m) = Inr m"
  by (auto simp: reshape2_def length_concat_is_mat concat_chunk is_mat_length
      intro!: nth_equalityI)

lemma reshape_infer_concat: "is_mat r c m \<Longrightarrow> 0 < r \<Longrightarrow> reshape_infer r (concat m) = Inr m"
  by (simp add: reshape_infer_def length_concat_is_mat reshape2_concat)

lemma is_ten3_nth: "is_ten3 a r c T \<Longrightarrow> i < a \<Longrightarrow> is_mat r c (T ! i)"
  by (simp add: is_ten3_def list_all_length)

lemma concat_map_concat: "concat (map concat T) = concat (concat T)"
  by (induction T) auto

lemma concat_concat_chunk:
  assumes "is_ten3 a r c T" and "i < a"
  shows "take (r * c) (drop (i * (r * c)) (concat (concat T))) = concat (T ! i)"
proof -
  have "is_mat a (r * c) (map concat T)"
    using assms(1) by (auto simp: is_ten3_def is_mat_def list_all_iff length_concat_is_mat)
  then have "take (r * c) (drop (i * (r * c)) (concat (map concat T))) = map concat T ! i"
    using assms(2) by (rule concat_chunk)
  moreover have "concat (map concat T) = concat (concat T)" by (simp add: concat_map_concat)
  ultimately show ?thesis using assms by (simp add: is_ten3_def)
qed

lemma reshape3_concat:
  assumes "is_ten3 a r c T"
  shows "reshape3 a r c (concat (concat T)) = Inr T"
proof -
  have "is_mat a (r * c) (map concat T)"
    using assms(1) by (auto simp: is_ten3_def is_mat_def list_all_iff length_concat_is_mat)
  then have len: "length (concat (concat T)) = a * r * c"
    using length_concat_is_mat [of a "r * c" "map concat T"] by (simp add: concat_map_concat mult.assoc)
  have "map (\<lambda>i. reshape2 r c (take (r * c) (drop (i * (r * c)) (concat (concat T))))) [0..<a]
      = map Inr T"
    using assms
    by (auto simp: concat_concat_chunk reshape2_concat is_ten3_nth is_ten3_def intro!: nth_equalityI)
  then show ?thesis using len by (simp add: reshape3_def)
qed

lemma sum_list_unit:
  "i < n \<Longrightarrow> sum_list (map (\<lambda>j. (if j = i then 1 else 0) * (f j :: real)) [0..<n]) = f i"
proof (induction n)
  case 0
  then show ?case by simp
next
  case (Suc n)
  show ?case
  proof (cases "i = n")
    case True
    have "map (\<lambda>j. (if j = i then 1 else 0) * f j) [0..<n] = map (\<lambda>j. 0) [0..<n]"
      using True by simp
    then have "sum_list (map (\<lambda>j. (if j = i then 1 else 0) * f j) [0..<n]) = 0"
      by (simp only: sum_list_0)
    then show ?thesis using True by simp
  next
    case False
    then have "i < n" using Suc.prems by simp
    then show ?thesis using Suc.IH False by simp
  qed
qed

lemma map2_upt: "length xs = n \<Longrightarrow> length ys = n \<Longrightarrow>
   map2 f xs ys = map (\<lambda>j. f (xs ! j) (ys ! j)) [0..<n]"
  by (auto intro!: nth_equalityI)

lemma eye_nth: "i < n \<Longrightarrow> eye n ! i = unit_vec n i"
  by (auto simp: eye_def unit_vec_def)

lemma eye_nth_nth: "i < n \<Longrightarrow> j < n \<Longrightarrow> eye n ! i ! j = (if j = i then 1 else 0)"
  by (auto simp: eye_def)

lemma eye_is_mat: "is_mat n n (eye n)"
  by (auto simp: eye_def is_mat_def list_all_iff)

lemma length_unit_vec [simp]: "length (unit_vec n i) = n"
  by (simp add: unit_vec_def)

lemma length_eye [simp]: "length (eye n) = n"
  by (simp add: eye_def)

lemma vecmat_unit:
  assumes "is_mat n k M" and "i < n"
  shows "vecmat k (unit_vec n i) M = M ! i"
proof (intro nth_equalityI)
  show "length (vecmat k (unit_vec n i) M) = length (M ! i)"
    using assms by (simp add: vecmat_def is_mat_nth)
next
  fix c assume "c < length (vecmat k (unit_vec n i) M)"
  then have c: "c < k" by (simp add: vecmat_def)
  have "map2 (\<lambda>a row. a * row ! c) (unit_vec n i) M
      = map (\<lambda>j. (if j = i then 1 else 0) * (M ! j ! c)) [0..<n]"
    using assms by (subst map2_upt [where n = n]) (auto simp: is_mat_length unit_vec_def)
  then show "vecmat k (unit_vec n i) M ! c = M ! i ! c"
    using c assms(2) by (simp add: vecmat_def sum_list_unit [where f = "\<lambda>j. M ! j ! c"])
qed

lemma vecmat_eye:
  assumes "length v = n"
  shows "vecmat n v (eye n) = v"
proof (intro nth_equalityI)
  show "length (vecmat n v (eye n)) = length v" using assms by (simp add: vecmat_def)
next
  fix c assume "c < length (vecmat n v (eye n))"
  then have c: "c < n" by (simp add: vecmat_def)
  have "map2 (\<lambda>a row. a * row ! c) v (eye n)
      = map (\<lambda>j. (if j = c then 1 else 0) * (v ! j)) [0..<n]"
    using assms c by (subst map2_upt [where n = n]) (auto simp: eye_nth_nth)
  then show "vecmat n v (eye n) ! c = v ! c"
    using c by (simp add: vecmat_def sum_list_unit [where f = "\<lambda>j. v ! j"])
qed

lemma mv_eye:
  assumes "length v = n"
  shows "mv (eye n) v = v"
proof (intro nth_equalityI)
  show "length (mv (eye n) v) = length v" using assms by (simp add: mv_def)
next
  fix c assume "c < length (mv (eye n) v)"
  then have c: "c < n" by (simp add: mv_def)
  have "map2 (*) (eye n ! c) v = map (\<lambda>j. (if j = c then 1 else 0) * (v ! j)) [0..<n]"
    using assms c by (subst map2_upt [where n = n]) (auto simp: eye_nth unit_vec_def)
  then show "mv (eye n) v ! c = v ! c"
    using c by (simp add: mv_def dot_def sum_list_unit [where f = "\<lambda>j. v ! j"])
qed

lemma mv_unit:
  assumes "is_mat r n J" and "k < n"
  shows "mv J (unit_vec n k) = map (\<lambda>row. row ! k) J"
proof -
  have "\<And>row. length row = n \<Longrightarrow> dot row (unit_vec n k) = row ! k"
  proof -
    fix row :: vec assume l: "length row = n"
    have "map2 (*) row (unit_vec n k) = map (\<lambda>j. (if j = k then 1 else 0) * (row ! j)) [0..<n]"
      using l by (subst map2_upt [where n = n]) (auto simp: unit_vec_def)
    then show "dot row (unit_vec n k) = row ! k"
      using assms(2) by (simp add: dot_def sum_list_unit [where f = "\<lambda>j. row ! j"])
  qed
  then show ?thesis using assms(1) by (auto simp: mv_def is_mat_def list_all_iff)
qed

lemma transpose_mat_eq:
  "is_mat r c M \<Longrightarrow> 0 < r \<Longrightarrow> transpose_mat M = map (\<lambda>j. map (\<lambda>row. row ! j) M) [0..<c]"
  by (simp add: transpose_mat_def is_mat_ncols)

lemma transpose_is_mat: "is_mat r c M \<Longrightarrow> 0 < r \<Longrightarrow> is_mat c r (transpose_mat M)"
  using transpose_mat_eq [of r c M] by (auto simp: is_mat_def list_all_iff)

lemma transpose_nth: "is_mat r c M \<Longrightarrow> 0 < r \<Longrightarrow> j < c \<Longrightarrow> i < r \<Longrightarrow>
   transpose_mat M ! j ! i = M ! i ! j"
  by (simp add: transpose_mat_eq is_mat_length)

lemma mv_transpose:
  assumes "is_mat r c J" and "0 < r" and "length v = r"
  shows "mv (transpose_mat J) v = vecmat c v J"
proof (intro nth_equalityI)
  show "length (mv (transpose_mat J) v) = length (vecmat c v J)"
    using assms by (simp add: mv_def vecmat_def transpose_mat_eq)
next
  fix k assume "k < length (mv (transpose_mat J) v)"
  then have k: "k < c" using assms by (simp add: mv_def transpose_mat_eq)
  have 1: "map2 (*) (map (\<lambda>row. row ! k) J) v = map (\<lambda>j. (J ! j ! k) * (v ! j)) [0..<r]"
    using assms by (subst map2_upt [where n = r]) (auto simp: is_mat_length)
  have 2: "map2 (\<lambda>a row. a * row ! k) v J = map (\<lambda>j. (v ! j) * (J ! j ! k)) [0..<r]"
    using assms by (subst map2_upt [where n = r]) (auto simp: is_mat_length)
  show "mv (transpose_mat J) v ! k = vecmat c v J ! k"
    using k assms by (simp add: mv_def vecmat_def transpose_mat_eq dot_def 1 2 mult.commute)
qed

lemma matvec_ok: "is_mat r c M \<Longrightarrow> length v = c \<Longrightarrow> 0 < r \<Longrightarrow> matvec M v = Inr (mv M v)"
  by (simp add: matvec_def is_mat_rect is_mat_ncols)

lemma matvec_eye: "length v = n \<Longrightarrow> 0 < n \<Longrightarrow> matvec (eye n) v = Inr v"
  using matvec_ok [OF eye_is_mat, of v n] by (simp add: mv_eye)

lemma matmul_eye:
  assumes "is_mat n k M" and "0 < n"
  shows "matmul (eye n) M = Inr M"
proof -
  have "map (\<lambda>row. vecmat (ncols M) row M) (eye n) = M"
    using assms
    by (auto simp: is_mat_ncols is_mat_length eye_nth vecmat_unit intro!: nth_equalityI)
  then show ?thesis
    using assms eye_is_mat [of n]
    by (simp add: matmul_def is_mat_rect is_mat_ncols is_mat_length)
qed

lemma transpose_eye:
  assumes "0 < n"
  shows "transpose_mat (eye n) = eye n"
proof -
  have "transpose_mat (eye n) = map (\<lambda>j. map (\<lambda>row. row ! j) (eye n)) [0..<n]"
    using transpose_mat_eq [OF eye_is_mat assms] .
  also have "\<dots> = eye n"
    by (auto simp: eye_def intro!: nth_equalityI)
  finally show ?thesis .
qed

section \<open>The estimate under the identity observation map\<close>

text \<open>
  With the identity observation map, a time column of the size of the batch and a handle
  that keeps the size of a sample, the estimate returns the posterior mean and the score
  of every sample, and its pullback multiplies the cotangent of every sample by the
  Jacobian of the posterior mean. \<^verbatim>\<open>jacrev\<close> and \<^verbatim>\<open>jacfwd\<close> of the per-sample estimate
  both return that Jacobian.
\<close>

lemma and_then_cong_Inr: "(\<And>v. m = Inr v \<Longrightarrow> f v = g v) \<Longrightarrow> and_then m f = and_then m g"
  by (cases m) simp_all

lemma sequence_map2_Inr:
  assumes "length xs = n" and "length ys = n"
    and "\<And>i. i < n \<Longrightarrow> f (xs ! i) (ys ! i) = Inr (g (xs ! i) (ys ! i))"
  shows "sequence (map2 f xs ys) = Inr (map2 g xs ys)"
proof -
  have "map2 f xs ys = map Inr (map2 g xs ys)"
  proof (rule nth_equalityI)
    show "length (map2 f xs ys) = length (map Inr (map2 g xs ys))" by simp
  next
    fix i assume "i < length (map2 f xs ys)"
    then have i: "i < n" using assms(1,2) by simp
    then show "map2 f xs ys ! i = map Inr (map2 g xs ys) ! i"
      using assms(1,2) assms(3) [OF i] by simp
  qed
  then show ?thesis by (simp add: sequence_Inr_iff)
qed

lemma sequence_map_Inr_on:
  assumes "\<And>x. x \<in> set xs \<Longrightarrow> f x = Inr (g x)"
  shows "sequence (map f xs) = Inr (map g xs)"
proof -
  have "map f xs = map Inr (map g xs)" using assms by simp
  then show ?thesis by (simp add: sequence_Inr_iff)
qed

lemma bcast_eq:
  assumes "length xs = n" and "length ys = n"
    and "\<And>i. i < n \<Longrightarrow> f (xs ! i) (ys ! i) = Inr (g (xs ! i) (ys ! i))"
  shows "bcast f xs ys = Inr (map2 g xs ys)"
  using sequence_map2_Inr [of xs n ys f g] assms by (simp add: bcast_def)

lemma add_vec_eq: "length u = length v \<Longrightarrow> add_vec u v = Inr (map2 (+) u v)"
  unfolding add_vec_def by (rule bcast_eq [where n = "length u"]) auto

lemma sub_vec_eq: "length u = length v \<Longrightarrow> sub_vec u v = Inr (map2 (-) u v)"
  unfolding sub_vec_def by (rule bcast_eq [where n = "length u"]) auto

lemma add_mat_eq:
  assumes "is_mat r c a" and "is_mat r c b"
  shows "add_mat a b = Inr (map2 (map2 (+)) a b)"
  unfolding add_mat_def
  using assms by (intro bcast_eq [where n = r]) (auto simp: is_mat_length is_mat_nth add_vec_eq)

lemma sub_mat_eq:
  assumes "is_mat r c a" and "is_mat r c b"
  shows "sub_mat a b = Inr (map2 (map2 (-)) a b)"
  unfolding sub_mat_def
  using assms by (intro bcast_eq [where n = r]) (auto simp: is_mat_length is_mat_nth sub_vec_eq)

lemma map2_is_mat:
  assumes "is_mat r c a" and "is_mat r c b"
  shows "is_mat r c (map2 (map2 f) a b)"
  using assms by (intro is_matI) (auto simp: is_mat_length is_mat_nth)

lemma add_ten3_mat_eq:
  assumes "list_all (is_mat r c) T" and "is_mat r c M"
  shows "add_ten3_mat T M = Inr (map (\<lambda>A. map2 (map2 (+)) A M) T)"
  unfolding add_ten3_mat_def
  using assms by (intro sequence_map_Inr_on) (auto simp: list_all_iff add_mat_eq)

lemma t_index0_col: "ts \<noteq> [] \<Longrightarrow> t_index0 (TCol ts) = Inr (hd ts)"
  by (cases ts) (simp_all add: t_index0_def)

lemma t_rows_col: "length ts = n \<Longrightarrow> t_rows (TCol ts) n = Inr ts"
  by (simp add: t_rows_def)

text \<open>The estimate with the identity observation map on well-shaped arguments.\<close>

lemma mean_is_mat:
  assumes "is_mat B d x" and "length ts = B"
    and "\<And>v \<tau>. length v = d \<Longrightarrow> length (mean_est sd v \<tau>) = d"
  shows "is_mat B d (map2 (mean_est sd) x ts)"
  using assms by (intro is_matI) (auto simp: is_mat_length is_mat_nth)

lemma est_reshape_ok:
  assumes "is_mat B d m" and "shp = None \<or> (shp = Some B \<and> 0 < B)"
  shows "est_reshape shp m = Inr m"
  using assms by (auto simp: est_reshape_def reshape_infer_concat)

lemma est_unreshape_ok:
  assumes "is_mat B d m" and "is_mat B d u" and "0 < B"
  shows "est_unreshape shp m u = Inr u"
  using assms
  by (cases shp) (auto simp: est_unreshape_def is_mat_length is_mat_ncols reshape2_concat)

lemma est_fwd_identity:
  assumes x: "is_mat B d x" and ts: "length ts = B"
    and m: "\<And>v \<tau>. length v = d \<Longrightarrow> length (mean_est sd v \<tau>) = d"
    and shp: "shp = None \<or> (shp = Some B \<and> 0 < B)"
  shows "fwd (get_estimate_x_0 sd identity_obs shp (TCol ts)) x
     = Inr (map2 (mean_est sd) x ts, map2 (score sd) x ts)"
  using est_reshape_ok [OF mean_is_mat [OF x ts m] shp] x ts
  by (simp add: get_estimate_x_0_def t_rows_col is_mat_length identity_obs_def)

lemma est_pullback_identity:
  assumes x: "is_mat B d x" and ts: "length ts = B" and B: "0 < B"
    and m: "\<And>v \<tau>. length v = d \<Longrightarrow> length (mean_est sd v \<tau>) = d"
    and shp: "shp = None \<or> shp = Some B"
    and c: "is_mat B d c"
  shows "pullback (get_estimate_x_0 sd identity_obs shp (TCol ts)) x c
     = Inr (map2 (\<lambda>cb J. vecmat d cb J) c (map2 (mean_jac sd) x ts))"
proof -
  let ?x0 = "map2 (mean_est sd) x ts"
  have x0: "is_mat B d ?x0" by (rule mean_is_mat [OF x ts m])
  have r: "est_reshape shp ?x0 = Inr ?x0" using est_reshape_ok [OF x0] shp B by auto
  have u: "map2 (\<lambda>cb x0b. vecmat (length x0b) cb (obs_jac identity_obs x0b)) c ?x0 = c"
  proof (rule nth_equalityI)
    show "length (map2 (\<lambda>cb x0b. vecmat (length x0b) cb (obs_jac identity_obs x0b)) c ?x0) = length c"
      using c x ts by (simp add: is_mat_length)
  next
    fix i assume "i < length (map2 (\<lambda>cb x0b. vecmat (length x0b) cb (obs_jac identity_obs x0b)) c ?x0)"
    then have i: "i < B" using c x ts by (simp add: is_mat_length)
    have l1: "length (?x0 ! i) = d" using is_mat_nth [OF x0 i] .
    have l2: "length (c ! i) = d" using is_mat_nth [OF c i] .
    have "vecmat d (c ! i) (eye d) = c ! i" using l2 by (simp add: vecmat_eye)
    then show "map2 (\<lambda>cb x0b. vecmat (length x0b) cb (obs_jac identity_obs x0b)) c ?x0 ! i = c ! i"
      using i c x ts l1 by (simp add: is_mat_length identity_obs_def)
  qed
  have un: "est_unreshape shp ?x0 c = Inr c" by (rule est_unreshape_ok [OF x0 c B])
  have f: "map2 (\<lambda>ub (xb, tb). vecmat (length xb) ub (mean_jac sd xb tb)) c (zip x ts)
      = map2 (\<lambda>cb J. vecmat d cb J) c (map2 (mean_jac sd) x ts)"
    using c x ts by (auto simp: is_mat_length is_mat_nth intro!: nth_equalityI)
  show ?thesis
    using x ts by (simp add: get_estimate_x_0_def t_rows_col is_mat_length r u un f)
qed

lemma jac_list:
  assumes x: "is_mat B d x" and ts: "length ts = B"
    and J: "\<And>v \<tau>. length v = d \<Longrightarrow> is_mat d d (mean_jac sd v \<tau>)"
  shows "length (map2 (mean_jac sd) x ts) = B"
    and "list_all (is_mat d d) (map2 (mean_jac sd) x ts)"
  using assms by (auto simp: is_mat_length is_mat_nth list_all_length)

lemma score_rows_is_mat:
  assumes "is_mat B d x" and "length ts = B"
    and "\<And>v \<tau>. length v = d \<Longrightarrow> length (score sd v \<tau>) = d"
  shows "is_mat B d (map2 (score sd) x ts)"
  using assms by (intro is_matI) (auto simp: is_mat_length is_mat_nth)

lemma eye_map_unit: "eye d = map (unit_vec d) [0..<d]"
  by (auto simp: eye_def unit_vec_def)

lemma ncols_eye: "0 < d \<Longrightarrow> ncols (eye d) = d"
  using is_mat_ncols [OF eye_is_mat] by simp

lemma vmap_pullback_unit:
  assumes len: "length Js = B" and JL: "list_all (is_mat d d) Js"
    and v: "\<And>c. is_mat B d c \<Longrightarrow> v c = Inr (map2 (\<lambda>cb J. vecmat d cb J) c Js)"
  shows "jax_vmap v (map (replicate B) (eye d)) = Inr (map (\<lambda>i. map (\<lambda>J. J ! i) Js) [0..<d])"
proof -
  have Jm: "\<And>b. b < B \<Longrightarrow> is_mat d d (Js ! b)" using JL len by (simp add: list_all_length)
  have "\<And>i. i \<in> set [0..<d] \<Longrightarrow>
      v (replicate B (unit_vec d i)) = Inr (map (\<lambda>J. J ! i) Js)"
  proof -
    fix i assume "i \<in> set [0..<d]"
    then have i: "i < d" by simp
    have m: "is_mat B d (replicate B (unit_vec d i))" by (intro is_matI) simp_all
    have "map2 (\<lambda>cb J. vecmat d cb J) (replicate B (unit_vec d i)) Js = map (\<lambda>J. J ! i) Js"
      using len Jm i by (auto intro!: nth_equalityI simp: vecmat_unit)
    then show "v (replicate B (unit_vec d i)) = Inr (map (\<lambda>J. J ! i) Js)"
      using v [OF m] by simp
  qed
  then have "sequence (map (\<lambda>i. v (replicate B (unit_vec d i))) [0..<d])
      = Inr (map (\<lambda>i. map (\<lambda>J. J ! i) Js) [0..<d])"
    by (rule sequence_map_Inr_on)
  then show ?thesis by (simp add: jax_vmap_def eye_map_unit comp_def)
qed

lemma rows_ten3:
  assumes len: "length Js = B" and JL: "list_all (is_mat d d) Js"
  shows "is_ten3 d B d (map (\<lambda>i. map (\<lambda>J. J ! i) Js) [0..<d])"
  using assms by (auto simp: is_ten3_def is_mat_def list_all_length)

lemma rows_transpose:
  assumes len: "length Js = B" and JL: "list_all (is_mat d d) Js" and d: "0 < d"
  shows "transpose_mat (map (\<lambda>i. map (\<lambda>J. J ! i) Js) [0..<d]) = Js"
proof -
  have Jm: "\<And>b. b < B \<Longrightarrow> is_mat d d (Js ! b)" using JL len by (simp add: list_all_length)
  let ?G = "map (\<lambda>i. map (\<lambda>J. J ! i) Js) [0..<d]"
  have G: "is_mat d B ?G" using len by (intro is_matI) simp_all
  have "transpose_mat ?G = map (\<lambda>j. map (\<lambda>row. row ! j) ?G) [0..<B]"
    by (rule transpose_mat_eq [OF G d])
  also have "\<dots> = Js"
  proof (rule nth_equalityI)
    show "length (map (\<lambda>j. map (\<lambda>row. row ! j) ?G) [0..<B]) = length Js" using len by simp
  next
    fix b assume "b < length (map (\<lambda>j. map (\<lambda>row. row ! j) ?G) [0..<B])"
    then have b: "b < B" by simp
    have l: "length (Js ! b) = d" using Jm [OF b] by (simp add: is_mat_length)
    have "map (\<lambda>i. Js ! b ! i) [0..<d] = Js ! b"
      using l by (auto intro!: nth_equalityI)
    then show "map (\<lambda>j. map (\<lambda>row. row ! j) ?G) [0..<B] ! b = Js ! b"
      using b len by (simp add: comp_def)
  qed
  finally show ?thesis .
qed

lemma batch_matmul_A3_eye:
  assumes "list_all (is_mat d k) T" and "0 < d"
  shows "batch_matmul_A3 (eye d) T = Inr T"
proof -
  have "sequence (map (matmul (eye d)) T) = Inr (map (\<lambda>M. M) T)"
    using assms by (intro sequence_map_Inr_on) (auto simp: list_all_iff matmul_eye)
  then show ?thesis by (simp add: batch_matmul_A3_def)
qed

lemma batch_matmul_A_eye:
  assumes "is_mat B d m" and "0 < d"
  shows "batch_matmul_A (eye d) m = Inr m"
proof -
  have "sequence (map (matvec (eye d)) m) = Inr (map (\<lambda>v. v) m)"
    using assms by (intro sequence_map_Inr_on) (auto simp: is_mat_def list_all_iff matvec_eye)
  then show ?thesis by (simp add: batch_matmul_A_def)
qed

lemma covariance_full_eq:
  assumes ts: "ts \<noteq> []" and M: "list_all (is_mat d d) M" and y: "is_mat B d y" and B: "0 < B"
  shows "covariance_full sd (TCol ts) (Inr M) noise_std y
     = Inr (map (\<lambda>A. map2 (map2 (+)) (smul_mat (ratio sd (hd ts)) A)
                       (smul_mat (noise_std ^ 2) (eye d))) M)"
proof -
  have n: "ncols y = d" by (rule is_mat_ncols [OF y B])
  have N: "is_mat d d (smul_mat (noise_std ^ 2) (eye d))"
    by (rule smul_mat_is_mat [OF eye_is_mat])
  have S: "list_all (is_mat d d) (smul_ten3 (ratio sd (hd ts)) M)"
    using M by (auto simp: smul_ten3_def list_all_iff smul_mat_is_mat)
  show ?thesis
    using add_ten3_mat_eq [OF S N]
    by (simp add: covariance_full_def t_index0_col [OF ts] n smul_ten3_def comp_def)
qed

lemma linalg_solve_length: "linalg_solve A b = Inr v \<Longrightarrow> length v = length b"
  by (auto simp: linalg_solve_def split: if_splits)

lemma batch_linalg_solve_is_mat:
  assumes "batch_linalg_solve C inn = Inr f" and "is_mat B d inn"
  shows "is_mat B d f"
proof -
  have len: "length C = length inn" and s: "sequence (map2 linalg_solve C inn) = Inr f"
    using assms(1) by (auto simp: batch_linalg_solve_def split: if_splits)
  have e: "map2 linalg_solve C inn = map Inr f" using s by (rule sequence_Inr_D)
  have lf: "length f = B" using arg_cong [OF e, of length] len assms(2) by (simp add: is_mat_length)
  show ?thesis
  proof (rule is_matI [OF lf])
    fix i assume i: "i < B"
    have "map2 linalg_solve C inn ! i = map Inr f ! i" using e by simp
    then have "linalg_solve (C ! i) (inn ! i) = Inr (f ! i)"
      using i len lf assms(2) by (simp add: is_mat_length)
    then show "length (f ! i) = d"
      using linalg_solve_length is_mat_nth [OF assms(2) i] by fastforce
  qed
qed

lemma tail_eq:
  assumes len: "length Js = B" and JL: "list_all (is_mat d d) Js"
    and f: "is_mat B d f" and s: "is_mat B d s" and B: "0 < B" and d: "0 < d"
  shows "and_then (batch_matmul (map transpose_mat Js) f) (\<lambda>ls.
           and_then (reshape2 (length s) (ncols s) (concat ls)) (\<lambda>ls. add_mat s ls))
       = Inr (map2 (map2 (+)) s (map2 (\<lambda>fb J. vecmat d fb J) f Js))"
proof -
  have Jm: "\<And>b. b < B \<Longrightarrow> is_mat d d (Js ! b)" using JL len by (simp add: list_all_length)
  let ?ls = "map2 (\<lambda>fb J. vecmat d fb J) f Js"
  have lf: "length f = B" using f by (rule is_mat_length)
  have "sequence (map2 matvec (map transpose_mat Js) f)
      = Inr (map2 (\<lambda>A fb. mv A fb) (map transpose_mat Js) f)"
  proof (rule sequence_map2_Inr [where n = B])
    show "length (map transpose_mat Js) = B" using len by simp
    show "length f = B" by (rule lf)
    fix i assume i: "i < B"
    have t: "is_mat d d (transpose_mat (Js ! i))" by (rule transpose_is_mat [OF Jm [OF i] d])
    show "matvec (map transpose_mat Js ! i) (f ! i) = Inr (mv (map transpose_mat Js ! i) (f ! i))"
      using i len matvec_ok [OF t is_mat_nth [OF f i] d] by simp
  qed
  moreover have "map2 (\<lambda>A fb. mv A fb) (map transpose_mat Js) f = ?ls"
  proof (rule nth_equalityI)
    show "length (map2 (\<lambda>A fb. mv A fb) (map transpose_mat Js) f) = length ?ls"
      using len lf by simp
  next
    fix i assume "i < length (map2 (\<lambda>A fb. mv A fb) (map transpose_mat Js) f)"
    then have i: "i < B" using len lf by simp
    show "map2 (\<lambda>A fb. mv A fb) (map transpose_mat Js) f ! i = ?ls ! i"
      using i len lf mv_transpose [OF Jm [OF i] d is_mat_nth [OF f i]] by simp
  qed
  ultimately have bm: "batch_matmul (map transpose_mat Js) f = Inr ?ls"
    using len lf by (simp add: batch_matmul_def)
  have lm: "is_mat B d ?ls"
    using len lf by (intro is_matI) (simp_all add: vecmat_def)
  have sh: "length s = B" "ncols s = d"
    using s B by (simp_all add: is_mat_length is_mat_ncols)
  show ?thesis
    by (simp add: bm sh reshape2_concat [OF lm] add_mat_eq [OF s lm])
qed

lemma map_nth_upt: "length xs = n \<Longrightarrow> map (\<lambda>i. xs ! i) [0..<n] = xs"
  by (auto intro!: nth_equalityI)

lemma jax_jacrev_identity:
  assumes xb: "length xb = d"
    and m: "length (mean_est sd xb tb) = d"
    and J: "is_mat d d (mean_jac sd xb tb)"
  shows "jax_jacrev (get_estimate_x_0_vmap sd identity_obs tb) xb = mean_jac sd xb tb"
proof -
  have "map (\<lambda>i. vecmat d (vecmat d (unit_vec d i) (eye d)) (mean_jac sd xb tb)) [0..<d]
      = map (\<lambda>i. mean_jac sd xb tb ! i) [0..<d]"
    using J by (auto simp: vecmat_eye vecmat_unit)
  also have "\<dots> = mean_jac sd xb tb"
    using J by (intro map_nth_upt) (simp add: is_mat_length)
  finally show ?thesis
    using xb m by (simp add: jax_jacrev_def get_estimate_x_0_vmap_def identity_obs_def Let_def)
qed

lemma jax_jacfwd_identity:
  assumes xb: "length xb = d"
    and m: "length (mean_est sd xb tb) = d"
    and J: "is_mat d d (mean_jac sd xb tb)"
  shows "jax_jacfwd (get_estimate_x_0_vmap sd identity_obs tb) xb = mean_jac sd xb tb"
proof -
  let ?J = "mean_jac sd xb tb"
  have c: "\<And>k. k < d \<Longrightarrow> mv (eye d) (mv ?J (unit_vec d k)) = map (\<lambda>row. row ! k) ?J"
    using J by (simp add: mv_unit mv_eye is_mat_length)
  have "map (\<lambda>i. map (\<lambda>col. col ! i) (map (\<lambda>k. mv (eye d) (mv ?J (unit_vec d k))) [0..<d])) [0..<d]
      = map (\<lambda>i. map (\<lambda>k. ?J ! i ! k) [0..<d]) [0..<d]"
    using J by (auto simp: c is_mat_length)
  also have "\<dots> = map (\<lambda>i. ?J ! i) [0..<d]"
    using J by (auto simp: is_mat_nth intro!: map_nth_upt)
  also have "\<dots> = ?J"
    using J by (intro map_nth_upt) (simp add: is_mat_length)
  finally show ?thesis
    using xb m by (simp add: jax_jacfwd_def get_estimate_x_0_vmap_def identity_obs_def Let_def)
qed

lemma jax_vmap2_jac:
  assumes x: "is_mat B d x" and ts: "length ts = B"
    and g: "\<And>xb tb. length xb = d \<Longrightarrow> g tb xb = mean_jac sd xb tb"
  shows "jax_vmap2 (\<lambda>xb tb. Inr (g tb xb)) x (TCol ts) = Inr (map2 (mean_jac sd) x ts)"
proof -
  have "sequence (map2 (\<lambda>xb tb. Inr (g tb xb)) x ts) = Inr (map2 (mean_jac sd) x ts)"
    using x ts by (intro sequence_map2_Inr [where n = B]) (simp_all add: is_mat_length is_mat_nth g)
  then show ?thesis using x ts by (simp add: jax_vmap2_def is_mat_length)
qed

lemma VJPAlt_batch_H_eye:
  assumes "0 < B"
  shows "VJPAlt_batch_H (eye d) (B, d) = Inr (map (replicate B) (eye d))"
  unfolding VJPAlt_batch_H_def axes_102
  using assms reshape2_concat [OF eye_is_mat, of d]
  by (simp add: jnp_transpose_def tile_def transpose_replicate)

lemma vjp_closure:
  assumes x: "is_mat B d x" and ts: "length ts = B" and B: "0 < B"
    and m: "\<And>v \<tau>. length v = d \<Longrightarrow> length (mean_est sd v \<tau>) = d"
    and shp: "shp = None \<or> shp = Some B"
    and c: "is_mat B d c"
  shows "(if shape2 c = shape2 (map2 (mean_est sd) x ts) \<and> rect c
          then pullback (get_estimate_x_0 sd identity_obs shp (TCol ts)) x c
          else Inl ShapeError)
     = Inr (map2 (\<lambda>cb J. vecmat d cb J) c (map2 (mean_jac sd) x ts))"
proof -
  have x0: "is_mat B d (map2 (mean_est sd) x ts)" by (rule mean_is_mat [OF x ts m])
  have "shape2 c = shape2 (map2 (mean_est sd) x ts)"
    by (simp only: shape2_def is_mat_length [OF c] is_mat_length [OF x0]
        is_mat_ncols [OF c B] is_mat_ncols [OF x0 B])
  then show ?thesis
    using is_mat_rect [OF c] est_pullback_identity [OF x ts B m shp c] by simp
qed

lemma jax_vjp_identity:
  assumes x: "is_mat B d x" and ts: "length ts = B" and B: "0 < B"
    and m: "\<And>v \<tau>. length v = d \<Longrightarrow> length (mean_est sd v \<tau>) = d"
    and shp: "shp = None \<or> shp = Some B"
  shows "jax_vjp (get_estimate_x_0 sd identity_obs shp (TCol ts)) x
     = Inr (map2 (mean_est sd) x ts,
            (\<lambda>c. if shape2 c = shape2 (map2 (mean_est sd) x ts) \<and> rect c
                 then pullback (get_estimate_x_0 sd identity_obs shp (TCol ts)) x c
                 else Inl ShapeError),
            map2 (score sd) x ts)"
proof -
  have "shp = None \<or> (shp = Some B \<and> 0 < B)" using shp B by blast
  from est_fwd_identity [OF x ts m this] show ?thesis by (simp add: jax_vjp_def)
qed

lemma vjp_cov:
  assumes x: "is_mat B d x" and y: "is_mat B d y" and ts: "length ts = B"
    and B: "0 < B" and d: "0 < d"
    and m: "\<And>v \<tau>. length v = d \<Longrightarrow> length (mean_est sd v \<tau>) = d"
    and J: "\<And>v \<tau>. length v = d \<Longrightarrow> is_mat d d (mean_jac sd v \<tau>)"
    and shp: "shp = None \<or> shp = Some B"
  shows "and_then (jax_vmap (\<lambda>c. if shape2 c = shape2 (map2 (mean_est sd) x ts) \<and> rect c
                 then pullback (get_estimate_x_0 sd identity_obs shp (TCol ts)) x c
                 else Inl ShapeError) (map (replicate B) (eye d))) (\<lambda>H_grad_x_0.
         and_then (reshape3 d B d (concat (concat H_grad_x_0))) (\<lambda>H_grad_x_0.
         and_then (covariance_full sd (TCol ts)
             (and_then (jnp_transpose [1, 2, 0] H_grad_x_0) (batch_matmul_A3 (eye d)))
             noise_std y) (\<lambda>C_yy. k H_grad_x_0 C_yy)))
     = k (map (\<lambda>i. map (\<lambda>J. J ! i) (map2 (mean_jac sd) x ts)) [0..<d])
         (map (\<lambda>A. map2 (map2 (+)) (smul_mat (ratio sd (hd ts)) (transpose_mat A))
                       (smul_mat (noise_std ^ 2) (eye d))) (map2 (mean_jac sd) x ts))"
proof -
  let ?Js = "map2 (mean_jac sd) x ts"
  let ?G = "map (\<lambda>i. map (\<lambda>J. J ! i) ?Js) [0..<d]"
  have jl: "length ?Js = B" "list_all (is_mat d d) ?Js"
    using x ts J by (simp_all add: is_mat_length is_mat_nth list_all_length)
  have vc: "\<And>c. is_mat B d c \<Longrightarrow>
      (if shape2 c = shape2 (map2 (mean_est sd) x ts) \<and> rect c
       then pullback (get_estimate_x_0 sd identity_obs shp (TCol ts)) x c
       else Inl ShapeError) = Inr (map2 (\<lambda>cb J. vecmat d cb J) c ?Js)"
    using vjp_closure [OF x ts B m shp] by simp
  have vm: "jax_vmap (\<lambda>c. if shape2 c = shape2 (map2 (mean_est sd) x ts) \<and> rect c
                 then pullback (get_estimate_x_0 sd identity_obs shp (TCol ts)) x c
                 else Inl ShapeError) (map (replicate B) (eye d)) = Inr ?G"
    by (rule vmap_pullback_unit [OF jl vc])
  have rs: "reshape3 d B d (concat (concat ?G)) = Inr ?G"
    by (rule reshape3_concat [OF rows_ten3 [OF jl]])
  have tr: "jnp_transpose [1, 2, 0] ?G = Inr (map transpose_mat ?Js)"
    by (simp only: jnp_transpose_def rows_transpose [OF jl d]) simp
  have T: "list_all (is_mat d d) (map transpose_mat ?Js)"
    using jl d by (auto simp: list_all_iff transpose_is_mat)
  have bm: "batch_matmul_A3 (eye d) (map transpose_mat ?Js) = Inr (map transpose_mat ?Js)"
    by (rule batch_matmul_A3_eye [OF T d])
  have ne: "ts \<noteq> []" using ts B by auto
  have cov: "covariance_full sd (TCol ts) (Inr (map transpose_mat ?Js)) noise_std y
      = Inr (map (\<lambda>A. map2 (map2 (+)) (smul_mat (ratio sd (hd ts)) (transpose_mat A))
                       (smul_mat (noise_std ^ 2) (eye d))) ?Js)"
    using covariance_full_eq [OF ne T y B] by (simp add: comp_def)
  show ?thesis by (simp only: vm rs tr bm cov and_then_Inr)
qed

section \<open>VJP, VJPAlt, JacRev and JacFwd under the identity observation\<close>

text \<open>
  Each of the four bodies reduces to one batched solve followed by the product with the
  transposed Jacobian. The matrix of the solve is built from the transposed Jacobian in
  VJP and VJPAlt and from the Jacobian itself in JacRev and JacFwd.
\<close>

lemma VJP_normal_form:
  assumes x: "is_mat B d x" and y: "is_mat B d y" and ts: "length ts = B"
    and B: "0 < B" and d: "0 < d"
    and m: "\<And>v \<tau>. length v = d \<Longrightarrow> length (mean_est sd v \<tau>) = d"
    and J: "\<And>v \<tau>. length v = d \<Longrightarrow> is_mat d d (mean_jac sd v \<tau>)"
    and s: "\<And>v \<tau>. length v = d \<Longrightarrow> length (score sd v \<tau>) = d"
  shows "guidance_score (VJP sd (eye d) y noise_std (B, d)) x (TCol ts)
     = and_then (batch_linalg_solve
          (map (\<lambda>A. map2 (map2 (+)) (smul_mat (ratio sd (hd ts)) (transpose_mat A))
                       (smul_mat (noise_std ^ 2) (eye d))) (map2 (mean_jac sd) x ts))
          (map2 (map2 (-)) y (map2 (mean_est sd) x ts)))
        (\<lambda>f. Inr (map2 (map2 (+)) (map2 (score sd) x ts)
                     (map2 (\<lambda>fb J. vecmat d fb J) f (map2 (mean_jac sd) x ts))))"
proof -
  let ?Js = "map2 (mean_jac sd) x ts"
  let ?x0 = "map2 (mean_est sd) x ts"
  let ?s = "map2 (score sd) x ts"
  let ?G = "map (\<lambda>i. map (\<lambda>J. J ! i) ?Js) [0..<d]"
  let ?C = "map (\<lambda>A. map2 (map2 (+)) (smul_mat (ratio sd (hd ts)) (transpose_mat A))
                       (smul_mat (noise_std ^ 2) (eye d))) ?Js"
  let ?inn = "map2 (map2 (-)) y ?x0"
  have jl: "length ?Js = B" "list_all (is_mat d d) ?Js"
    using x ts J by (simp_all add: is_mat_length is_mat_nth list_all_length)
  have x0: "is_mat B d ?x0" by (rule mean_is_mat [OF x ts m])
  have sm: "is_mat B d ?s" by (rule score_rows_is_mat [OF x ts s])
  have inn: "is_mat B d ?inn" by (rule map2_is_mat [OF y x0])
  have bH: "VJP_batch_H (eye d) (B, d) = Inr (map (replicate B) (eye d))"
    using B by (simp add: VJP_batch_H_eq)
  have shp: "Some B = None \<or> Some B = Some B" by simp
  have vjp: "jax_vjp (get_estimate_x_0 sd identity_obs (Some B) (TCol ts)) x
     = Inr (?x0,
            (\<lambda>c. if shape2 c = shape2 ?x0 \<and> rect c
                 then pullback (get_estimate_x_0 sd identity_obs (Some B) (TCol ts)) x c
                 else Inl ShapeError), ?s)"
    by (rule jax_vjp_identity [OF x ts B m shp])
  have bmA: "batch_matmul_A (eye d) ?x0 = Inr ?x0" by (rule batch_matmul_A_eye [OF x0 d])
  have sub: "sub_mat y ?x0 = Inr ?inn" by (rule sub_mat_eq [OF y x0])
  have C: "VJP_C_yy_innovation sd (eye d) y noise_std (B, d) (map (replicate B) (eye d)) x (TCol ts)
      = Inr (?C, ?inn, ?G, ?s)"
    unfolding VJP_C_yy_innovation_def Let_def fst_conv snd_conv
    by (simp only: vjp and_then_Inr prod.case length_eye ncols_eye [OF d]
        vjp_cov [OF x y ts B d m J shp] bmA sub)
  have tr: "jnp_transpose [1, 2, 0] ?G = Inr (map transpose_mat ?Js)"
    by (simp only: jnp_transpose_def rows_transpose [OF jl d]) simp
  have tail: "\<And>f. batch_linalg_solve ?C ?inn = Inr f \<Longrightarrow>
      and_then (jnp_transpose [1, 2, 0] ?G) (\<lambda>T.
        and_then (batch_matmul T f) (\<lambda>ls.
        and_then (reshape2 (length ?s) (ncols ?s) (concat ls)) (\<lambda>ls. add_mat ?s ls)))
      = Inr (map2 (map2 (+)) ?s (map2 (\<lambda>fb J. vecmat d fb J) f ?Js))"
  proof -
    fix f assume "batch_linalg_solve ?C ?inn = Inr f"
    then have f: "is_mat B d f" using inn by (rule batch_linalg_solve_is_mat)
    show "and_then (jnp_transpose [1, 2, 0] ?G) (\<lambda>T.
        and_then (batch_matmul T f) (\<lambda>ls.
        and_then (reshape2 (length ?s) (ncols ?s) (concat ls)) (\<lambda>ls. add_mat ?s ls)))
      = Inr (map2 (map2 (+)) ?s (map2 (\<lambda>fb J. vecmat d fb J) f ?Js))"
      by (simp only: tr and_then_Inr tail_eq [OF jl f sm B d])
  qed
  have "guidance_score (VJP sd (eye d) y noise_std (B, d)) x (TCol ts)
      = and_then (batch_linalg_solve ?C ?inn) (\<lambda>f.
          and_then (jnp_transpose [1, 2, 0] ?G) (\<lambda>T.
          and_then (batch_matmul T f) (\<lambda>ls.
          and_then (reshape2 (length ?s) (ncols ?s) (concat ls)) (\<lambda>ls. add_mat ?s ls))))"
    by (simp only: guidance_score_def get_guidance_score_func.simps bH and_then_Inr
        VJP_guidance_score_def C prod.case)
  also have "\<dots> = and_then (batch_linalg_solve ?C ?inn)
        (\<lambda>f. Inr (map2 (map2 (+)) ?s (map2 (\<lambda>fb J. vecmat d fb J) f ?Js)))"
    by (rule and_then_cong_Inr) (rule tail)
  finally show ?thesis .
qed

lemma VJPAlt_normal_form:
  assumes x: "is_mat B d x" and y: "is_mat B d y" and ts: "length ts = B"
    and B: "0 < B" and d: "0 < d"
    and m: "\<And>v \<tau>. length v = d \<Longrightarrow> length (mean_est sd v \<tau>) = d"
    and J: "\<And>v \<tau>. length v = d \<Longrightarrow> is_mat d d (mean_jac sd v \<tau>)"
    and s: "\<And>v \<tau>. length v = d \<Longrightarrow> length (score sd v \<tau>) = d"
  shows "guidance_score (VJPAlt sd (eye d) y noise_std (B, d)) x (TCol ts)
     = and_then (batch_linalg_solve
          (map (\<lambda>A. map2 (map2 (+)) (smul_mat (ratio sd (hd ts)) (transpose_mat A))
                       (smul_mat (noise_std ^ 2) (eye d))) (map2 (mean_jac sd) x ts))
          (map2 (map2 (-)) y (map2 (mean_est sd) x ts)))
        (\<lambda>f. Inr (map2 (map2 (+)) (map2 (score sd) x ts)
                     (map2 (\<lambda>fb J. vecmat d fb J) f (map2 (mean_jac sd) x ts))))"
proof -
  let ?Js = "map2 (mean_jac sd) x ts"
  let ?x0 = "map2 (mean_est sd) x ts"
  let ?s = "map2 (score sd) x ts"
  let ?C = "map (\<lambda>A. map2 (map2 (+)) (smul_mat (ratio sd (hd ts)) (transpose_mat A))
                       (smul_mat (noise_std ^ 2) (eye d))) ?Js"
  let ?inn = "map2 (map2 (-)) y ?x0"
  let ?v = "\<lambda>c. if shape2 c = shape2 ?x0 \<and> rect c
                 then pullback (get_estimate_x_0 sd identity_obs None (TCol ts)) x c
                 else Inl ShapeError"
  have jl: "length ?Js = B" "list_all (is_mat d d) ?Js"
    using x ts J by (simp_all add: is_mat_length is_mat_nth list_all_length)
  have x0: "is_mat B d ?x0" by (rule mean_is_mat [OF x ts m])
  have sm: "is_mat B d ?s" by (rule score_rows_is_mat [OF x ts s])
  have inn: "is_mat B d ?inn" by (rule map2_is_mat [OF y x0])
  have bH: "VJPAlt_batch_H (eye d) (B, d) = Inr (map (replicate B) (eye d))"
    by (rule VJPAlt_batch_H_eye [OF B])
  have shp: "None = None \<or> None = Some B" by simp
  have vjp: "jax_vjp (get_estimate_x_0 sd identity_obs None (TCol ts)) x = Inr (?x0, ?v, ?s)"
    by (rule jax_vjp_identity [OF x ts B m shp])
  have rx: "reshape_infer B (concat ?x0) = Inr ?x0" by (rule reshape_infer_concat [OF x0 B])
  have bmA: "batch_matmul_A (eye d) ?x0 = Inr ?x0" by (rule batch_matmul_A_eye [OF x0 d])
  have sub: "sub_mat y ?x0 = Inr ?inn" by (rule sub_mat_eq [OF y x0])
  have C: "VJPAlt_C_yy_innovation sd (eye d) y noise_std (B, d) (map (replicate B) (eye d)) x (TCol ts)
      = Inr (?C, ?inn, ?v, ?s)"
    unfolding VJPAlt_C_yy_innovation_def Let_def fst_conv snd_conv
    by (simp only: vjp and_then_Inr prod.case length_eye ncols_eye [OF d]
        vjp_cov [OF x y ts B d m J shp] rx bmA sub)
  have tail: "\<And>f. batch_linalg_solve ?C ?inn = Inr f \<Longrightarrow>
      and_then (batch_matmul_A (transpose_mat (eye d)) f) (\<lambda>Htf.
        and_then (reshape2 B d (concat Htf)) (\<lambda>c.
        and_then (?v c) (\<lambda>ls. add_mat ?s ls)))
      = Inr (map2 (map2 (+)) ?s (map2 (\<lambda>fb J. vecmat d fb J) f ?Js))"
  proof -
    fix f assume "batch_linalg_solve ?C ?inn = Inr f"
    then have f: "is_mat B d f" using inn by (rule batch_linalg_solve_is_mat)
    have vf: "?v f = Inr (map2 (\<lambda>fb J. vecmat d fb J) f ?Js)"
      by (rule vjp_closure [OF x ts B m shp f])
    have lm: "is_mat B d (map2 (\<lambda>fb J. vecmat d fb J) f ?Js)"
      using jl f by (intro is_matI) (simp_all add: vecmat_def is_mat_length)
    show "and_then (batch_matmul_A (transpose_mat (eye d)) f) (\<lambda>Htf.
        and_then (reshape2 B d (concat Htf)) (\<lambda>c.
        and_then (?v c) (\<lambda>ls. add_mat ?s ls)))
      = Inr (map2 (map2 (+)) ?s (map2 (\<lambda>fb J. vecmat d fb J) f ?Js))"
      by (simp only: transpose_eye [OF d] batch_matmul_A_eye [OF f d] and_then_Inr
          reshape2_concat [OF f] vf add_mat_eq [OF sm lm])
  qed
  have "guidance_score (VJPAlt sd (eye d) y noise_std (B, d)) x (TCol ts)
      = and_then (batch_linalg_solve ?C ?inn) (\<lambda>f.
          and_then (batch_matmul_A (transpose_mat (eye d)) f) (\<lambda>Htf.
          and_then (reshape2 B d (concat Htf)) (\<lambda>c.
          and_then (?v c) (\<lambda>ls. add_mat ?s ls))))"
    by (simp only: guidance_score_def get_guidance_score_func.simps bH and_then_Inr
        VJPAlt_guidance_score_def C prod.case fst_conv snd_conv)
  also have "\<dots> = and_then (batch_linalg_solve ?C ?inn)
        (\<lambda>f. Inr (map2 (map2 (+)) ?s (map2 (\<lambda>fb J. vecmat d fb J) f ?Js)))"
    by (rule and_then_cong_Inr) (rule tail)
  finally show ?thesis .
qed

lemma Jac_tail:
  assumes x: "is_mat B d x" and y: "is_mat B d y" and ts: "length ts = B"
    and B: "0 < B" and d: "0 < d"
    and m: "\<And>v \<tau>. length v = d \<Longrightarrow> length (mean_est sd v \<tau>) = d"
    and J: "\<And>v \<tau>. length v = d \<Longrightarrow> is_mat d d (mean_jac sd v \<tau>)"
    and s: "\<And>v \<tau>. length v = d \<Longrightarrow> length (score sd v \<tau>) = d"
    and g: "\<And>xb tb. length xb = d \<Longrightarrow> g tb xb = mean_jac sd xb tb"
  shows "and_then
      (and_then (fwd (get_estimate_x_0 sd identity_obs None (TCol ts)) x) (\<lambda>(h_x_0, s).
         and_then (jax_vmap2 (\<lambda>xb tb. Inr (g tb xb)) x (TCol ts)) (\<lambda>grad_H_x_0.
         and_then (covariance_full sd (TCol ts)
             (Inr (map (map (obs_fun identity_obs)) grad_H_x_0)) noise_std y) (\<lambda>C_yy.
            and_then (sub_mat y h_x_0) (\<lambda>innovation.
            Inr (C_yy, innovation, grad_H_x_0, s))))))
      (\<lambda>(C_yy, innovation, grad_H_x_0, s).
         and_then (batch_linalg_solve C_yy innovation) (\<lambda>f.
         and_then (jnp_transpose [0, 2, 1] grad_H_x_0) (\<lambda>T.
         and_then (batch_matmul T f) (\<lambda>ls.
         and_then (reshape2 (length s) (ncols s) (concat ls)) (\<lambda>ls.
         add_mat s ls)))))
     = and_then (batch_linalg_solve
          (map (\<lambda>A. map2 (map2 (+)) (smul_mat (ratio sd (hd ts)) A)
                       (smul_mat (noise_std ^ 2) (eye d))) (map2 (mean_jac sd) x ts))
          (map2 (map2 (-)) y (map2 (mean_est sd) x ts)))
        (\<lambda>f. Inr (map2 (map2 (+)) (map2 (score sd) x ts)
                     (map2 (\<lambda>fb J. vecmat d fb J) f (map2 (mean_jac sd) x ts))))"
proof -
  let ?Js = "map2 (mean_jac sd) x ts"
  let ?x0 = "map2 (mean_est sd) x ts"
  let ?s = "map2 (score sd) x ts"
  let ?C = "map (\<lambda>A. map2 (map2 (+)) (smul_mat (ratio sd (hd ts)) A)
                       (smul_mat (noise_std ^ 2) (eye d))) ?Js"
  let ?inn = "map2 (map2 (-)) y ?x0"
  have jl: "length ?Js = B" "list_all (is_mat d d) ?Js"
    using x ts J by (simp_all add: is_mat_length is_mat_nth list_all_length)
  have x0: "is_mat B d ?x0" by (rule mean_is_mat [OF x ts m])
  have sm: "is_mat B d ?s" by (rule score_rows_is_mat [OF x ts s])
  have inn: "is_mat B d ?inn" by (rule map2_is_mat [OF y x0])
  have shp: "None = None \<or> (None = Some B \<and> 0 < B)" by simp
  have fw: "fwd (get_estimate_x_0 sd identity_obs None (TCol ts)) x = Inr (?x0, ?s)"
    by (rule est_fwd_identity [OF x ts m shp])
  have vm: "jax_vmap2 (\<lambda>xb tb. Inr (g tb xb)) x (TCol ts) = Inr ?Js"
    by (rule jax_vmap2_jac [OF x ts g])
  have ob: "map (map (obs_fun identity_obs)) ?Js = ?Js"
    by (simp add: identity_obs_def)
  have ne: "ts \<noteq> []" using ts B by auto
  have cov: "covariance_full sd (TCol ts) (Inr ?Js) noise_std y = Inr ?C"
    by (rule covariance_full_eq [OF ne jl(2) y B])
  have sub: "sub_mat y ?x0 = Inr ?inn" by (rule sub_mat_eq [OF y x0])
  have tail: "\<And>f. batch_linalg_solve ?C ?inn = Inr f \<Longrightarrow>
      and_then (jnp_transpose [0, 2, 1] ?Js) (\<lambda>T.
        and_then (batch_matmul T f) (\<lambda>ls.
        and_then (reshape2 (length ?s) (ncols ?s) (concat ls)) (\<lambda>ls. add_mat ?s ls)))
      = Inr (map2 (map2 (+)) ?s (map2 (\<lambda>fb J. vecmat d fb J) f ?Js))"
  proof -
    fix f assume "batch_linalg_solve ?C ?inn = Inr f"
    then have f: "is_mat B d f" using inn by (rule batch_linalg_solve_is_mat)
    have tr: "jnp_transpose [0, 2, 1] ?Js = Inr (map transpose_mat ?Js)"
      by (simp add: jnp_transpose_def)
    show "and_then (jnp_transpose [0, 2, 1] ?Js) (\<lambda>T.
        and_then (batch_matmul T f) (\<lambda>ls.
        and_then (reshape2 (length ?s) (ncols ?s) (concat ls)) (\<lambda>ls. add_mat ?s ls)))
      = Inr (map2 (map2 (+)) ?s (map2 (\<lambda>fb J. vecmat d fb J) f ?Js))"
      by (simp only: tr and_then_Inr tail_eq [OF jl f sm B d])
  qed
  have "and_then
      (and_then (fwd (get_estimate_x_0 sd identity_obs None (TCol ts)) x) (\<lambda>(h_x_0, s).
         and_then (jax_vmap2 (\<lambda>xb tb. Inr (g tb xb)) x (TCol ts)) (\<lambda>grad_H_x_0.
         and_then (covariance_full sd (TCol ts)
             (Inr (map (map (obs_fun identity_obs)) grad_H_x_0)) noise_std y) (\<lambda>C_yy.
            and_then (sub_mat y h_x_0) (\<lambda>innovation.
            Inr (C_yy, innovation, grad_H_x_0, s))))))
      (\<lambda>(C_yy, innovation, grad_H_x_0, s).
         and_then (batch_linalg_solve C_yy innovation) (\<lambda>f.
         and_then (jnp_transpose [0, 2, 1] grad_H_x_0) (\<lambda>T.
         and_then (batch_matmul T f) (\<lambda>ls.
         and_then (reshape2 (length s) (ncols s) (concat ls)) (\<lambda>ls.
         add_mat s ls)))))
     = and_then (batch_linalg_solve ?C ?inn) (\<lambda>f.
          and_then (jnp_transpose [0, 2, 1] ?Js) (\<lambda>T.
          and_then (batch_matmul T f) (\<lambda>ls.
          and_then (reshape2 (length ?s) (ncols ?s) (concat ls)) (\<lambda>ls. add_mat ?s ls))))"
    by (simp only: fw and_then_Inr prod.case vm ob cov sub)
  also have "\<dots> = and_then (batch_linalg_solve ?C ?inn)
        (\<lambda>f. Inr (map2 (map2 (+)) ?s (map2 (\<lambda>fb J. vecmat d fb J) f ?Js)))"
    by (rule and_then_cong_Inr) (rule tail)
  finally show ?thesis .
qed

lemma JacRev_normal_form:
  assumes x: "is_mat B d x" and y: "is_mat B d y" and ts: "length ts = B"
    and B: "0 < B" and d: "0 < d"
    and m: "\<And>v \<tau>. length v = d \<Longrightarrow> length (mean_est sd v \<tau>) = d"
    and J: "\<And>v \<tau>. length v = d \<Longrightarrow> is_mat d d (mean_jac sd v \<tau>)"
    and s: "\<And>v \<tau>. length v = d \<Longrightarrow> length (score sd v \<tau>) = d"
  shows "guidance_score (JacRev sd identity_obs y noise_std (B, d)) x (TCol ts)
     = and_then (batch_linalg_solve
          (map (\<lambda>A. map2 (map2 (+)) (smul_mat (ratio sd (hd ts)) A)
                       (smul_mat (noise_std ^ 2) (eye d))) (map2 (mean_jac sd) x ts))
          (map2 (map2 (-)) y (map2 (mean_est sd) x ts)))
        (\<lambda>f. Inr (map2 (map2 (+)) (map2 (score sd) x ts)
                     (map2 (\<lambda>fb J. vecmat d fb J) f (map2 (mean_jac sd) x ts))))"
proof -
  have g: "\<And>xb tb. length xb = d \<Longrightarrow>
      jax_jacrev (get_estimate_x_0_vmap sd identity_obs tb) xb = mean_jac sd xb tb"
    using m J by (simp add: jax_jacrev_identity)
  show ?thesis
    unfolding guidance_score_def get_guidance_score_func.simps and_then_Inr
      JacRev_guidance_score_def JacRev_C_yy_innovation_def Let_def axes_021
    by (rule Jac_tail [OF x y ts B d m J s g])
qed

lemma JacFwd_normal_form:
  assumes x: "is_mat B d x" and y: "is_mat B d y" and ts: "length ts = B"
    and B: "0 < B" and d: "0 < d"
    and m: "\<And>v \<tau>. length v = d \<Longrightarrow> length (mean_est sd v \<tau>) = d"
    and J: "\<And>v \<tau>. length v = d \<Longrightarrow> is_mat d d (mean_jac sd v \<tau>)"
    and s: "\<And>v \<tau>. length v = d \<Longrightarrow> length (score sd v \<tau>) = d"
  shows "guidance_score (JacFwd sd identity_obs y noise_std (B, d)) x (TCol ts)
     = and_then (batch_linalg_solve
          (map (\<lambda>A. map2 (map2 (+)) (smul_mat (ratio sd (hd ts)) A)
                       (smul_mat (noise_std ^ 2) (eye d))) (map2 (mean_jac sd) x ts))
          (map2 (map2 (-)) y (map2 (mean_est sd) x ts)))
        (\<lambda>f. Inr (map2 (map2 (+)) (map2 (score sd) x ts)
                     (map2 (\<lambda>fb J. vecmat d fb J) f (map2 (mean_jac sd) x ts))))"
proof -
  have g: "\<And>xb tb. length xb = d \<Longrightarrow>
      jax_jacfwd (get_estimate_x_0_vmap sd identity_obs tb) xb = mean_jac sd xb tb"
    using m J by (simp add: jax_jacfwd_identity)
  show ?thesis
    unfolding guidance_score_def get_guidance_score_func.simps and_then_Inr
      JacFwd_guidance_score_def JacFwd_C_yy_innovation_def Let_def axes_021
    by (rule Jac_tail [OF x y ts B d m J s g])
qed

text \<open>
  Claim C3, as the code has it. With the identity observation map and \<open>H = I\<close>, the same
  handle, measurement, noise level and shape \<open>(B, d)\<close>, a batch \<open>x\<close> and a measurement of
  that shape and a time column of \<open>B\<close> entries (the handle keeps the size of a sample and
  its Jacobian is a \<open>d\<close> by \<open>d\<close> matrix): VJPAlt returns what VJP returns, JacFwd returns
  what JacRev returns, and all four return the same, in exact arithmetic, when the
  Jacobian of the posterior mean is symmetric at every sample of the batch. VJP and VJPAlt
  put the transposed Jacobian into \<open>C_yy\<close>, JacRev and JacFwd the Jacobian itself.
\<close>

theorem identity_observation_consistency:
  assumes x: "is_mat B d x" and y: "is_mat B d y" and ts: "length ts = B"
    and B: "0 < B" and d: "0 < d"
    and m: "\<And>v \<tau>. length v = d \<Longrightarrow> length (mean_est sd v \<tau>) = d"
    and J: "\<And>v \<tau>. length v = d \<Longrightarrow> is_mat d d (mean_jac sd v \<tau>)"
    and s: "\<And>v \<tau>. length v = d \<Longrightarrow> length (score sd v \<tau>) = d"
  shows "guidance_score (VJPAlt sd (eye d) y noise_std (B, d)) x (TCol ts)
           = guidance_score (VJP sd (eye d) y noise_std (B, d)) x (TCol ts)
       \<and> guidance_score (JacFwd sd identity_obs y noise_std (B, d)) x (TCol ts)
           = guidance_score (JacRev sd identity_obs y noise_std (B, d)) x (TCol ts)
       \<and> ((\<forall>b<B. transpose_mat (mean_jac sd (x ! b) (ts ! b)) = mean_jac sd (x ! b) (ts ! b))
            \<longrightarrow> guidance_score (VJP sd (eye d) y noise_std (B, d)) x (TCol ts)
                  = guidance_score (JacRev sd identity_obs y noise_std (B, d)) x (TCol ts))"
proof (intro conjI impI)
  show "guidance_score (VJPAlt sd (eye d) y noise_std (B, d)) x (TCol ts)
           = guidance_score (VJP sd (eye d) y noise_std (B, d)) x (TCol ts)"
    by (simp only: VJPAlt_normal_form [OF x y ts B d m J s] VJP_normal_form [OF x y ts B d m J s])
  show "guidance_score (JacFwd sd identity_obs y noise_std (B, d)) x (TCol ts)
           = guidance_score (JacRev sd identity_obs y noise_std (B, d)) x (TCol ts)"
    by (simp only: JacFwd_normal_form [OF x y ts B d m J s] JacRev_normal_form [OF x y ts B d m J s])
next
  assume sym: "\<forall>b<B. transpose_mat (mean_jac sd (x ! b) (ts ! b)) = mean_jac sd (x ! b) (ts ! b)"
  have lx: "length x = B" using x by (rule is_mat_length)
  have "map (\<lambda>A. map2 (map2 (+)) (smul_mat (ratio sd (hd ts)) (transpose_mat A))
                       (smul_mat (noise_std ^ 2) (eye d))) (map2 (mean_jac sd) x ts)
      = map (\<lambda>A. map2 (map2 (+)) (smul_mat (ratio sd (hd ts)) A)
                       (smul_mat (noise_std ^ 2) (eye d))) (map2 (mean_jac sd) x ts)"
    using sym lx ts by (intro nth_equalityI) simp_all
  then show "guidance_score (VJP sd (eye d) y noise_std (B, d)) x (TCol ts)
                  = guidance_score (JacRev sd identity_obs y noise_std (B, d)) x (TCol ts)"
    by (simp only: VJP_normal_form [OF x y ts B d m J s] JacRev_normal_form [OF x y ts B d m J s])
qed

text \<open>A handle with the symmetric Jacobian \<open>[[2, 1], [1, 2]]\<close>: the four variants agree.\<close>

lemma run_JacRev_symmetric:
  "guidance_score (JacRev (linear_sde [[2, 1], [1, 2]] 1 1) identity_obs [[1, 0], [0, 1]] 1 (2, 2))
     [[0, 0], [1, 1]] (TCol [1, 1])
   = Inr [[5 / 8, 1 / 8], [- (17 / 8), - (13 / 8)]]"
  by (simp add: variant_defs eval_simps)

theorem identity_observation_consistency_witness:
  "is_mat 2 2 ([[0, 0], [1, 1]] :: mat) \<and> is_mat 2 2 ([[1, 0], [0, 1]] :: mat)
   \<and> transpose_mat [[2, 1], [1, 2 :: real]] = [[2, 1], [1, 2]]
   \<and> guidance_score (VJPAlt (linear_sde [[2, 1], [1, 2]] 1 1) (eye 2) [[1, 0], [0, 1]] 1 (2, 2))
       [[0, 0], [1, 1]] (TCol [1, 1])
     = Inr [[5 / 8, 1 / 8], [- (17 / 8), - (13 / 8)]]
   \<and> guidance_score (VJP (linear_sde [[2, 1], [1, 2]] 1 1) (eye 2) [[1, 0], [0, 1]] 1 (2, 2))
       [[0, 0], [1, 1]] (TCol [1, 1])
     = Inr [[5 / 8, 1 / 8], [- (17 / 8), - (13 / 8)]]
   \<and> guidance_score (JacFwd (linear_sde [[2, 1], [1, 2]] 1 1) identity_obs [[1, 0], [0, 1]] 1 (2, 2))
       [[0, 0], [1, 1]] (TCol [1, 1])
     = Inr [[5 / 8, 1 / 8], [- (17 / 8), - (13 / 8)]]
   \<and> guidance_score (JacRev (linear_sde [[2, 1], [1, 2]] 1 1) identity_obs [[1, 0], [0, 1]] 1 (2, 2))
       [[0, 0], [1, 1]] (TCol [1, 1])
     = Inr [[5 / 8, 1 / 8], [- (17 / 8), - (13 / 8)]]"
proof -
  have x: "is_mat 2 2 ([[0, 0], [1, 1]] :: mat)" by (simp add: is_mat_def)
  have y: "is_mat 2 2 ([[1, 0], [0, 1]] :: mat)" by (simp add: is_mat_def)
  have ts: "length [1, 1 :: real] = 2" by simp
  have m: "\<And>v \<tau>. length v = 2 \<Longrightarrow> length (mean_est (linear_sde [[2, 1], [1, 2]] 1 1) v \<tau>) = 2"
    by (simp add: linear_sde_def mv_def)
  have J: "\<And>v \<tau>. length v = 2 \<Longrightarrow> is_mat 2 2 (mean_jac (linear_sde [[2, 1], [1, 2]] 1 1) v \<tau>)"
    by (simp add: linear_sde_def is_mat_def)
  have s: "\<And>v \<tau>. length v = 2 \<Longrightarrow> length (score (linear_sde [[2, 1], [1, 2]] 1 1) v \<tau>) = 2"
    by (simp add: linear_sde_def)
  have t: "transpose_mat [[2, 1], [1, 2 :: real]] = [[2, 1], [1, 2]]"
    by (simp add: transpose_mat_def ncols_def upt_num)
  have sym: "\<forall>b<2. transpose_mat (mean_jac (linear_sde [[2, 1], [1, 2]] 1 1)
                 ([[0, 0], [1, 1]] ! b) ([1, 1] ! b))
               = mean_jac (linear_sde [[2, 1], [1, 2]] 1 1) ([[0, 0], [1, 1]] ! b) ([1, 1] ! b)"
    using t by (simp add: linear_sde_def)
  show ?thesis
    using identity_observation_consistency [OF x y ts _ _ m J s, where noise_std = 1]
      sym run_JacRev_symmetric x y t
    by simp
qed

text \<open>
  A handle with the Jacobian \<open>[[1, 1], [0, 1]]\<close>, which is not symmetric: VJP and JacRev
  return different arrays.
\<close>

theorem identity_observation_counterexample:
  "guidance_score (VJP (linear_sde [[1, 1], [0, 1]] 1 1) (eye 2) [[1, 0], [0, 1]] 1 (2, 2))
       [[0, 0], [1, 1]] (TCol [1, 1])
     = Inr [[1 / 2, 1 / 4], [- 1, - (1 / 2)]]
   \<and> guidance_score (JacRev (linear_sde [[1, 1], [0, 1]] 1 1) identity_obs [[1, 0], [0, 1]] 1 (2, 2))
       [[0, 0], [1, 1]] (TCol [1, 1])
     = Inr [[1 / 2, 1 / 2], [- 1, - 1]]
   \<and> guidance_score (VJP (linear_sde [[1, 1], [0, 1]] 1 1) (eye 2) [[1, 0], [0, 1]] 1 (2, 2))
       [[0, 0], [1, 1]] (TCol [1, 1])
     \<noteq> guidance_score (JacRev (linear_sde [[1, 1], [0, 1]] 1 1) identity_obs [[1, 0], [0, 1]] 1 (2, 2))
       [[0, 0], [1, 1]] (TCol [1, 1])"
  using run_VJP run_JacRev by simp

end
